theory Spec2Isabelle
  imports Complex_Main "HOL-Library.Word"
begin

section \<open>Common conventions\<close>

text \<open>
  A C++ pointer is an \<open>option\<close>: \<open>None\<close> is \<open>nullptr\<close>.  Objects that are
  compared by identity (device buffers, textures, framebuffers, effects) are named by a
  handle (a natural number).  Every place where the C++ has undefined behaviour (a null
  dereference, an out-of-range read of a \<open>std::vector\<close>) is an error value of the model,
  and so is a loop that never ends (\<open>Diverges\<close>).
  Leading underscores of member names are dropped, since an Isabelle name cannot start
  with one.
\<close>

type_synonym handle = nat

datatype error = NullDereference | OutOfBounds | DanglingPointer | Diverges

section \<open>Device/state cache engine (engine.cpp)\<close>

text \<open>
  The graphics context \<open>_gl\<close> is an external collaborator.  It is modelled by the list
  of the calls issued to it (\<open>gl_log\<close>, oldest first), the set of the buffer objects it
  holds (\<open>gl_live\<close>) and the next name it hands out (\<open>gl_next\<close>).
\<close>

datatype gl_call =
    GLcreateBuffer handle
  | GLbindBuffer int "handle option"
  | GLbufferData int "real list" int
  | GLdeleteBuffer handle
  | GLbindFramebuffer int "handle option"
  | GLviewport int int int int
  | GLbindTexture nat "handle option"
  | GLgenerateMipmap nat
  | GLframebufferTexture2D int int int handle int

text \<open>
  The numeric values of the GL enumerators are those of OpenGL ES 2.0 (the header that
  declares them is not among the sources); the proofs only use that they are distinct.
\<close>

definition GL_ARRAY_BUFFER :: int where "GL_ARRAY_BUFFER = 34962"
definition GL_ELEMENT_ARRAY_BUFFER :: int where "GL_ELEMENT_ARRAY_BUFFER = 34963"
definition GL_STATIC_DRAW :: int where "GL_STATIC_DRAW = 35044"

text \<open>
  \<open>GL::IGLBuffer\<close>: the reference count is a 32-bit machine integer; decrementing it and
  comparing it with zero do not depend on its signedness.
\<close>

record glbuffer =
  references :: "32 word"
  capacity :: "32 word"
  is32Bits :: bool

text \<open>\<open>Viewport\<close>, with the fields \<open>setViewport\<close> reads.\<close>

record viewport =
  vp_x :: int
  vp_y :: int
  vp_width :: int
  vp_height :: int



record 's engine =
  gl_log :: "gl_call list"
  gl_live :: "handle set"
  gl_next :: handle
  buffers :: "handle \<rightharpoonup> glbuffer"
  currentBoundBuffer :: "int \<rightharpoonup> handle option"
  currentFramebuffer :: "handle option"
  currentRenderTarget :: "handle option"
  cachedViewport :: "viewport option"
  cachedVertexBuffers :: "handle option"
  cachedIndexBuffer :: "handle option"
  cachedEffectForVertexBuffers :: "handle option"
  currentEffect :: "handle option"
  activeTexturesCache :: "nat \<rightharpoonup> handle option"
  activeTexture :: nat
  maxTextureChannels :: nat
  canvas_width :: int
  canvas_height :: int
  renderStates :: 's

definition gl_issue :: "gl_call \<Rightarrow> 's engine \<Rightarrow> 's engine" where
  "gl_issue c s = s\<lparr>gl_log := gl_log s @ [c]\<rparr>"

text \<open>
  \<open>Engine::bindBuffer\<close>: the device call is issued when the target has no cached entry or
  the cached entry differs from the requested buffer.
\<close>

definition bindBuffer :: "handle option \<Rightarrow> int \<Rightarrow> 's engine \<Rightarrow> 's engine" where
  "bindBuffer buffer target s =
     (if currentBoundBuffer s target = None \<or> currentBoundBuffer s target \<noteq> Some buffer
      then (gl_issue (GLbindBuffer target buffer) s)
             \<lparr>currentBoundBuffer := (currentBoundBuffer s)(target \<mapsto> buffer)\<rparr>
      else s)"

definition bindArrayBuffer :: "handle option \<Rightarrow> 's engine \<Rightarrow> 's engine" where
  "bindArrayBuffer buffer s = bindBuffer buffer GL_ARRAY_BUFFER s"

definition bindIndexBuffer :: "handle option \<Rightarrow> 's engine \<Rightarrow> 's engine" where
  "bindIndexBuffer buffer s = bindBuffer buffer GL_ELEMENT_ARRAY_BUFFER s"

fun is_bindBuffer :: "gl_call \<Rightarrow> bool" where
  "is_bindBuffer (GLbindBuffer t b) = True"
| "is_bindBuffer c = False"

text \<open>The number of buffer-bind calls the device has received.\<close>

definition bind_calls :: "'s engine \<Rightarrow> nat" where
  "bind_calls s = length (filter is_bindBuffer (gl_log s))"

definition resetVertexBufferBinding :: "'s engine \<Rightarrow> 's engine" where
  "resetVertexBufferBinding s = (bindArrayBuffer None s)\<lparr>cachedVertexBuffers := None\<rparr>"

text \<open>
  \<open>_gl->createBuffer()\<close> belongs to the graphics context: it allocates a device buffer
  under a fresh name and returns the object that wraps it.
\<close>

definition gl_createBuffer :: "'s engine \<Rightarrow> handle \<times> 's engine" where
  "gl_createBuffer s =
     (let h = gl_next s in
      (h, (gl_issue (GLcreateBuffer h) s)
            \<lparr>gl_live := insert h (gl_live s), gl_next := Suc h,
             buffers := (buffers s)(h \<mapsto> \<lparr>references = 0, capacity = 0, is32Bits = False\<rparr>)\<rparr>))"

definition gl_deleteBuffer :: "handle \<Rightarrow> 's engine \<Rightarrow> 's engine" where
  "gl_deleteBuffer h s = (gl_issue (GLdeleteBuffer h) s)\<lparr>gl_live := gl_live s - {h}\<rparr>"

definition createVertexBuffer :: "real list \<Rightarrow> 's engine \<Rightarrow> handle \<times> 's engine" where
  "createVertexBuffer vertices s =
     (let (vbo, s1) = gl_createBuffer s;
          s2 = bindArrayBuffer (Some vbo) s1;
          s3 = gl_issue (GLbufferData GL_ARRAY_BUFFER vertices GL_STATIC_DRAW) s2;
          s4 = resetVertexBufferBinding s3;
          s5 = s4\<lparr>buffers := (buffers s4)(vbo :=
                 map_option (\<lambda>b. b\<lparr>references := 1\<rparr>) (buffers s4 vbo))\<rparr>
      in (vbo, s5))"

text \<open>
  \<open>Engine::_releaseBuffer\<close>: the count is decremented first; the device buffer is deleted
  and \<open>true\<close> returned exactly when the count has reached zero.
\<close>

definition releaseBuffer :: "handle option \<Rightarrow> 's engine \<Rightarrow> error + (bool \<times> 's engine)" where
  "releaseBuffer buffer s =
     (case buffer of
        None \<Rightarrow> Inl NullDereference
      | Some h \<Rightarrow>
          (case buffers s h of
             None \<Rightarrow> Inl DanglingPointer
           | Some b \<Rightarrow>
               (let b' = b\<lparr>references := references b - 1\<rparr>;
                    s1 = s\<lparr>buffers := (buffers s)(h \<mapsto> b')\<rparr>
                in if references b' = 0
                   then Inr (True, gl_deleteBuffer h s1)
                   else Inr (False, s1))))"





text \<open>\<open>Engine::setDirectViewport\<close> forgets the cached viewport.\<close>

definition setDirectViewport ::
  "int \<Rightarrow> int \<Rightarrow> int \<Rightarrow> int \<Rightarrow> 's engine \<Rightarrow> error + (viewport \<times> 's engine)" where
  "setDirectViewport x y width height s =
     (let currentViewport = cachedViewport s;
          s1 = gl_issue (GLviewport x y width height) (s\<lparr>cachedViewport := None\<rparr>)
      in case currentViewport of
           None \<Rightarrow> Inl NullDereference
         | Some vp \<Rightarrow> Inr (vp, s1))"







text \<open>
  The engine right after construction, with the render states left abstract: nothing is
  bound and nothing is cached.
\<close>

definition engine0 :: "unit engine" where
  "engine0 =
     \<lparr>gl_log = [], gl_live = {}, gl_next = 1, buffers = Map.empty,
      currentBoundBuffer = Map.empty, currentFramebuffer = None, currentRenderTarget = None,
      cachedViewport = None, cachedVertexBuffers = None, cachedIndexBuffer = None,
      cachedEffectForVertexBuffers = None, currentEffect = None,
      activeTexturesCache = Map.empty, activeTexture = 0, maxTextureChannels = 16,
      canvas_width = 640, canvas_height = 480, renderStates = ()\<rparr>"






section \<open>Vectors and rays (ray.cpp)\<close>

text \<open>
  A \<open>float\<close> is modelled by a real number: the model is the exact-arithmetic reading of
  the code.  The inputs of the closed theorems below are small integers and powers of
  two, on which binary32 arithmetic is exact as well.
\<close>

record vector3 =
  vx :: real
  vy :: real
  vz :: real

record ray =
  origin :: vector3
  direction :: vector3
  ray_length :: real

text \<open>\<open>std::numeric_limits<float>::max()\<close>, that is \<open>(2 - 2\<^sup>-\<^sup>2\<^sup>3) * 2\<^sup>1\<^sup>2\<^sup>7\<close>.\<close>

definition FLT_MAX :: real where
  "FLT_MAX = (2 ^ 24 - 1) * 2 ^ 104"

text \<open>
  The values of the \<open>float\<close> variables of \<open>Ray::intersectsBoxMinMax\<close>: a number, or the
  \<open>+\<infinity>\<close> that the function assigns to \<open>max\<close>.  \<open>float_less\<close> is \<open><\<close>, and
  \<open>float_max\<close> and \<open>float_min\<close> are \<open>std::max\<close> and \<open>std::min\<close>, which return their first
  argument unless the second one is greater, respectively smaller.
\<close>

datatype float_value = Finite real | PlusInfinity

fun float_less :: "float_value \<Rightarrow> float_value \<Rightarrow> bool" where
  "float_less (Finite a) (Finite b) = (a < b)"
| "float_less (Finite a) PlusInfinity = True"
| "float_less PlusInfinity b = False"

definition float_max :: "float_value \<Rightarrow> float_value \<Rightarrow> float_value" where
  "float_max a b = (if float_less a b then b else a)"

definition float_min :: "float_value \<Rightarrow> float_value \<Rightarrow> float_value" where
  "float_min a b = (if float_less b a then b else a)"

text \<open>
  One axis of \<open>Ray::intersectsBoxMinMax\<close>, which the source writes out three times: from
  the running interval \<open>(d, maxValue)\<close> to the next one, or \<open>None\<close> where the source
  returns \<open>false\<close>.  \<open>std_util::almost_equal\<close> is outside the sources: the parameter
  \<open>almost_equal_minus_infinity\<close> is the answer of
  \<open>almost_equal(max, -infinity)\<close> for the value of \<open>max\<close>.
\<close>

definition slab ::
  "(real \<Rightarrow> bool) \<Rightarrow> real \<Rightarrow> real \<Rightarrow> real \<Rightarrow> real \<Rightarrow> float_value \<times> float_value \<Rightarrow>
   (float_value \<times> float_value) option" where
  "slab almost_equal_minus_infinity o_c dir_c minimum_c maximum_c dm =
     (case dm of (d, maxValue) \<Rightarrow>
        if \<bar>dir_c\<bar> < 1 / 10 ^ 7
        then (if o_c < minimum_c \<or> o_c > maximum_c then None else Some (d, maxValue))
        else (let inv = 1 / dir_c;
                  mn = Finite ((minimum_c - o_c) * inv);
                  mx = (maximum_c - o_c) * inv;
                  mx1 = (if almost_equal_minus_infinity mx then PlusInfinity else Finite mx);
                  (mn', mx') = (if float_less mx1 mn then (mx1, mn) else (mn, mx1));
                  d' = float_max mn' d;
                  maxValue' = float_min mx' maxValue
              in if float_less maxValue' d' then None else Some (d', maxValue')))"

definition intersectsBoxMinMax :: "(real \<Rightarrow> bool) \<Rightarrow> ray \<Rightarrow> vector3 \<Rightarrow> vector3 \<Rightarrow> bool" where
  "intersectsBoxMinMax almost_equal_minus_infinity r minimum maximum =
     (case slab almost_equal_minus_infinity (vx (origin r)) (vx (direction r))
             (vx minimum) (vx maximum) (Finite 0, Finite FLT_MAX) of
        None \<Rightarrow> False
      | Some dm1 \<Rightarrow>
          (case slab almost_equal_minus_infinity (vy (origin r)) (vy (direction r))
                  (vy minimum) (vy maximum) dm1 of
             None \<Rightarrow> False
           | Some dm2 \<Rightarrow>
               (case slab almost_equal_minus_infinity (vz (origin r)) (vz (direction r))
                       (vz minimum) (vz maximum) dm2 of
                  None \<Rightarrow> False
                | Some dm3 \<Rightarrow> True)))"

text \<open>
  The slab method as the spec words it, as a condition on the parameter \<open>t\<close> of a point
  \<open>origin + t * direction\<close> of the ray: on an axis whose direction component is about
  zero the origin must lie within the slab, and on any other axis the point must.
  \<open>box_hit\<close> asks this of the three axes at once.
\<close>

definition axis_hit :: "real \<Rightarrow> real \<Rightarrow> real \<Rightarrow> real \<Rightarrow> real \<Rightarrow> bool" where
  "axis_hit o_c dir_c minimum_c maximum_c t =
     (if \<bar>dir_c\<bar> < 1 / 10 ^ 7
      then minimum_c \<le> o_c \<and> o_c \<le> maximum_c
      else minimum_c \<le> o_c + t * dir_c \<and> o_c + t * dir_c \<le> maximum_c)"

definition box_hit :: "ray \<Rightarrow> vector3 \<Rightarrow> vector3 \<Rightarrow> real \<Rightarrow> bool" where
  "box_hit r minimum maximum t =
     (axis_hit (vx (origin r)) (vx (direction r)) (vx minimum) (vx maximum) t
      \<and> axis_hit (vy (origin r)) (vy (direction r)) (vy minimum) (vy maximum) t
      \<and> axis_hit (vz (origin r)) (vz (direction r)) (vz minimum) (vz maximum) t)"

text \<open>The ray of the spec's example: from \<open>(0,0,-5)\<close> along \<open>(0,0,1)\<close>, of length \<open>10\<close>.\<close>

definition ray_z :: ray where
  "ray_z = \<lparr>origin = \<lparr>vx = 0, vy = 0, vz = -5\<rparr>,
            direction = \<lparr>vx = 0, vy = 0, vz = 1\<rparr>, ray_length = 10\<rparr>"

section \<open>The matrix and vector kernel\<close>

text \<open>
  Modelled from the spec: the 4x4 matrix and vector kernel (\<open>Matrix\<close>, \<open>Vector3\<close>), which
  the sources use and do not contain.  The spec gives its contract: matrix multiply and
  invert, and the transformation of a point by a matrix with perspective divide.  A
  matrix is its sixteen entries \<open>m[0] .. m[15]\<close>, row after row; vectors are rows, so that
  the translation of a transform is \<open>m[12], m[13], m[14]\<close>, as the sources read it.
\<close>

record matrix =
  m0 :: real
  m1 :: real
  m2 :: real
  m3 :: real
  m4 :: real
  m5 :: real
  m6 :: real
  m7 :: real
  m8 :: real
  m9 :: real
  m10 :: real
  m11 :: real
  m12 :: real
  m13 :: real
  m14 :: real
  m15 :: real

definition FromValues ::
  "real \<Rightarrow> real \<Rightarrow> real \<Rightarrow> real \<Rightarrow> real \<Rightarrow> real \<Rightarrow> real \<Rightarrow> real \<Rightarrow>
   real \<Rightarrow> real \<Rightarrow> real \<Rightarrow> real \<Rightarrow> real \<Rightarrow> real \<Rightarrow> real \<Rightarrow> real \<Rightarrow> matrix" where
  "FromValues a0 a1 a2 a3 a4 a5 a6 a7 a8 a9 a10 a11 a12 a13 a14 a15 =
     \<lparr>m0 = a0, m1 = a1, m2 = a2, m3 = a3, m4 = a4, m5 = a5, m6 = a6, m7 = a7,
      m8 = a8, m9 = a9, m10 = a10, m11 = a11, m12 = a12, m13 = a13, m14 = a14, m15 = a15\<rparr>"

definition Identity :: matrix where
  "Identity = FromValues 1 0 0 0  0 1 0 0  0 0 1 0  0 0 0 1"

text \<open>\<open>a.multiplyToRef(b, result)\<close>: the product \<open>a \<times> b\<close>.\<close>

definition multiply :: "matrix \<Rightarrow> matrix \<Rightarrow> matrix" where
  "multiply a b =
     \<lparr>m0 = m0 a * m0 b + m1 a * m4 b + m2 a * m8 b + m3 a * m12 b,
      m1 = m0 a * m1 b + m1 a * m5 b + m2 a * m9 b + m3 a * m13 b,
      m2 = m0 a * m2 b + m1 a * m6 b + m2 a * m10 b + m3 a * m14 b,
      m3 = m0 a * m3 b + m1 a * m7 b + m2 a * m11 b + m3 a * m15 b,
      m4 = m4 a * m0 b + m5 a * m4 b + m6 a * m8 b + m7 a * m12 b,
      m5 = m4 a * m1 b + m5 a * m5 b + m6 a * m9 b + m7 a * m13 b,
      m6 = m4 a * m2 b + m5 a * m6 b + m6 a * m10 b + m7 a * m14 b,
      m7 = m4 a * m3 b + m5 a * m7 b + m6 a * m11 b + m7 a * m15 b,
      m8 = m8 a * m0 b + m9 a * m4 b + m10 a * m8 b + m11 a * m12 b,
      m9 = m8 a * m1 b + m9 a * m5 b + m10 a * m9 b + m11 a * m13 b,
      m10 = m8 a * m2 b + m9 a * m6 b + m10 a * m10 b + m11 a * m14 b,
      m11 = m8 a * m3 b + m9 a * m7 b + m10 a * m11 b + m11 a * m15 b,
      m12 = m12 a * m0 b + m13 a * m4 b + m14 a * m8 b + m15 a * m12 b,
      m13 = m12 a * m1 b + m13 a * m5 b + m14 a * m9 b + m15 a * m13 b,
      m14 = m12 a * m2 b + m13 a * m6 b + m14 a * m10 b + m15 a * m14 b,
      m15 = m12 a * m3 b + m13 a * m7 b + m14 a * m11 b + m15 a * m15 b\<rparr>"

definition determinant :: "matrix \<Rightarrow> real" where
  "determinant m =
     (let l17 = m10 m * m15 m - m11 m * m14 m;
          l18 = m9 m * m15 m - m11 m * m13 m;
          l19 = m9 m * m14 m - m10 m * m13 m;
          l20 = m8 m * m15 m - m11 m * m12 m;
          l21 = m8 m * m14 m - m10 m * m12 m;
          l22 = m8 m * m13 m - m9 m * m12 m;
          l23 = m5 m * l17 - m6 m * l18 + m7 m * l19;
          l24 = - (m4 m * l17 - m6 m * l20 + m7 m * l21);
          l25 = m4 m * l18 - m5 m * l20 + m7 m * l22;
          l26 = - (m4 m * l19 - m5 m * l21 + m6 m * l22)
      in m0 m * l23 + m1 m * l24 + m2 m * l25 + m3 m * l26)"

text \<open>
  \<open>invert\<close>: the adjugate divided by the determinant.  (For a singular matrix the float
  code divides by zero; nothing is proved about that case.)
\<close>

definition invert :: "matrix \<Rightarrow> matrix" where
  "invert m =
     (let l1 = m0 m; l2 = m1 m; l3 = m2 m; l4 = m3 m;
          l5 = m4 m; l6 = m5 m; l7 = m6 m; l8 = m7 m;
          l9 = m8 m; l10 = m9 m; l11 = m10 m; l12 = m11 m;
          l13 = m12 m; l14 = m13 m; l15 = m14 m; l16 = m15 m;
          l17 = l11 * l16 - l12 * l15;
          l18 = l10 * l16 - l12 * l14;
          l19 = l10 * l15 - l11 * l14;
          l20 = l9 * l16 - l12 * l13;
          l21 = l9 * l15 - l11 * l13;
          l22 = l9 * l14 - l10 * l13;
          l23 = l6 * l17 - l7 * l18 + l8 * l19;
          l24 = - (l5 * l17 - l7 * l20 + l8 * l21);
          l25 = l5 * l18 - l6 * l20 + l8 * l22;
          l26 = - (l5 * l19 - l6 * l21 + l7 * l22);
          l27 = 1 / (l1 * l23 + l2 * l24 + l3 * l25 + l4 * l26);
          l28 = l7 * l16 - l8 * l15;
          l29 = l6 * l16 - l8 * l14;
          l30 = l6 * l15 - l7 * l14;
          l31 = l5 * l16 - l8 * l13;
          l32 = l5 * l15 - l7 * l13;
          l33 = l5 * l14 - l6 * l13;
          l34 = l7 * l12 - l8 * l11;
          l35 = l6 * l12 - l8 * l10;
          l36 = l6 * l11 - l7 * l10;
          l37 = l5 * l12 - l8 * l9;
          l38 = l5 * l11 - l7 * l9;
          l39 = l5 * l10 - l6 * l9
      in \<lparr>m0 = l23 * l27,
          m1 = - (l2 * l17 - l3 * l18 + l4 * l19) * l27,
          m2 = (l2 * l28 - l3 * l29 + l4 * l30) * l27,
          m3 = - (l2 * l34 - l3 * l35 + l4 * l36) * l27,
          m4 = l24 * l27,
          m5 = (l1 * l17 - l3 * l20 + l4 * l21) * l27,
          m6 = - (l1 * l28 - l3 * l31 + l4 * l32) * l27,
          m7 = (l1 * l34 - l3 * l37 + l4 * l38) * l27,
          m8 = l25 * l27,
          m9 = - (l1 * l18 - l2 * l20 + l4 * l22) * l27,
          m10 = (l1 * l29 - l2 * l31 + l4 * l33) * l27,
          m11 = - (l1 * l35 - l2 * l37 + l4 * l39) * l27,
          m12 = l26 * l27,
          m13 = (l1 * l19 - l2 * l21 + l3 * l22) * l27,
          m14 = - (l1 * l30 - l2 * l32 + l3 * l33) * l27,
          m15 = (l1 * l36 - l2 * l38 + l3 * l39) * l27\<rparr>)"

text \<open>\<open>Vector3::TransformCoordinatesToRef\<close>: the point as a row times the matrix, divided by \<open>w\<close>.\<close>

definition TransformCoordinates :: "vector3 \<Rightarrow> matrix \<Rightarrow> vector3" where
  "TransformCoordinates v t =
     (let x = vx v * m0 t + vy v * m4 t + vz v * m8 t + m12 t;
          y = vx v * m1 t + vy v * m5 t + vz v * m9 t + m13 t;
          z = vx v * m2 t + vy v * m6 t + vz v * m10 t + m14 t;
          w = vx v * m3 t + vy v * m7 t + vz v * m11 t + m15 t
      in \<lparr>vx = x / w, vy = y / w, vz = z / w\<rparr>)"

text \<open>\<open>getTranslation\<close> and \<open>setTranslation\<close>.\<close>

definition getTranslation :: "matrix \<Rightarrow> vector3" where
  "getTranslation m = \<lparr>vx = m12 m, vy = m13 m, vz = m14 m\<rparr>"

definition setTranslation :: "vector3 \<Rightarrow> matrix \<Rightarrow> matrix" where
  "setTranslation v m = m\<lparr>m12 := vx v, m13 := vy v, m14 := vz v\<rparr>"

text \<open>
  The adjugate and the product with a scalar are not functions of the kernel; they are
  used to state that \<open>invert\<close> is the inverse.
\<close>

definition adjugate :: "matrix \<Rightarrow> matrix" where
  "adjugate m =
     (let l1 = m0 m; l2 = m1 m; l3 = m2 m; l4 = m3 m;
          l5 = m4 m; l6 = m5 m; l7 = m6 m; l8 = m7 m;
          l9 = m8 m; l10 = m9 m; l11 = m10 m; l12 = m11 m;
          l13 = m12 m; l14 = m13 m; l15 = m14 m; l16 = m15 m;
          l17 = l11 * l16 - l12 * l15;
          l18 = l10 * l16 - l12 * l14;
          l19 = l10 * l15 - l11 * l14;
          l20 = l9 * l16 - l12 * l13;
          l21 = l9 * l15 - l11 * l13;
          l22 = l9 * l14 - l10 * l13;
          l23 = l6 * l17 - l7 * l18 + l8 * l19;
          l24 = - (l5 * l17 - l7 * l20 + l8 * l21);
          l25 = l5 * l18 - l6 * l20 + l8 * l22;
          l26 = - (l5 * l19 - l6 * l21 + l7 * l22);
          l28 = l7 * l16 - l8 * l15;
          l29 = l6 * l16 - l8 * l14;
          l30 = l6 * l15 - l7 * l14;
          l31 = l5 * l16 - l8 * l13;
          l32 = l5 * l15 - l7 * l13;
          l33 = l5 * l14 - l6 * l13;
          l34 = l7 * l12 - l8 * l11;
          l35 = l6 * l12 - l8 * l10;
          l36 = l6 * l11 - l7 * l10;
          l37 = l5 * l12 - l8 * l9;
          l38 = l5 * l11 - l7 * l9;
          l39 = l5 * l10 - l6 * l9
      in \<lparr>m0 = l23,
          m1 = - (l2 * l17 - l3 * l18 + l4 * l19),
          m2 = (l2 * l28 - l3 * l29 + l4 * l30),
          m3 = - (l2 * l34 - l3 * l35 + l4 * l36),
          m4 = l24,
          m5 = (l1 * l17 - l3 * l20 + l4 * l21),
          m6 = - (l1 * l28 - l3 * l31 + l4 * l32),
          m7 = (l1 * l34 - l3 * l37 + l4 * l38),
          m8 = l25,
          m9 = - (l1 * l18 - l2 * l20 + l4 * l22),
          m10 = (l1 * l29 - l2 * l31 + l4 * l33),
          m11 = - (l1 * l35 - l2 * l37 + l4 * l39),
          m12 = l26,
          m13 = (l1 * l19 - l2 * l21 + l3 * l22),
          m14 = - (l1 * l30 - l2 * l32 + l3 * l33),
          m15 = (l1 * l36 - l2 * l38 + l3 * l39)\<rparr>)"

definition smult :: "real \<Rightarrow> matrix \<Rightarrow> matrix" where
  "smult c m = \<lparr>m0 = m0 m * c, m1 = m1 m * c, m2 = m2 m * c, m3 = m3 m * c,
     m4 = m4 m * c, m5 = m5 m * c, m6 = m6 m * c, m7 = m7 m * c,
     m8 = m8 m * c, m9 = m9 m * c, m10 = m10 m * c, m11 = m11 m * c,
     m12 = m12 m * c, m13 = m13 m * c, m14 = m14 m * c, m15 = m15 m * c\<rparr>"

section \<open>Solid particle system (solid_particle_system.cpp)\<close>

record quaternion =
  qx :: real
  qy :: real
  qz :: real
  qw :: real

record vector4 =
  v4x :: real
  v4y :: real
  v4z :: real
  v4w :: real

record color4 =
  cr :: real
  cg :: real
  cb :: real
  ca :: real

text \<open>
  The fields of the scratch particle \<open>_copy\<close> that \<open>_resetCopy\<close> resets, that the
  user's callbacks may set and that \<open>_meshBuilder\<close> reads.
\<close>

record particle_copy =
  p_position :: vector3
  p_rotation :: vector3
  p_rotationQuaternion :: "quaternion option"
  p_scaling :: vector3
  p_uvs :: vector4
  p_color :: "color4 option"

text \<open>
  The user's callbacks are external: they receive the scratch particle (and the vertex)
  by reference and may change them, so the model takes them as functions that return
  the new values.  A null \<open>std::function\<close> is \<open>None\<close>.
\<close>

record mesh_builder_options =
  positionFunction :: "(particle_copy \<Rightarrow> 32 word \<Rightarrow> 32 word \<Rightarrow> particle_copy) option"
  vertexFunction :: "(particle_copy \<Rightarrow> vector3 \<Rightarrow> 32 word \<Rightarrow> particle_copy \<times> vector3) option"

record model_shape =
  shapeID :: "32 word"
  ms_shape :: "vector3 list"
  ms_shapeUV :: "real list"
  ms_positionFunction :: "(particle_copy \<Rightarrow> 32 word \<Rightarrow> 32 word \<Rightarrow> particle_copy) option"
  ms_vertexFunction :: "(particle_copy \<Rightarrow> vector3 \<Rightarrow> 32 word \<Rightarrow> particle_copy \<times> vector3) option"

text \<open>A \<open>SolidParticle\<close>, as \<open>_addParticle\<close> constructs it.\<close>

record solid_particle =
  sp_idx :: "32 word"
  sp_pos :: "32 word"
  sp_model :: model_shape
  sp_shapeId :: "32 word"
  sp_idxInShape :: "32 word"
  sp_bInfo :: "handle option"

text \<open>What \<open>addShape\<close> reads from the template mesh.\<close>

record mesh_data =
  meshPos :: "real list"
  meshInd :: "32 word list"
  meshUV :: "real list"
  meshCol :: "real list"
  meshNor :: "real list"
  mesh_boundingInfo :: "handle option"

text \<open>The mesh that \<open>buildMesh\<close> creates, with the vertex data applied to it.\<close>

record built_mesh =
  vd_positions :: "real list"
  vd_indices :: "32 word list"
  vd_normals :: "real list"
  vd_uvs :: "real list option"
  vd_colors :: "real list option"
  vd_updatable :: bool
  isPickable :: bool

text \<open>
  The particle system.  \<open>nbParticles\<close>, \<open>_index\<close> and \<open>_shapeCounter\<close> are 32-bit machine
  integers.  The scratch members (\<open>_copy\<close>, \<open>_color\<close>, \<open>_quaternion\<close>, \<open>_rotMatrix\<close>,
  \<open>_vertex\<close>, \<open>_rotated\<close>, \<open>_normal\<close>, \<open>_yaw\<close>, ...) are written before they are read in
  every function modelled here, so they are local values of the model.
\<close>

record sps =
  nbParticles :: "32 word"
  particles :: "solid_particle list"
  positions :: "real list"
  indices :: "32 word list"
  normals :: "real list"
  colors :: "real list"
  uvs :: "real list"
  positions32 :: "real list"
  normals32 :: "real list"
  fixedNormal32 :: "real list"
  colors32 :: "real list"
  uvs32 :: "real list"
  sps_index :: "32 word"
  updatable :: bool
  pickable :: bool
  recomputeNormals :: bool
  particlesIntersect :: bool
  shapeCounter :: "32 word"
  pickedParticles :: "(32 word \<times> 32 word) list"
  sps_mesh :: "built_mesh option"

text \<open>\<open>_resetCopy\<close>.\<close>

definition resetCopy :: particle_copy where
  "resetCopy =
     \<lparr>p_position = \<lparr>vx = 0, vy = 0, vz = 0\<rparr>,
      p_rotation = \<lparr>vx = 0, vy = 0, vz = 0\<rparr>,
      p_rotationQuaternion = None,
      p_scaling = \<lparr>vx = 1, vy = 1, vz = 1\<rparr>,
      p_uvs = \<lparr>v4x = 0, v4y = 0, v4z = 1, v4w = 1\<rparr>,
      p_color = None\<rparr>"

text \<open>\<open>_quaternionRotationYPR\<close>.\<close>

definition quaternionRotationYPR :: "real \<Rightarrow> real \<Rightarrow> real \<Rightarrow> quaternion" where
  "quaternionRotationYPR yaw pitch roll =
     (let halfroll = roll * (1 / 2);
          halfpitch = pitch * (1 / 2);
          halfyaw = yaw * (1 / 2);
          sinRoll = sin halfroll;
          cosRoll = cos halfroll;
          sinPitch = sin halfpitch;
          cosPitch = cos halfpitch;
          sinYaw = sin halfyaw;
          cosYaw = cos halfyaw
      in \<lparr>qx = cosYaw * sinPitch * cosRoll + sinYaw * cosPitch * sinRoll,
          qy = sinYaw * cosPitch * cosRoll - cosYaw * sinPitch * sinRoll,
          qz = cosYaw * cosPitch * sinRoll - sinYaw * sinPitch * cosRoll,
          qw = cosYaw * cosPitch * cosRoll + sinYaw * sinPitch * sinRoll\<rparr>)"

text \<open>\<open>_quaternionToRotationMatrix\<close>.\<close>

definition quaternionToRotationMatrix :: "quaternion \<Rightarrow> matrix" where
  "quaternionToRotationMatrix q =
     \<lparr>m0 = 1 - 2 * (qy q * qy q + qz q * qz q),
      m1 = 2 * (qx q * qy q + qz q * qw q),
      m2 = 2 * (qz q * qx q - qy q * qw q),
      m3 = 0,
      m4 = 2 * (qx q * qy q - qz q * qw q),
      m5 = 1 - 2 * (qz q * qz q + qx q * qx q),
      m6 = 2 * (qy q * qz q + qx q * qw q),
      m7 = 0,
      m8 = 2 * (qz q * qx q + qy q * qw q),
      m9 = 2 * (qy q * qz q - qx q * qw q),
      m10 = 1 - 2 * (qy q * qy q + qx q * qx q),
      m11 = 0, m12 = 0, m13 = 0, m14 = 0, m15 = 1\<rparr>"

text \<open>
  \<open>_posToShape\<close>: the loop steps by three and reads \<open>positions[i + 1]\<close> and
  \<open>positions[i + 2]\<close> unchecked, out of range when the length is not a multiple of three.
\<close>

fun posToShape :: "real list \<Rightarrow> error + vector3 list" where
  "posToShape [] = Inr []"
| "posToShape (a # b # c # rest) =
     (case posToShape rest of
        Inl e \<Rightarrow> Inl e
      | Inr shape \<Rightarrow> Inr (\<lparr>vx = a, vy = b, vz = c\<rparr> # shape))"
| "posToShape rest = Inl OutOfBounds"

definition uvsToShapeUV :: "real list \<Rightarrow> real list" where
  "uvsToShapeUV us = (if us \<noteq> [] then us else [])"

text \<open>The values that the loop over the shape's vertices in \<open>_meshBuilder\<close> carries.\<close>

record builder =
  b_copy :: particle_copy
  b_u :: nat
  b_c :: nat
  b_n :: nat
  b_positions :: "real list"
  b_uvs :: "real list"
  b_colors :: "real list"

text \<open>
  One round of the loop over the shape in \<open>_meshBuilder\<close>, for the vertex \<open>v\<close> of index
  \<open>si\<close>.  The normal that is rotated when \<open>recomputeNormals\<close> is off is not stored (the
  store is commented out in the source); only its counter advances.
\<close>

definition meshBuilder_vertex ::
  "mesh_builder_options \<Rightarrow> bool \<Rightarrow> matrix \<Rightarrow> real list \<Rightarrow> real list \<Rightarrow> real list \<Rightarrow>
   vector3 \<Rightarrow> nat \<Rightarrow> builder \<Rightarrow> error + builder" where
  "meshBuilder_vertex options recompute rotMatrix mUV mCol mNor v si b =
     (let (copy, vertex) =
            (case vertexFunction options of
               None \<Rightarrow> (b_copy b, v)
             | Some f \<Rightarrow> f (b_copy b) v (of_nat si));
          scaled = \<lparr>vx = vx vertex * vx (p_scaling copy),
                    vy = vy vertex * vy (p_scaling copy),
                    vz = vz vertex * vz (p_scaling copy)\<rparr>;
          rotated = TransformCoordinates scaled rotMatrix;
          ps = b_positions b @ [vx (p_position copy) + vx rotated,
                                vy (p_position copy) + vy rotated,
                                vz (p_position copy) + vz rotated];
          col = (case p_color copy of
                   Some k \<Rightarrow> k
                 | None \<Rightarrow>
                     if mCol \<noteq> [] \<and> b_c b + 3 < length mCol
                     then \<lparr>cr = mCol ! b_c b, cg = mCol ! (b_c b + 1),
                           cb = mCol ! (b_c b + 2), ca = mCol ! (b_c b + 3)\<rparr>
                     else \<lparr>cr = 1, cg = 1, cb = 1, ca = 1\<rparr>);
          cs = b_colors b @ [cr col, cg col, cb col, ca col];
          n' = (if \<not> recompute \<and> b_n b + 3 < length mNor then b_n b + 3 else b_n b)
      in if mUV \<noteq> []
         then (if b_u b + 1 < length mUV
               then Inr \<lparr>b_copy = copy, b_u = b_u b + 2, b_c = b_c b + 4, b_n = n',
                         b_positions = ps,
                         b_uvs = b_uvs b @
                           [(v4z (p_uvs copy) - v4x (p_uvs copy)) * (mUV ! b_u b) + v4x (p_uvs copy),
                            (v4w (p_uvs copy) - v4y (p_uvs copy)) * (mUV ! (b_u b + 1)) + v4y (p_uvs copy)],
                         b_colors = cs\<rparr>
               else Inl OutOfBounds)
         else Inr \<lparr>b_copy = copy, b_u = b_u b, b_c = b_c b + 4, b_n = n',
                   b_positions = ps, b_uvs = b_uvs b, b_colors = cs\<rparr>)"

fun meshBuilder_loop ::
  "mesh_builder_options \<Rightarrow> bool \<Rightarrow> matrix \<Rightarrow> real list \<Rightarrow> real list \<Rightarrow> real list \<Rightarrow>
   vector3 list \<Rightarrow> nat \<Rightarrow> builder \<Rightarrow> error + builder" where
  "meshBuilder_loop options recompute rotMatrix mUV mCol mNor [] si b = Inr b"
| "meshBuilder_loop options recompute rotMatrix mUV mCol mNor (v # vs) si b =
     (case meshBuilder_vertex options recompute rotMatrix mUV mCol mNor v si b of
        Inl e \<Rightarrow> Inl e
      | Inr b' \<Rightarrow> meshBuilder_loop options recompute rotMatrix mUV mCol mNor vs (Suc si) b')"

text \<open>
  \<open>_meshBuilder\<close>, on the system's own arrays (the only arguments it is called with).
  The loop counter over the shape is a 32-bit unsigned: a shape of \<open>2\<^sup>3\<^sup>2\<close> vertices or
  more would never be left.
\<close>

definition meshBuilder ::
  "32 word \<Rightarrow> vector3 list \<Rightarrow> 32 word list \<Rightarrow> real list \<Rightarrow> real list \<Rightarrow> real list \<Rightarrow>
   32 word \<Rightarrow> 32 word \<Rightarrow> mesh_builder_options \<Rightarrow> sps \<Rightarrow> error + sps" where
  "meshBuilder p shape mInd mUV mCol mNor idx idxInShape options s =
     (let copy0 = (case positionFunction options of
                     None \<Rightarrow> resetCopy
                   | Some f \<Rightarrow> f resetCopy idx idxInShape);
          quat = (case p_rotationQuaternion copy0 of
                    Some q \<Rightarrow> q
                  | None \<Rightarrow> quaternionRotationYPR (vy (p_rotation copy0))
                              (vx (p_rotation copy0)) (vz (p_rotation copy0)));
          rotMatrix = quaternionToRotationMatrix quat
      in if length shape \<ge> 2 ^ 32 then Inl Diverges
         else
           (case meshBuilder_loop options (recomputeNormals s) rotMatrix mUV mCol mNor shape 0
                   \<lparr>b_copy = copy0, b_u = 0, b_c = 0, b_n = 0, b_positions = positions s,
                    b_uvs = uvs s, b_colors = colors s\<rparr> of
              Inl e \<Rightarrow> Inl e
            | Inr b \<Rightarrow>
                Inr (s\<lparr>positions := b_positions b, uvs := b_uvs b, colors := b_colors b,
                       indices := indices s @ map (\<lambda>i. p + i) mInd,
                       pickedParticles := pickedParticles s @
                         (if pickable s
                          then map (\<lambda>i. (idx, of_nat i)) [0 ..< length mInd div 3]
                          else [])\<rparr>)))"

text \<open>\<open>_addParticle\<close>.\<close>

definition addParticle ::
  "32 word \<Rightarrow> 32 word \<Rightarrow> model_shape \<Rightarrow> 32 word \<Rightarrow> 32 word \<Rightarrow> handle option \<Rightarrow> sps \<Rightarrow> sps" where
  "addParticle idx idxpos model shapeId idxInShape bInfo s =
     s\<lparr>particles := particles s @
         [\<lparr>sp_idx = idx, sp_pos = idxpos, sp_model = model, sp_shapeId = shapeId,
           sp_idxInShape = idxInShape, sp_bInfo = bInfo\<rparr>]\<rparr>"

text \<open>
  The loop of \<open>addShape\<close>: \<open>k\<close> rounds are left, \<open>i\<close> is the loop counter and \<open>idx\<close> the
  index of the next particle.
\<close>

fun addShape_loop ::
  "mesh_data \<Rightarrow> vector3 list \<Rightarrow> model_shape \<Rightarrow> handle option \<Rightarrow> mesh_builder_options \<Rightarrow>
   nat \<Rightarrow> 32 word \<Rightarrow> 32 word \<Rightarrow> sps \<Rightarrow> error + sps" where
  "addShape_loop iMesh shape modelShape bbInfo options 0 i idx s = Inr s"
| "addShape_loop iMesh shape modelShape bbInfo options (Suc k) i idx s =
     (case meshBuilder (sps_index s) shape (meshInd iMesh) (meshUV iMesh) (meshCol iMesh)
             (meshNor iMesh) idx i options s of
        Inl e \<Rightarrow> Inl e
      | Inr s1 \<Rightarrow>
          (let s2 = (if updatable s1
                     then addParticle idx (of_nat (length (positions s1))) modelShape
                            (shapeCounter s1) i bbInfo s1
                     else s1);
               s3 = s2\<lparr>sps_index := sps_index s2 + of_nat (length shape)\<rparr>
           in addShape_loop iMesh shape modelShape bbInfo options k (i + 1) (idx + 1) s3))"

text \<open>
  \<open>addShape\<close>.  The count \<open>nb\<close> is a \<open>size_t\<close> and the loop counter a 32-bit unsigned:
  with \<open>nb \<ge> 2\<^sup>3\<^sup>2\<close> the counter wraps before it reaches \<open>nb\<close> and the loop never ends.
  The result is the identifier of the new shape together with the new state.
\<close>

definition addShape ::
  "mesh_data \<Rightarrow> nat \<Rightarrow> mesh_builder_options \<Rightarrow> sps \<Rightarrow> error + (32 word \<times> sps)" where
  "addShape iMesh nb options s =
     (let bbInfo = (if particlesIntersect s then mesh_boundingInfo iMesh else None)
      in case posToShape (meshPos iMesh) of
           Inl e \<Rightarrow> Inl e
         | Inr shape \<Rightarrow>
             (let shapeUV = uvsToShapeUV (meshUV iMesh);
                  modelShape = \<lparr>shapeID = shapeCounter s, ms_shape = shape, ms_shapeUV = shapeUV,
                                ms_positionFunction = positionFunction options,
                                ms_vertexFunction = vertexFunction options\<rparr>
              in if nb \<ge> 2 ^ 32 then Inl Diverges
                 else
                   (case addShape_loop iMesh shape modelShape bbInfo options nb 0
                           (nbParticles s) s of
                      Inl e \<Rightarrow> Inl e
                    | Inr s1 \<Rightarrow>
                        Inr (shapeCounter s1,
                             s1\<lparr>nbParticles := nbParticles s1 + of_nat nb,
                                shapeCounter := shapeCounter s1 + 1\<rparr>))))"

text \<open>
  \<open>buildMesh\<close>.  \<open>VertexData::ComputeNormals\<close> is outside the sources and is a parameter:
  from the positions, the indices and the old normals to the new normals.  The disc that
  is created and disposed of when there is no particle leaves the system as it is.
\<close>

definition buildMesh ::
  "(real list \<Rightarrow> 32 word list \<Rightarrow> real list \<Rightarrow> real list) \<Rightarrow> sps \<Rightarrow> built_mesh \<times> sps" where
  "buildMesh ComputeNormals s =
     (let s1 = s\<lparr>positions32 := positions s, uvs32 := uvs s, colors32 := colors s\<rparr>;
          s2 = (if recomputeNormals s1
                then s1\<lparr>normals := ComputeNormals (positions32 s1) (indices s1) (normals s1)\<rparr>
                else s1);
          s3 = s2\<lparr>normals32 := normals s2, fixedNormal32 := normals s2\<rparr>;
          built = \<lparr>vd_positions = positions32 s3, vd_indices = indices s3,
                   vd_normals = normals32 s3,
                   vd_uvs = (if uvs32 s3 \<noteq> [] then Some (uvs32 s3) else None),
                   vd_colors = (if colors32 s3 \<noteq> [] then Some (colors32 s3) else None),
                   vd_updatable = updatable s3, isPickable = pickable s3\<rparr>;
          s4 = s3\<lparr>sps_mesh := Some built, positions := [], normals := [], uvs := [],
                  colors := []\<rparr>;
          s5 = (if \<not> updatable s4 then s4\<lparr>particles := []\<rparr> else s4)
      in (built, s5))"

text \<open>A sequence of \<open>addShape\<close> calls, each with its mesh, its count and its options.\<close>

fun addShapes :: "(mesh_data \<times> nat \<times> mesh_builder_options) list \<Rightarrow> sps \<Rightarrow> error + sps" where
  "addShapes [] s = Inr s"
| "addShapes ((iMesh, nb, options) # calls) s =
     (case addShape iMesh nb options s of
        Inl e \<Rightarrow> Inl e
      | Inr (shapeId, s1) \<Rightarrow> addShapes calls s1)"

text \<open>The number of vertices of a template mesh whose position array is well formed.\<close>

definition shapeVertexCount :: "mesh_data \<Rightarrow> nat" where
  "shapeVertexCount iMesh = length (meshPos iMesh) div 3"

fun total_count :: "(mesh_data \<times> nat \<times> mesh_builder_options) list \<Rightarrow> nat" where
  "total_count [] = 0"
| "total_count ((iMesh, nb, options) # calls) = nb + total_count calls"

fun total_entries :: "(mesh_data \<times> nat \<times> mesh_builder_options) list \<Rightarrow> nat" where
  "total_entries [] = 0"
| "total_entries ((iMesh, nb, options) # calls) =
     nb * (shapeVertexCount iMesh * 3) + total_entries calls"

text \<open>
  A call that \<open>addShape\<close> completes: the position array holds whole vertices, fewer than
  \<open>2\<^sup>3\<^sup>2\<close> of them, the uv array is empty or holds two entries for every vertex, and the
  count is below \<open>2\<^sup>3\<^sup>2\<close>.
\<close>

definition well_formed_call :: "mesh_data \<times> nat \<times> mesh_builder_options \<Rightarrow> bool" where
  "well_formed_call call =
     (case call of (iMesh, nb, options) \<Rightarrow>
        length (meshPos iMesh) mod 3 = 0 \<and> shapeVertexCount iMesh < 2 ^ 32
        \<and> (meshUV iMesh = [] \<or> 2 * shapeVertexCount iMesh \<le> length (meshUV iMesh))
        \<and> nb < 2 ^ 32)"

text \<open>The system right after its construction (not updatable, not pickable).\<close>

definition sps0 :: sps where
  "sps0 =
     \<lparr>nbParticles = 0, particles = [], positions = [], indices = [], normals = [],
      colors = [], uvs = [], positions32 = [], normals32 = [], fixedNormal32 = [],
      colors32 = [], uvs32 = [], sps_index = 0, updatable = False, pickable = False,
      recomputeNormals = True, particlesIntersect = False, shapeCounter = 0,
      pickedParticles = [], sps_mesh = None\<rparr>"

text \<open>A square of four vertices and two triangles, and a mesh with no vertex at all.\<close>

definition quad_mesh :: mesh_data where
  "quad_mesh =
     \<lparr>meshPos = [0, 0, 0,  1, 0, 0,  1, 1, 0,  0, 1, 0],
      meshInd = [0, 1, 2,  0, 2, 3],
      meshUV = [], meshCol = [], meshNor = [], mesh_boundingInfo = None\<rparr>"

definition empty_mesh :: mesh_data where
  "empty_mesh =
     \<lparr>meshPos = [], meshInd = [], meshUV = [], meshCol = [], meshNor = [],
      mesh_boundingInfo = None\<rparr>"

definition no_options :: mesh_builder_options where
  "no_options = \<lparr>positionFunction = None, vertexFunction = None\<rparr>"

text \<open>
  The sizes of the slices of the position array that a sequence of calls appends, one
  slice for every instance, in the order of the calls.
\<close>

fun slice_sizes :: "(mesh_data \<times> nat \<times> mesh_builder_options) list \<Rightarrow> nat list" where
  "slice_sizes [] = []"
| "slice_sizes ((iMesh, nb, options) # calls) =
     replicate nb (shapeVertexCount iMesh * 3) @ slice_sizes calls"

text \<open>The value of \<open>nbParticles\<close> after a sequence of calls, when they all return.\<close>

definition nbParticles_after ::
  "(mesh_data \<times> nat \<times> mesh_builder_options) list \<Rightarrow> sps \<Rightarrow> nat option" where
  "nbParticles_after calls s =
     (case addShapes calls s of Inl e \<Rightarrow> None | Inr s' \<Rightarrow> Some (unat (nbParticles s')))"

text \<open>The fields of the system that \<open>_meshBuilder\<close> and \<open>_addParticle\<close> leave alone.\<close>

definition same_settings :: "sps \<Rightarrow> sps \<Rightarrow> bool" where
  "same_settings s s' \<longleftrightarrow>
     nbParticles s' = nbParticles s \<and> updatable s' = updatable s
     \<and> pickable s' = pickable s \<and> recomputeNormals s' = recomputeNormals s
     \<and> particlesIntersect s' = particlesIntersect s \<and> shapeCounter s' = shapeCounter s"

section \<open>Bone hierarchy (bone.cpp)\<close>

datatype space = LOCAL | WORLD

text \<open>
  Modelled from the spec: the animation track (\<open>Animation\<close>), which the sources use and do
  not contain: a sequence of keyframes, each a frame number with a matrix, and named
  ranges of frames.
\<close>

record animation_range =
  range_from :: int
  range_to :: int

record animation_key =
  frame :: int
  matrixData :: matrix

record animation =
  anim_keys :: "animation_key list"
  anim_ranges :: "string \<rightharpoonup> animation_range"

text \<open>
  \<open>getRange\<close> returns a reference to a range; what it refers to when the track has no
  range of that name is not in the sources, and is the parameter \<open>missing\<close>.
\<close>

definition getRange :: "animation_range \<Rightarrow> animation \<Rightarrow> string \<Rightarrow> animation_range" where
  "getRange missing a rangeName =
     (case anim_ranges a rangeName of None \<Rightarrow> missing | Some r \<Rightarrow> r)"

definition createRange :: "string \<Rightarrow> int \<Rightarrow> int \<Rightarrow> animation \<Rightarrow> animation" where
  "createRange rangeName f t a =
     a\<lparr>anim_ranges := (anim_ranges a)(rangeName \<mapsto> \<lparr>range_from = f, range_to = t\<rparr>)\<rparr>"

text \<open>
  The members of a \<open>Bone\<close>.  The parent pointer and the list of children are the shape
  of the tree below: a bone is registered in its parent's list when it is constructed
  and no function of the sources moves or removes it, so the hierarchy is a tree, and
  a function that reads \<open>_parent\<close> receives the parent's members as an argument (\<open>None\<close>
  for a root bone, whose \<open>_parent\<close> is null).
\<close>

record bone_data =
  bone_name :: string
  bone_matrix :: matrix
  bone_length :: int
  restPose :: matrix
  baseMatrix :: matrix
  absoluteTransform :: matrix
  invertedAbsoluteTransform :: matrix
  scaleMatrix :: matrix
  scaleVector :: vector3
  negateScaleChildren :: vector3
  scalingDeterminant :: real
  currentRenderId :: "32 word"
  animations :: "animation option list"

datatype bone = Bone (data: bone_data) (children: "bone list")

text \<open>
  Modelled from the spec: the skeleton (\<open>Skeleton\<close>), which the sources use and do not
  contain.  It owns the bones (here the root bones, each with its subtree), holds an
  optional pose matrix and a dirty flag, and its \<open>computeAbsoluteTransforms\<close> is, in the
  spec's words, a forced recompute of the absolute transforms of the full hierarchy.
\<close>

record skeleton =
  roots :: "bone list"
  poseMatrix :: "matrix option"
  isDirty :: bool

text \<open>\<open>Bone::computeAbsoluteTransforms\<close>.\<close>

fun computeAbsoluteTransforms :: "matrix option \<Rightarrow> bone_data option \<Rightarrow> bone \<Rightarrow> bone" where
  "computeAbsoluteTransforms pose parent (Bone d cs) =
     (let a = (case parent of
                 Some p \<Rightarrow> multiply (bone_matrix d) (absoluteTransform p)
               | None \<Rightarrow>
                   (case pose of
                      Some pm \<Rightarrow> multiply (bone_matrix d) pm
                    | None \<Rightarrow> bone_matrix d));
          d' = d\<lparr>absoluteTransform := a\<rparr>
      in Bone d' (map (computeAbsoluteTransforms pose (Some d')) cs))"

definition skeleton_computeAbsoluteTransforms :: "skeleton \<Rightarrow> skeleton" where
  "skeleton_computeAbsoluteTransforms sk =
     sk\<lparr>roots := map (computeAbsoluteTransforms (poseMatrix sk) None) (roots sk)\<rparr>"

text \<open>
  \<open>Bone::_updateDifferenceMatrix(rootMatrix)\<close>; the children are updated from their own
  base matrices.
\<close>

fun updateDifferenceMatrix_from :: "matrix \<Rightarrow> bone_data option \<Rightarrow> bone \<Rightarrow> bone" where
  "updateDifferenceMatrix_from rootMatrix parent (Bone d cs) =
     (let a = (case parent of
                 Some p \<Rightarrow> multiply rootMatrix (absoluteTransform p)
               | None \<Rightarrow> rootMatrix);
          d' = d\<lparr>absoluteTransform := a, invertedAbsoluteTransform := invert a\<rparr>
      in Bone d' (map (\<lambda>c. updateDifferenceMatrix_from (baseMatrix (data c)) (Some d') c) cs))"

definition updateDifferenceMatrix :: "bone_data option \<Rightarrow> bone \<Rightarrow> bone" where
  "updateDifferenceMatrix parent b = updateDifferenceMatrix_from (baseMatrix (data b)) parent b"

text \<open>\<open>Bone::markAsDirty\<close>, the part that concerns the bone.\<close>

definition markAsDirty :: "bone_data \<Rightarrow> bone_data" where
  "markAsDirty d = d\<lparr>currentRenderId := currentRenderId d + 1\<rparr>"

text \<open>\<open>Bone::updateMatrix\<close>, the part that concerns the bone and its subtree.\<close>

definition updateMatrix :: "matrix \<Rightarrow> bool \<Rightarrow> bone_data option \<Rightarrow> bone \<Rightarrow> bone" where
  "updateMatrix mat updateDifference parent b =
     (let b1 = Bone ((data b)\<lparr>baseMatrix := mat, bone_matrix := mat\<rparr>) (children b)
      in if updateDifference then updateDifferenceMatrix parent b1 else b1)"

text \<open>
  The constructor \<open>Bone::Bone\<close>: the new bone, before it is put into its parent's list.
\<close>

definition new_Bone :: "string \<Rightarrow> bone_data option \<Rightarrow> matrix \<Rightarrow> matrix \<Rightarrow> bone" where
  "new_Bone nm parentBone mat rest =
     (let d0 = \<lparr>bone_name = nm, bone_matrix = mat, bone_length = -1, restPose = rest,
                baseMatrix = mat, absoluteTransform = FromValues 0 0 0 0 0 0 0 0 0 0 0 0 0 0 0 0,
                invertedAbsoluteTransform = FromValues 0 0 0 0 0 0 0 0 0 0 0 0 0 0 0 0,
                scaleMatrix = Identity, scaleVector = \<lparr>vx = 1, vy = 1, vz = 1\<rparr>,
                negateScaleChildren = \<lparr>vx = 1, vy = 1, vz = 1\<rparr>, scalingDeterminant = 1,
                currentRenderId = 0, animations = []\<rparr>;
          b1 = updateDifferenceMatrix parentBone (Bone d0 []);
          d1 = data b1
      in if determinant (absoluteTransform d1) < 0
         then Bone (d1\<lparr>scalingDeterminant := scalingDeterminant d1 * (-1)\<rparr>) (children b1)
         else b1)"

text \<open>
  The part of \<open>Bone::translate\<close> after the skeleton's recompute.  In world space the
  parent is dereferenced without a check.
\<close>

definition translate_data ::
  "vector3 \<Rightarrow> space \<Rightarrow> matrix option \<Rightarrow> bone_data option \<Rightarrow> bone_data \<Rightarrow> error + bone_data" where
  "translate_data vec sp mesh parent d =
     (let lm = bone_matrix d
      in if sp = LOCAL
         then Inr (markAsDirty (d\<lparr>bone_matrix :=
                     lm\<lparr>m12 := m12 lm + vx vec, m13 := m13 lm + vy vec, m14 := m14 lm + vz vec\<rparr>\<rparr>))
         else (case parent of
                 None \<Rightarrow> Inl NullDereference
               | Some p \<Rightarrow>
                   (let tmat0 = (case mesh of
                                   Some worldMatrix \<Rightarrow> multiply (absoluteTransform p) worldMatrix
                                 | None \<Rightarrow> absoluteTransform p);
                        tmat1 = tmat0\<lparr>m12 := 0, m13 := 0, m14 := 0\<rparr>;
                        tmat = invert tmat1;
                        tvec = TransformCoordinates vec tmat
                    in Inr (markAsDirty (d\<lparr>bone_matrix :=
                         lm\<lparr>m12 := m12 lm + vx tvec, m13 := m13 lm + vy tvec,
                            m14 := m14 lm + vz tvec\<rparr>\<rparr>)))))"

text \<open>The part of \<open>Bone::setPosition\<close> after the skeleton's recompute.\<close>

definition setPosition_data ::
  "vector3 \<Rightarrow> space \<Rightarrow> matrix option \<Rightarrow> bone_data option \<Rightarrow> bone_data \<Rightarrow> error + bone_data" where
  "setPosition_data pos sp mesh parent d =
     (let lm = bone_matrix d
      in if sp = LOCAL
         then Inr (markAsDirty (d\<lparr>bone_matrix :=
                     lm\<lparr>m12 := vx pos, m13 := vy pos, m14 := vz pos\<rparr>\<rparr>))
         else (case parent of
                 None \<Rightarrow> Inl NullDereference
               | Some p \<Rightarrow>
                   (let tmat0 = (case mesh of
                                   Some worldMatrix \<Rightarrow> multiply (absoluteTransform p) worldMatrix
                                 | None \<Rightarrow> absoluteTransform p);
                        tmat = invert tmat0;
                        vec = TransformCoordinates pos tmat
                    in Inr (markAsDirty (d\<lparr>bone_matrix :=
                         lm\<lparr>m12 := vx vec, m13 := vy vec, m14 := vz vec\<rparr>\<rparr>)))))"

text \<open>The part of \<open>Bone::getPositionToRef\<close> after the skeleton's recompute.\<close>

definition getPosition_data :: "space \<Rightarrow> matrix option \<Rightarrow> bone_data \<Rightarrow> vector3" where
  "getPosition_data sp mesh d =
     (if sp = LOCAL
      then \<lparr>vx = m12 (bone_matrix d), vy = m13 (bone_matrix d), vz = m14 (bone_matrix d)\<rparr>
      else (let tmat = (case mesh of
                          Some worldMatrix \<Rightarrow> multiply (absoluteTransform d) worldMatrix
                        | None \<Rightarrow> absoluteTransform d)
            in \<lparr>vx = m12 tmat, vy = m13 tmat, vz = m14 tmat\<rparr>))"

text \<open>
  \<open>Bone::_rotateWithMatrix\<close>: the local matrix is rotated between the parent's scale (or
  absolute transform) and its inverse, the translation is kept, and the absolute
  transforms of the subtree are recomputed.
\<close>

definition rotateWithMatrix ::
  "matrix option \<Rightarrow> matrix \<Rightarrow> space \<Rightarrow> matrix option \<Rightarrow> bone_data option \<Rightarrow> bone \<Rightarrow> bone" where
  "rotateWithMatrix pose rmat sp mesh parent b =
     (let d = data b;
          lmat = bone_matrix d;
          lx = m12 lmat;
          ly = m13 lmat;
          lz = m14 lmat;
          lmat1 =
            (case parent of
               Some p \<Rightarrow>
                 (let parentScale =
                        (if sp = WORLD
                         then (case mesh of
                                 Some worldMatrix \<Rightarrow> multiply (absoluteTransform p) worldMatrix
                               | None \<Rightarrow> absoluteTransform p)
                         else scaleMatrix p);
                      parentScaleInv = invert parentScale
                  in multiply (multiply (multiply lmat parentScale) rmat) parentScaleInv)
             | None \<Rightarrow>
                 (case mesh of
                    Some worldMatrix \<Rightarrow>
                      if sp = WORLD
                      then multiply (multiply (multiply lmat worldMatrix) rmat) (invert worldMatrix)
                      else multiply lmat rmat
                  | None \<Rightarrow> multiply lmat rmat));
          lmat2 = lmat1\<lparr>m12 := lx, m13 := ly, m14 := lz\<rparr>;
          b1 = computeAbsoluteTransforms pose parent (Bone (d\<lparr>bone_matrix := lmat2\<rparr>) (children b))
      in Bone (markAsDirty (data b1)) (children b1))"

text \<open>
  \<open>Bone::rotate\<close>.  \<open>Matrix::RotationAxisToRef\<close> is outside the sources: the parameter
  \<open>RotationAxis\<close> gives, for an axis and an angle, the matrix it leaves in a target whose
  entries \<open>m[12], m[13], m[14]\<close> have been set to zero, as \<open>rotate\<close> does before the call.
\<close>

definition rotate ::
  "(vector3 \<Rightarrow> real \<Rightarrow> matrix) \<Rightarrow> matrix option \<Rightarrow> vector3 \<Rightarrow> real \<Rightarrow> space \<Rightarrow> matrix option \<Rightarrow>
   bone_data option \<Rightarrow> bone \<Rightarrow> bone" where
  "rotate RotationAxis pose axis amount sp mesh parent b =
     rotateWithMatrix pose (RotationAxis axis amount) sp mesh parent b"

text \<open>
  The first part of \<open>Bone::scale\<close>, up to and including its call of
  \<open>computeAbsoluteTransforms\<close>: the bone's scale and local matrix, its absolute transform,
  every child's local matrix, and the absolute transforms of the subtree.
\<close>

definition scale_child :: "real \<Rightarrow> real \<Rightarrow> real \<Rightarrow> matrix \<Rightarrow> bone \<Rightarrow> bone" where
  "scale_child x y z scaleMatInv c =
     (let cm = multiply (bone_matrix (data c)) scaleMatInv;
          lm = cm\<lparr>m12 := m12 cm * x, m13 := m13 cm * y, m14 := m14 cm * z\<rparr>
      in Bone ((data c)\<lparr>bone_matrix := lm\<rparr>) (children c))"

definition scale_self ::
  "matrix option \<Rightarrow> real \<Rightarrow> real \<Rightarrow> real \<Rightarrow> bone_data option \<Rightarrow> bone \<Rightarrow> bone" where
  "scale_self pose x y z parent b =
     (let d = data b;
          origLocMat = bone_matrix d;
          origLocMatInv = invert origLocMat;
          scaleMat = FromValues x 0 0 0  0 y 0 0  0 0 z 0  0 0 0 1;
          d1 = d\<lparr>scaleMatrix := multiply (scaleMatrix d) scaleMat,
                 scaleVector := \<lparr>vx = vx (scaleVector d) * x, vy = vy (scaleVector d) * y,
                                 vz = vz (scaleVector d) * z\<rparr>\<rparr>;
          locMat = multiply (multiply (multiply origLocMat origLocMatInv) scaleMat) origLocMat;
          a = (case parent of
                 Some p \<Rightarrow> multiply locMat (absoluteTransform p)
               | None \<Rightarrow> locMat);
          d2 = d1\<lparr>bone_matrix := locMat, absoluteTransform := a\<rparr>;
          scaleMatInv = invert scaleMat;
          cs = map (scale_child x y z scaleMatInv) (children b)
      in computeAbsoluteTransforms pose parent (Bone d2 cs))"

text \<open>The number of bones of a subtree; \<open>scale\<close> recurses on it.\<close>

fun nodes :: "bone \<Rightarrow> nat" where
  "nodes (Bone d cs) = Suc (sum_list (map nodes cs))"

lemma nodes_computeAbsoluteTransforms:
  "nodes (computeAbsoluteTransforms pose parent b) = nodes b"
proof (induction b arbitrary: parent)
  case (Bone d cs)
  then show ?case by (simp add: Let_def comp_def cong: map_cong)
qed

lemma nodes_scale_child: "nodes (scale_child x y z si c) = nodes c"
  by (cases c) (simp add: scale_child_def Let_def)

lemma nodes_scale_self: "nodes (scale_self pose x y z parent b) = nodes b"
proof -
  have "nodes (scale_self pose x y z parent b)
      = nodes (Bone (data b) (map (scale_child x y z
            (invert (FromValues x 0 0 0  0 y 0 0  0 0 z 0  0 0 0 1))) (children b)))"
    unfolding scale_self_def Let_def nodes_computeAbsoluteTransforms by simp
  also have "\<dots> = nodes b"
    by (cases b) (simp add: comp_def nodes_scale_child)
  finally show ?thesis .
qed

lemma nodes_child: "c \<in> set (children b) \<Longrightarrow> nodes c < nodes b"
proof (cases b)
  case (Bone d cs)
  assume "c \<in> set (children b)"
  with Bone have "c \<in> set cs" by simp
  then have "nodes c \<le> sum_list (map nodes cs)"
    by (simp add: member_le_sum_list)
  with Bone show ?thesis by simp
qed

text \<open>
  \<open>Bone::scale\<close>: after the first part, the same scale is applied to every child when
  \<open>scaleChildren\<close> is set, and the bone is marked last.
\<close>

function scale ::
  "matrix option \<Rightarrow> real \<Rightarrow> real \<Rightarrow> real \<Rightarrow> bool \<Rightarrow> bone_data option \<Rightarrow> bone \<Rightarrow> bone" where
  "scale pose x y z scaleChildren parent b =
     (let b1 = scale_self pose x y z parent b;
          cs = (if scaleChildren
                then map (scale pose x y z scaleChildren (Some (data b1))) (children b1)
                else children b1)
      in Bone (markAsDirty (data b1)) cs)"
  by pat_completeness auto
termination
proof (relation "measure (\<lambda>(pose, x, y, z, scaleChildren, parent, b). nodes b)")
  show "wf (measure (\<lambda>(pose, x, y, z, scaleChildren, parent, b). nodes b))" by simp
next
  fix pose :: "matrix option" and x y z :: real and scaleChildren :: bool
    and parent :: "bone_data option" and b b1 c :: bone
  assume "b1 = scale_self pose x y z parent b" and "c \<in> set (children b1)"
  then have "nodes c < nodes b"
    using nodes_child [of c b1] by (simp add: nodes_scale_self)
  then show "((pose, x, y, z, scaleChildren, Some (data b1), c), (pose, x, y, z, scaleChildren, parent, b))
      \<in> measure (\<lambda>(pose, x, y, z, scaleChildren, parent, b). nodes b)"
    by simp
qed

declare scale.simps [simp del]

text \<open>
  A bone is named by its path: the index of its root in the skeleton, then the index of
  a child at every level.  \<open>at_path f p parent b\<close> calls the member function \<open>f\<close> on the
  bone that \<open>p\<close> names below \<open>b\<close>; a path that leaves the tree is a dangling pointer.
\<close>

fun at_path ::
  "(bone_data option \<Rightarrow> bone \<Rightarrow> error + bone) \<Rightarrow> nat list \<Rightarrow> bone_data option \<Rightarrow> bone \<Rightarrow> error + bone" where
  "at_path f [] parent b = f parent b"
| "at_path f (i # p) parent b =
     (if i < length (children b)
      then (case at_path f p (Some (data b)) (children b ! i) of
              Inl e \<Rightarrow> Inl e
            | Inr c \<Rightarrow> Inr (Bone (data b) ((children b)[i := c])))
      else Inl DanglingPointer)"

definition skeleton_at ::
  "(bone_data option \<Rightarrow> bone \<Rightarrow> error + bone) \<Rightarrow> nat list \<Rightarrow> skeleton \<Rightarrow> error + skeleton" where
  "skeleton_at f path sk =
     (case path of
        [] \<Rightarrow> Inl NullDereference
      | i # p \<Rightarrow>
          if i < length (roots sk)
          then (case at_path f p None (roots sk ! i) of
                  Inl e \<Rightarrow> Inl e
                | Inr b \<Rightarrow> Inr (sk\<lparr>roots := (roots sk)[i := b]\<rparr>))
          else Inl DanglingPointer)"

text \<open>A function on the members of one bone, as a function on the bone.\<close>

definition on_data ::
  "(bone_data option \<Rightarrow> bone_data \<Rightarrow> error + bone_data) \<Rightarrow> bone_data option \<Rightarrow> bone \<Rightarrow> error + bone" where
  "on_data g parent b =
     (case g parent (data b) of Inl e \<Rightarrow> Inl e | Inr d \<Rightarrow> Inr (Bone d (children b)))"

text \<open>The bone that a path names, with the members of its parent.\<close>

fun bone_at :: "nat list \<Rightarrow> bone_data option \<Rightarrow> bone \<Rightarrow> (bone_data option \<times> bone) option" where
  "bone_at [] parent b = Some (parent, b)"
| "bone_at (i # p) parent b =
     (if i < length (children b) then bone_at p (Some (data b)) (children b ! i) else None)"

definition skeleton_bone_at :: "nat list \<Rightarrow> skeleton \<Rightarrow> (bone_data option \<times> bone) option" where
  "skeleton_bone_at path sk =
     (case path of
        [] \<Rightarrow> None
      | i # p \<Rightarrow> if i < length (roots sk) then bone_at p None (roots sk ! i) else None)"

text \<open>\<open>Skeleton::_markAsDirty\<close>, the second half of \<open>Bone::markAsDirty\<close>.\<close>

definition skeleton_markAsDirty :: "skeleton \<Rightarrow> skeleton" where
  "skeleton_markAsDirty sk = sk\<lparr>isDirty := True\<rparr>"

text \<open>
  The member functions, called on the bone that a path names.  \<open>translate\<close>,
  \<open>setPosition\<close> and \<open>getPosition\<close> first force the skeleton's recompute in world space.
\<close>

definition translate ::
  "vector3 \<Rightarrow> space \<Rightarrow> matrix option \<Rightarrow> nat list \<Rightarrow> skeleton \<Rightarrow> error + skeleton" where
  "translate vec sp mesh path sk =
     (let sk1 = (if sp = LOCAL then sk else skeleton_computeAbsoluteTransforms sk)
      in case skeleton_at (on_data (translate_data vec sp mesh)) path sk1 of
           Inl e \<Rightarrow> Inl e
         | Inr sk2 \<Rightarrow> Inr (skeleton_markAsDirty sk2))"

definition setPosition ::
  "vector3 \<Rightarrow> space \<Rightarrow> matrix option \<Rightarrow> nat list \<Rightarrow> skeleton \<Rightarrow> error + skeleton" where
  "setPosition pos sp mesh path sk =
     (let sk1 = (if sp = LOCAL then sk else skeleton_computeAbsoluteTransforms sk)
      in case skeleton_at (on_data (setPosition_data pos sp mesh)) path sk1 of
           Inl e \<Rightarrow> Inl e
         | Inr sk2 \<Rightarrow> Inr (skeleton_markAsDirty sk2))"

definition getPosition ::
  "space \<Rightarrow> matrix option \<Rightarrow> nat list \<Rightarrow> skeleton \<Rightarrow> error + (vector3 \<times> skeleton)" where
  "getPosition sp mesh path sk =
     (let sk1 = (if sp = LOCAL then sk else skeleton_computeAbsoluteTransforms sk)
      in case skeleton_bone_at path sk1 of
           None \<Rightarrow> Inl DanglingPointer
         | Some (parent, b) \<Rightarrow> Inr (getPosition_data sp mesh (data b), sk1))"

definition skeleton_rotate ::
  "(vector3 \<Rightarrow> real \<Rightarrow> matrix) \<Rightarrow> vector3 \<Rightarrow> real \<Rightarrow> space \<Rightarrow> matrix option \<Rightarrow> nat list \<Rightarrow>
   skeleton \<Rightarrow> error + skeleton" where
  "skeleton_rotate RotationAxis axis amount sp mesh path sk =
     (case skeleton_at (\<lambda>parent b. Inr (rotate RotationAxis (poseMatrix sk) axis amount sp mesh parent b))
             path sk of
        Inl e \<Rightarrow> Inl e
      | Inr sk1 \<Rightarrow> Inr (skeleton_markAsDirty sk1))"

definition skeleton_scale ::
  "real \<Rightarrow> real \<Rightarrow> real \<Rightarrow> bool \<Rightarrow> nat list \<Rightarrow> skeleton \<Rightarrow> error + skeleton" where
  "skeleton_scale x y z scaleChildren path sk =
     (case skeleton_at (\<lambda>parent b. Inr (scale (poseMatrix sk) x y z scaleChildren parent b))
             path sk of
        Inl e \<Rightarrow> Inl e
      | Inr sk1 \<Rightarrow> Inr (skeleton_markAsDirty sk1))"

text \<open>
  Creating a bone with the constructor and putting it into its parent's list of
  children (or among the roots when there is no parent).
\<close>

definition add_bone :: "string \<Rightarrow> nat list \<Rightarrow> matrix \<Rightarrow> skeleton \<Rightarrow> error + skeleton" where
  "add_bone nm parentPath mat sk =
     (case parentPath of
        [] \<Rightarrow> Inr (sk\<lparr>roots := roots sk @ [new_Bone nm None mat mat]\<rparr>)
      | i # p \<Rightarrow>
          skeleton_at (\<lambda>grand b. Inr (Bone (data b)
                         (children b @ [new_Bone nm (Some (data b)) mat mat])))
            parentPath sk)"

text \<open>A sequence of pose edits on bones of the skeleton.\<close>

datatype bone_op =
    Translate "nat list" vector3 space "matrix option"
  | Rotate "nat list" vector3 real space "matrix option"
  | Scale "nat list" real real real bool

fun apply_op :: "(vector3 \<Rightarrow> real \<Rightarrow> matrix) \<Rightarrow> bone_op \<Rightarrow> skeleton \<Rightarrow> error + skeleton" where
  "apply_op RotationAxis (Translate path vec sp mesh) sk = translate vec sp mesh path sk"
| "apply_op RotationAxis (Rotate path axis amount sp mesh) sk =
     skeleton_rotate RotationAxis axis amount sp mesh path sk"
| "apply_op RotationAxis (Scale path x y z scaleChildren) sk =
     skeleton_scale x y z scaleChildren path sk"

fun apply_ops :: "(vector3 \<Rightarrow> real \<Rightarrow> matrix) \<Rightarrow> bone_op list \<Rightarrow> skeleton \<Rightarrow> error + skeleton" where
  "apply_ops RotationAxis [] sk = Inr sk"
| "apply_ops RotationAxis (op # ops) sk =
     (case apply_op RotationAxis op sk of
        Inl e \<Rightarrow> Inl e
      | Inr sk1 \<Rightarrow> apply_ops RotationAxis ops sk1)"

text \<open>
  The invariant of the absolute transforms: the absolute transform of a bone with a
  parent is its local matrix times the parent's absolute transform, and that of a root
  bone is its local matrix, times the pose matrix when the skeleton has one.
\<close>

fun abs_consistent :: "matrix option \<Rightarrow> bone_data option \<Rightarrow> bone \<Rightarrow> bool" where
  "abs_consistent pose parent (Bone d cs) =
     (absoluteTransform d =
        (case parent of
           Some p \<Rightarrow> multiply (bone_matrix d) (absoluteTransform p)
         | None \<Rightarrow> (case pose of Some pm \<Rightarrow> multiply (bone_matrix d) pm | None \<Rightarrow> bone_matrix d))
      \<and> list_all (abs_consistent pose (Some d)) cs)"

text \<open>The inverted absolute transform of every bone is \<open>invert\<close> of its absolute transform.\<close>

fun inv_consistent :: "bone \<Rightarrow> bool" where
  "inv_consistent (Bone d cs) =
     (invertedAbsoluteTransform d = invert (absoluteTransform d) \<and> list_all inv_consistent cs)"

text \<open>The inverted absolute transforms of a subtree, in the shape of the subtree.\<close>

datatype 'a shape_tree = Node 'a "'a shape_tree list"

fun inverted_of :: "bone \<Rightarrow> matrix shape_tree" where
  "inverted_of (Bone d cs) = Node (invertedAbsoluteTransform d) (map inverted_of cs)"

fun scaleVectors_of :: "bone \<Rightarrow> vector3 shape_tree" where
  "scaleVectors_of (Bone d cs) = Node (scaleVector d) (map scaleVectors_of cs)"

fun map_shape :: "('a \<Rightarrow> 'b) \<Rightarrow> 'a shape_tree \<Rightarrow> 'b shape_tree" where
  "map_shape f (Node a ts) = Node (f a) (map (map_shape f) ts)"

text \<open>
  The inverted absolute transform of every bone is the exact inverse of its absolute
  transform; and the absolute transform of every bone has an inverse.
\<close>

fun inv_exact :: "bone \<Rightarrow> bool" where
  "inv_exact (Bone d cs) =
     (multiply (absoluteTransform d) (invertedAbsoluteTransform d) = Identity
      \<and> multiply (invertedAbsoluteTransform d) (absoluteTransform d) = Identity
      \<and> list_all inv_exact cs)"

fun abs_regular :: "bone \<Rightarrow> bool" where
  "abs_regular (Bone d cs) = (determinant (absoluteTransform d) \<noteq> 0 \<and> list_all abs_regular cs)"

text \<open>A sequence of pose edits followed by the forced recompute of the skeleton.\<close>

definition after_ops ::
  "(vector3 \<Rightarrow> real \<Rightarrow> matrix) \<Rightarrow> bone_op list \<Rightarrow> skeleton \<Rightarrow> skeleton option" where
  "after_ops RotationAxis ops sk =
     (case apply_ops RotationAxis ops sk of
        Inl e \<Rightarrow> None
      | Inr sk1 \<Rightarrow> Some (skeleton_computeAbsoluteTransforms sk1))"

definition inverses_exact_after ::
  "(vector3 \<Rightarrow> real \<Rightarrow> matrix) \<Rightarrow> bone_op list \<Rightarrow> skeleton \<Rightarrow> bool option" where
  "inverses_exact_after RotationAxis ops sk =
     (case after_ops RotationAxis ops sk of
        None \<Rightarrow> None
      | Some sk' \<Rightarrow> Some (list_all inv_exact (roots sk')))"

text \<open>
  Two skeletons built with the constructor: a single root bone in the identity pose,
  and that root with one child placed at \<open>(1, 0, 0)\<close>.
\<close>

definition Translation :: "real \<Rightarrow> real \<Rightarrow> real \<Rightarrow> matrix" where
  "Translation x y z = FromValues 1 0 0 0  0 1 0 0  0 0 1 0  x y z 1"

definition root_bone :: bone where
  "root_bone = new_Bone ''root'' None Identity Identity"

definition child_bone :: bone where
  "child_bone = new_Bone ''child'' (Some (data root_bone)) (Translation 1 0 0) (Translation 1 0 0)"

definition skeleton1 :: skeleton where
  "skeleton1 = \<lparr>roots = [root_bone], poseMatrix = None, isDirty = False\<rparr>"

definition skeleton2 :: skeleton where
  "skeleton2 = \<lparr>roots = [Bone (data root_bone) [child_bone]], poseMatrix = None, isDirty = False\<rparr>"

text \<open>
  The world-space position of the bone that a path names, as its absolute transform
  holds it; and that position right after a call of \<open>scale\<close> on a bone of the skeleton.
\<close>

definition world_position :: "nat list \<Rightarrow> skeleton \<Rightarrow> vector3 option" where
  "world_position path sk =
     (case skeleton_bone_at path sk of
        None \<Rightarrow> None
      | Some (parent, b) \<Rightarrow> Some (getTranslation (absoluteTransform (data b))))"

definition world_position_after_scale ::
  "real \<Rightarrow> real \<Rightarrow> real \<Rightarrow> bool \<Rightarrow> nat list \<Rightarrow> nat list \<Rightarrow> skeleton \<Rightarrow> vector3 option" where
  "world_position_after_scale x y z scaleChildren scaled path sk =
     (case skeleton_scale x y z scaleChildren scaled sk of
        Inl e \<Rightarrow> None
      | Inr sk' \<Rightarrow> world_position path sk')"

text \<open>The local translation of a bone, and a scale vector multiplied by the factors.\<close>

definition local_translation :: "bone \<Rightarrow> vector3" where
  "local_translation b = getTranslation (bone_matrix (data b))"

definition scaled_by :: "real \<Rightarrow> real \<Rightarrow> real \<Rightarrow> vector3 \<Rightarrow> vector3" where
  "scaled_by x y z v = \<lparr>vx = vx v * x, vy = vy v * y, vz = vz v * z\<rparr>"

text \<open>\<open>std::vector::operator[]\<close>: reading past the end is undefined behaviour.\<close>

definition vector_at :: "'a list \<Rightarrow> nat \<Rightarrow> error + 'a" where
  "vector_at xs i = (if i < length xs then Inr (xs ! i) else Inl OutOfBounds)"

text \<open>
  The guard of \<open>Bone::copyAnimationRange\<close>,
  \<open>source->animations.empty() && !source->animations[0]\<close>: the second operand is
  evaluated exactly when the list is empty.
\<close>

definition copyAnimationRange_guard :: "bone_data \<Rightarrow> error + bool" where
  "copyAnimationRange_guard source =
     (if animations source = []
      then (case vector_at (animations source) 0 of
              Inl e \<Rightarrow> Inl e
            | Inr a \<Rightarrow> Inr (a = None))
      else Inr False)"

text \<open>The matrix of a copied key, rescaled as the loop of \<open>copyAnimationRange\<close> does.\<close>

definition rescaled_key_matrix :: "bool \<Rightarrow> bool \<Rightarrow> real \<Rightarrow> bool \<Rightarrow> vector3 \<Rightarrow> matrix \<Rightarrow> matrix" where
  "rescaled_key_matrix rescaleAsRequired parentScalingReqd parentRatio dimensionsScalingReqd
     skelDimensionsRatio mat =
     (if rescaleAsRequired
      then (if parentScalingReqd
            then setTranslation \<lparr>vx = vx (getTranslation mat) * parentRatio,
                                 vy = vy (getTranslation mat) * parentRatio,
                                 vz = vz (getTranslation mat) * parentRatio\<rparr> mat
            else if dimensionsScalingReqd
            then setTranslation \<lparr>vx = vx (getTranslation mat) * vx skelDimensionsRatio,
                                 vy = vy (getTranslation mat) * vy skelDimensionsRatio,
                                 vz = vz (getTranslation mat) * vz skelDimensionsRatio\<rparr> mat
            else mat)
      else mat)"

text \<open>
  \<open>Bone::copyAnimationRange\<close>, called on the bone with members \<open>d\<close> and parent \<open>parent\<close>,
  for a source bone with its parent.  \<open>std_util::almost_equal\<close> is outside the sources
  and a parameter.  The tracks of the source and of the destination are taken to be two
  objects.  The result is the returned boolean with the bone's new members.
\<close>

definition copyAnimationRange ::
  "(real \<Rightarrow> real \<Rightarrow> bool) \<Rightarrow> animation_range \<Rightarrow> bone_data \<Rightarrow> bone_data option \<Rightarrow> string \<Rightarrow> int \<Rightarrow>
   bool \<Rightarrow> vector3 \<Rightarrow> bool \<Rightarrow> bone_data option \<Rightarrow> bone_data \<Rightarrow> error + (bool \<times> bone_data)" where
  "copyAnimationRange almost_equal missing source sourceParent rangeName frameOffset
     rescaleAsRequired skelDimensionsRatio hasSkelDimensionsRatio parent d =
     (case copyAnimationRange_guard source of
        Inl e \<Rightarrow> Inl e
      | Inr True \<Rightarrow> Inr (False, d)
      | Inr False \<Rightarrow>
          (case vector_at (animations source) 0 of
             Inl e \<Rightarrow> Inl e
           | Inr None \<Rightarrow> Inl NullDereference
           | Inr (Some sa) \<Rightarrow>
               (let sourceRange = getRange missing sa rangeName;
                    from = range_from sourceRange;
                    to = range_to sourceRange;
                    sourceKeys = anim_keys sa;
                    sourceBoneLength = bone_length source;
                    parentScalingReqd = (rescaleAsRequired \<and> sourceParent \<noteq> None
                       \<and> sourceBoneLength > 0 \<and> bone_length d > 0
                       \<and> sourceBoneLength \<noteq> bone_length d)
                in case (if parentScalingReqd
                         then (case parent of
                                 None \<Rightarrow> Inl NullDereference
                               | Some p \<Rightarrow>
                                   (case sourceParent of
                                      None \<Rightarrow> Inl NullDereference
                                    | Some sp \<Rightarrow>
                                        Inr (real_of_int (bone_length p)
                                             / real_of_int (bone_length sp))))
                         else Inr 0) of
                     Inl e \<Rightarrow> Inl e
                   | Inr parentRatio \<Rightarrow>
                       (let dimensionsScalingReqd = (rescaleAsRequired \<and> parent = None
                              \<and> hasSkelDimensionsRatio
                              \<and> (\<not> almost_equal (vx skelDimensionsRatio) 1
                                 \<or> \<not> almost_equal (vy skelDimensionsRatio) 1
                                 \<or> \<not> almost_equal (vz skelDimensionsRatio) 1))
                        in case vector_at (animations d) 0 of
                             Inl e \<Rightarrow> Inl e
                           | Inr None \<Rightarrow> Inl NullDereference
                           | Inr (Some da) \<Rightarrow>
                               (let copied =
                                      map (\<lambda>orig. \<lparr>frame = frame orig + frameOffset,
                                                    matrixData = rescaled_key_matrix rescaleAsRequired
                                                       parentScalingReqd parentRatio
                                                       dimensionsScalingReqd skelDimensionsRatio
                                                       (matrixData orig)\<rparr>)
                                        (filter (\<lambda>orig. frame orig \<ge> from \<and> frame orig \<le> to)
                                           sourceKeys);
                                    da' = createRange rangeName (from + frameOffset)
                                            (to + frameOffset)
                                            (da\<lparr>anim_keys := anim_keys da @ copied\<rparr>)
                                in Inr (True, d\<lparr>animations := (animations d)[0 := Some da']\<rparr>))))))"

text \<open>
  An affine transform (last column \<open>0, 0, 0, 1\<close>), and the transform that \<open>setPosition\<close>
  inverts in world space: the parent's absolute transform, times the world matrix of the
  mesh when there is one.
\<close>

definition affine :: "matrix \<Rightarrow> bool" where
  "affine t \<longleftrightarrow> m3 t = 0 \<and> m7 t = 0 \<and> m11 t = 0 \<and> m15 t = 1"

definition parent_world :: "matrix option \<Rightarrow> bone_data \<Rightarrow> matrix" where
  "parent_world mesh p =
     (case mesh of
        Some worldMatrix \<Rightarrow> multiply (absoluteTransform p) worldMatrix
      | None \<Rightarrow> absoluteTransform p)"

text \<open>
  A bone built with the constructor from the zero matrix, under the root bone; and the
  root bone with the child at \<open>(1, 0, 0)\<close> and that bone as its children.
\<close>

definition flat_bone :: bone where
  "flat_bone = new_Bone ''flat'' (Some (data root_bone))
     (FromValues 0 0 0 0  0 0 0 0  0 0 0 0  0 0 0 0) (FromValues 0 0 0 0  0 0 0 0  0 0 0 0  0 0 0 0)"

definition bone_tree3 :: bone where
  "bone_tree3 = Bone (data root_bone) [child_bone, flat_bone]"

text \<open>
  The transform that the local matrix of a bone is carried through: the absolute
  transform of its parent, or for a root bone the pose matrix of the skeleton, if any.
  And the matrix of the scale that \<open>Bone::scale\<close> builds.
\<close>

definition parent_transform :: "matrix option \<Rightarrow> bone_data option \<Rightarrow> matrix" where
  "parent_transform pose parent =
     (case parent of
        Some p \<Rightarrow> absoluteTransform p
      | None \<Rightarrow> (case pose of Some pm \<Rightarrow> pm | None \<Rightarrow> Identity))"

definition Scaling :: "real \<Rightarrow> real \<Rightarrow> real \<Rightarrow> matrix" where
  "Scaling x y z = FromValues x 0 0 0  0 y 0 0  0 0 z 0  0 0 0 1"

section \<open>Verified properties\<close>

subsection \<open>Device/state cache engine\<close>

lemma bind_calls_issue:
  "bind_calls (gl_issue c s) = bind_calls s + (if is_bindBuffer c then 1 else 0)"
  by (simp add: bind_calls_def gl_issue_def)

text \<open>
  Claim C6.  Starting from any engine state whose cached array buffer is not \<open>X\<close>,
  binding \<open>X\<close> twice in a row sends exactly one bind call to the device (the one for
  \<open>X\<close>), and binding \<open>X\<close>, then a different buffer \<open>Y\<close>, then \<open>X\<close> again sends exactly
  three.
\<close>

theorem bindArrayBuffer_device_calls:
  assumes "currentBoundBuffer s GL_ARRAY_BUFFER \<noteq> Some X" and "X \<noteq> Y"
  shows "gl_log (bindArrayBuffer X (bindArrayBuffer X s))
           = gl_log s @ [GLbindBuffer GL_ARRAY_BUFFER X]
       \<and> bind_calls (bindArrayBuffer X (bindArrayBuffer X s)) = bind_calls s + 1
       \<and> gl_log (bindArrayBuffer X (bindArrayBuffer Y (bindArrayBuffer X s)))
           = gl_log s @ [GLbindBuffer GL_ARRAY_BUFFER X, GLbindBuffer GL_ARRAY_BUFFER Y,
                         GLbindBuffer GL_ARRAY_BUFFER X]
       \<and> bind_calls (bindArrayBuffer X (bindArrayBuffer Y (bindArrayBuffer X s)))
           = bind_calls s + 3"
  using assms
  by (auto simp: bindArrayBuffer_def bindBuffer_def gl_issue_def bind_calls_def)

theorem bindArrayBuffer_device_calls_witness:
  "currentBoundBuffer engine0 GL_ARRAY_BUFFER \<noteq> Some (Some 1) \<and> Some (1::nat) \<noteq> Some 2
   \<and> bind_calls (bindArrayBuffer (Some 1) (bindArrayBuffer (Some 1) engine0)) = 1
   \<and> bind_calls (bindArrayBuffer (Some 1) (bindArrayBuffer (Some 2) (bindArrayBuffer (Some 1) engine0))) = 3"
proof -
  have h1: "currentBoundBuffer engine0 GL_ARRAY_BUFFER \<noteq> Some (Some 1)"
    by (simp add: engine0_def)
  have h2: "Some (1::nat) \<noteq> Some 2" by simp
  have b0: "bind_calls engine0 = 0" by (simp add: bind_calls_def engine0_def)
  show ?thesis
    using bindArrayBuffer_device_calls [OF h1 h2] h1 b0 by simp
qed

text \<open>
  Claim C7.  A vertex buffer that has just been created has a reference count of \<open>1\<close>
  and is held by the device.  Releasing a buffer whose count is \<open>1\<close> returns \<open>true\<close> and
  deletes the device buffer; releasing a buffer whose count is \<open>2\<close> returns \<open>false\<close>,
  issues no device call, keeps the device buffer and leaves the count at \<open>1\<close>.
\<close>

theorem buffer_reference_counting:
  "(case createVertexBuffer vertices s of (h, s') \<Rightarrow>
       map_option references (buffers s' h) = Some 1 \<and> h \<in> gl_live s')
   \<and> (\<forall>h b. buffers s h = Some b \<and> references b = 1 \<longrightarrow>
         (\<exists>s'. releaseBuffer (Some h) s = Inr (True, s') \<and> h \<notin> gl_live s'
               \<and> gl_log s' = gl_log s @ [GLdeleteBuffer h]))
   \<and> (\<forall>h b. buffers s h = Some b \<and> references b = 2 \<longrightarrow>
         (\<exists>s'. releaseBuffer (Some h) s = Inr (False, s') \<and> gl_live s' = gl_live s
               \<and> gl_log s' = gl_log s
               \<and> map_option references (buffers s' h) = Some 1))"
  by (auto simp: createVertexBuffer_def gl_createBuffer_def resetVertexBufferBinding_def
      bindArrayBuffer_def bindBuffer_def gl_issue_def releaseBuffer_def gl_deleteBuffer_def
      Let_def split: prod.splits)

theorem buffer_reference_counting_witness:
  "(\<exists>h s1 s2 s3. createVertexBuffer [] engine0 = (h, s1)
       \<and> map_option references (buffers s1 h) = Some 1
       \<and> releaseBuffer (Some h) s1 = Inr (True, s2) \<and> h \<notin> gl_live s2
       \<and> releaseBuffer (Some h)
             (s1\<lparr>buffers := (buffers s1)(h \<mapsto> \<lparr>references = 2, capacity = 0, is32Bits = False\<rparr>)\<rparr>)
           = Inr (False, s3) \<and> h \<in> gl_live s3)"
proof -
  obtain h s1 where c: "createVertexBuffer [] engine0 = (h, s1)"
    by (cases "createVertexBuffer [] engine0")
  let ?s2 = "s1\<lparr>buffers := (buffers s1)(h \<mapsto> \<lparr>references = 2, capacity = 0, is32Bits = False\<rparr>)\<rparr>"
  from buffer_reference_counting [of "[]" engine0] c
  have r1: "map_option references (buffers s1 h) = Some 1" and l1: "h \<in> gl_live s1"
    by auto
  then obtain b where b: "buffers s1 h = Some b" "references b = 1" by auto
  from buffer_reference_counting [of "[]" s1] b
  obtain s2 where s2: "releaseBuffer (Some h) s1 = Inr (True, s2)" "h \<notin> gl_live s2"
    by blast
  have "buffers ?s2 h = Some \<lparr>references = 2, capacity = 0, is32Bits = False\<rparr>
        \<and> references \<lparr>references = 2, capacity = 0, is32Bits = False\<rparr> = 2" by simp
  with buffer_reference_counting [of "[]" ?s2]
  obtain s3 where s3: "releaseBuffer (Some h) ?s2 = Inr (False, s3)" "gl_live s3 = gl_live ?s2"
    by blast
  with l1 have "h \<in> gl_live s3" by simp
  with c r1 s2 s3 show ?thesis by blast
qed

















subsection \<open>Ray against box\<close>

text \<open>
  The parameters \<open>t\<close> at which the ray is inside one slab form an interval, whose ends
  are the two distances that the function computes, in the order that the sign of the
  direction gives them.
\<close>

lemma slab_interval:
  fixes dir_c mn mx o_c t :: real
  assumes "dir_c \<noteq> 0" and "mn \<le> mx"
  shows "(min ((mn - o_c) * (1 / dir_c)) ((mx - o_c) * (1 / dir_c)) \<le> t
          \<and> t \<le> max ((mn - o_c) * (1 / dir_c)) ((mx - o_c) * (1 / dir_c)))
         \<longleftrightarrow> (mn \<le> o_c + t * dir_c \<and> o_c + t * dir_c \<le> mx)"
proof (cases "dir_c > 0")
  case True
  then have "(mn - o_c) * (1 / dir_c) \<le> (mx - o_c) * (1 / dir_c)"
    using assms(2) mult_right_mono [of "mn - o_c" "mx - o_c" "1 / dir_c"] by simp
  then show ?thesis using True
    by (auto simp: min_def max_def field_simps)
next
  case False
  with assms(1) have n: "dir_c < 0" by simp
  then have "(mx - o_c) * (1 / dir_c) \<le> (mn - o_c) * (1 / dir_c)"
    using assms(2) mult_right_mono_neg [of "mn - o_c" "mx - o_c" "1 / dir_c"] by simp
  then show ?thesis using n
    by (auto simp: min_def max_def field_simps)
qed

lemma float_swap:
  "(if float_less (Finite b) (Finite a) then (Finite b, Finite a) else (Finite a, Finite b))
     = (Finite (min a b), Finite (max a b))"
  by (auto simp: min_def max_def)

lemma float_max_Finite: "float_max (Finite a) (Finite b) = Finite (max a b)"
  by (auto simp: float_max_def max_def)

lemma float_min_Finite: "float_min (Finite a) (Finite b) = Finite (min a b)"
  by (auto simp: float_min_def min_def)

text \<open>
  One axis, when the helper never reports a number as almost equal to \<open>-\<infinity>\<close>: the
  running interval is cut down to the parameters at which the ray is inside the slab.
\<close>

lemma slab_sound:
  assumes "mn \<le> mx" and "\<forall>v. \<not> P v"
  shows "case slab P o_c dir_c mn mx (Finite d, Finite m) of
           None \<Rightarrow> \<forall>t. d \<le> t \<and> t \<le> m \<longrightarrow> \<not> axis_hit o_c dir_c mn mx t
         | Some (d', m') \<Rightarrow>
             \<exists>d1 m1. d' = Finite d1 \<and> m' = Finite m1 \<and> (d \<le> m \<longrightarrow> d1 \<le> m1)
               \<and> (\<forall>t. (d1 \<le> t \<and> t \<le> m1) \<longleftrightarrow> (d \<le> t \<and> t \<le> m \<and> axis_hit o_c dir_c mn mx t))"
proof (cases "\<bar>dir_c\<bar> < 1 / 10 ^ 7")
  case True
  then have s: "slab P o_c dir_c mn mx (Finite d, Finite m)
      = (if o_c < mn \<or> o_c > mx then None else Some (Finite d, Finite m))"
    by (simp add: slab_def)
  have h: "axis_hit o_c dir_c mn mx t \<longleftrightarrow> mn \<le> o_c \<and> o_c \<le> mx" for t
    using True by (simp add: axis_hit_def)
  show ?thesis
    unfolding s h by auto
next
  case False
  then have nz: "dir_c \<noteq> 0" by auto
  define lo where "lo = min ((mn - o_c) * (1 / dir_c)) ((mx - o_c) * (1 / dir_c))"
  define hi where "hi = max ((mn - o_c) * (1 / dir_c)) ((mx - o_c) * (1 / dir_c))"
  have s: "slab P o_c dir_c mn mx (Finite d, Finite m)
      = (if max lo d > min hi m then None else Some (Finite (max lo d), Finite (min hi m)))"
    unfolding slab_def lo_def hi_def using False assms(2)
    apply (simp only: if_False prod.case Let_def)
    apply (simp only: float_swap prod.case float_max_Finite float_min_Finite)
    apply (simp only: float_less.simps)
    done
  have h: "axis_hit o_c dir_c mn mx t \<longleftrightarrow> lo \<le> t \<and> t \<le> hi" for t
  proof -
    have "axis_hit o_c dir_c mn mx t \<longleftrightarrow> mn \<le> o_c + t * dir_c \<and> o_c + t * dir_c \<le> mx"
      unfolding axis_hit_def using False by (simp only: if_False)
    also have "\<dots> \<longleftrightarrow> lo \<le> t \<and> t \<le> hi"
      unfolding lo_def hi_def by (rule slab_interval [OF nz assms(1), symmetric])
    finally show ?thesis .
  qed
  show ?thesis
    unfolding s by (auto simp: h)
qed

lemma FLT_MAX_nonneg: "0 \<le> FLT_MAX"
  by (simp add: FLT_MAX_def)

lemma intersectsBoxMinMax_characterisation:
  assumes "vx mn \<le> vx mx" "vy mn \<le> vy mx" "vz mn \<le> vz mx" and p: "\<forall>v. \<not> P v"
  shows "intersectsBoxMinMax P r mn mx \<longleftrightarrow> (\<exists>t. 0 \<le> t \<and> t \<le> FLT_MAX \<and> box_hit r mn mx t)"
proof -
  let ?sx = "slab P (vx (origin r)) (vx (direction r)) (vx mn) (vx mx)"
  let ?sy = "slab P (vy (origin r)) (vy (direction r)) (vy mn) (vy mx)"
  let ?sz = "slab P (vz (origin r)) (vz (direction r)) (vz mn) (vz mx)"
  let ?hx = "axis_hit (vx (origin r)) (vx (direction r)) (vx mn) (vx mx)"
  let ?hy = "axis_hit (vy (origin r)) (vy (direction r)) (vy mn) (vy mx)"
  let ?hz = "axis_hit (vz (origin r)) (vz (direction r)) (vz mn) (vz mx)"
  note sx = slab_sound [OF assms(1) p, where o_c = "vx (origin r)" and dir_c = "vx (direction r)"]
  note sy = slab_sound [OF assms(2) p, where o_c = "vy (origin r)" and dir_c = "vy (direction r)"]
  note sz = slab_sound [OF assms(3) p, where o_c = "vz (origin r)" and dir_c = "vz (direction r)"]
  show ?thesis
  proof (cases "?sx (Finite 0, Finite FLT_MAX)")
    case None
    with sx [of 0 FLT_MAX]
    show ?thesis by (auto simp: intersectsBoxMinMax_def box_hit_def)
  next
    case (Some dm1)
    note Some1 = Some
    from sx [of 0 FLT_MAX] Some FLT_MAX_nonneg obtain d1 m1 where dm1: "dm1 = (Finite d1, Finite m1)"
      and ne1: "d1 \<le> m1"
      and x: "\<And>t. (d1 \<le> t \<and> t \<le> m1) \<longleftrightarrow> (0 \<le> t \<and> t \<le> FLT_MAX \<and> ?hx t)"
      by (cases dm1) auto
    show ?thesis
    proof (cases "?sy (Finite d1, Finite m1)")
      case None
      with sy [of d1 m1] x Some1 dm1
      show ?thesis by (auto simp: intersectsBoxMinMax_def box_hit_def)
    next
      case (Some dm2)
      note Some2 = Some
      from sy [of d1 m1] Some ne1 obtain d2 m2 where dm2: "dm2 = (Finite d2, Finite m2)"
        and ne2: "d2 \<le> m2"
        and y: "\<And>t. (d2 \<le> t \<and> t \<le> m2) \<longleftrightarrow> (d1 \<le> t \<and> t \<le> m1 \<and> ?hy t)"
        by (cases dm2) auto
      show ?thesis
      proof (cases "?sz (Finite d2, Finite m2)")
        case None
        with sz [of d2 m2] x y Some1 dm1 Some2 dm2
        show ?thesis by (auto simp: intersectsBoxMinMax_def box_hit_def)
      next
        case (Some dm3)
        from sz [of d2 m2] Some ne2 obtain d3 m3 where dm3: "dm3 = (Finite d3, Finite m3)"
          and ne3: "d3 \<le> m3"
          and z: "\<And>t. (d3 \<le> t \<and> t \<le> m3) \<longleftrightarrow> (d2 \<le> t \<and> t \<le> m2 \<and> ?hz t)"
          by (cases dm3) auto
        from z [of d3] ne3 x y have "0 \<le> d3 \<and> d3 \<le> FLT_MAX \<and> box_hit r mn mx d3"
          by (auto simp: box_hit_def)
        then have "\<exists>t. 0 \<le> t \<and> t \<le> FLT_MAX \<and> box_hit r mn mx t" by blast
        with Some Some2 Some1 dm1 dm2 show ?thesis
          by (simp add: intersectsBoxMinMax_def)
      qed
    qed
  qed
qed

lemma intersectsBoxMinMax_example_hit:
  "intersectsBoxMinMax P ray_z \<lparr>vx = -1, vy = -1, vz = -1\<rparr> \<lparr>vx = 1, vy = 1, vz = 1\<rparr>"
  by (cases "P 6")
     (simp_all add: intersectsBoxMinMax_def slab_def ray_z_def FLT_MAX_def Let_def
        float_max_def float_min_def)

lemma intersectsBoxMinMax_example_miss:
  "\<not> intersectsBoxMinMax P ray_z \<lparr>vx = 5, vy = -1, vz = -1\<rparr> \<lparr>vx = 7, vy = 1, vz = 1\<rparr>"
  by (simp add: intersectsBoxMinMax_def slab_def ray_z_def)

text \<open>
  Claim C5.  \<open>intersectsBoxMinMax\<close> implements the slab method: for every ray and every
  box whose minimum is not above its maximum on any axis, and with a helper that reports
  no number as almost equal to \<open>-\<infinity>\<close>, it returns true exactly when some parameter
  \<open>t\<close> between \<open>0\<close> and \<open>FLT_MAX\<close> puts the point \<open>origin + t * direction\<close> inside the
  slab of every axis (an axis along which the direction is below the threshold asks for
  the origin to be inside its slab).  The length of the ray plays no part.  In
  particular, whatever the helper answers, the ray from \<open>(0,0,-5)\<close> along \<open>(0,0,1)\<close> of
  length \<open>10\<close> intersects the box from \<open>(-1,-1,-1)\<close> to \<open>(1,1,1)\<close>, and does not intersect
  the same box moved to \<open>5 \<le> x \<le> 7\<close>.
\<close>

theorem intersectsBoxMinMax_slab_method:
  "((\<forall>v. \<not> almost_equal_minus_infinity v)
      \<and> vx minimum \<le> vx maximum \<and> vy minimum \<le> vy maximum \<and> vz minimum \<le> vz maximum \<longrightarrow>
      (intersectsBoxMinMax almost_equal_minus_infinity r minimum maximum
         \<longleftrightarrow> (\<exists>t. 0 \<le> t \<and> t \<le> FLT_MAX \<and> box_hit r minimum maximum t)))
   \<and> intersectsBoxMinMax almost_equal_minus_infinity ray_z
         \<lparr>vx = -1, vy = -1, vz = -1\<rparr> \<lparr>vx = 1, vy = 1, vz = 1\<rparr>
   \<and> \<not> intersectsBoxMinMax almost_equal_minus_infinity ray_z
         \<lparr>vx = 5, vy = -1, vz = -1\<rparr> \<lparr>vx = 7, vy = 1, vz = 1\<rparr>"
  using intersectsBoxMinMax_characterisation [of minimum maximum almost_equal_minus_infinity r]
    intersectsBoxMinMax_example_hit [of almost_equal_minus_infinity]
    intersectsBoxMinMax_example_miss [of almost_equal_minus_infinity]
  by blast

theorem intersectsBoxMinMax_slab_method_witness:
  "(\<forall>v::real. \<not> (\<lambda>v. False) v)
   \<and> intersectsBoxMinMax (\<lambda>v. False) ray_z \<lparr>vx = -1, vy = -1, vz = -1\<rparr> \<lparr>vx = 1, vy = 1, vz = 1\<rparr>
   \<and> (\<exists>t. 0 \<le> t \<and> t \<le> FLT_MAX
          \<and> box_hit ray_z \<lparr>vx = -1, vy = -1, vz = -1\<rparr> \<lparr>vx = 1, vy = 1, vz = 1\<rparr> t)
   \<and> \<not> (\<exists>t. 0 \<le> t \<and> t \<le> FLT_MAX
          \<and> box_hit ray_z \<lparr>vx = 5, vy = -1, vz = -1\<rparr> \<lparr>vx = 7, vy = 1, vz = 1\<rparr> t)"
proof -
  have h: "\<forall>v::real. \<not> (\<lambda>v. False) v" by simp
  note t1 = intersectsBoxMinMax_slab_method
    [where almost_equal_minus_infinity = "\<lambda>v. False" and r = ray_z
       and minimum = "\<lparr>vx = -1, vy = -1, vz = -1\<rparr>" and maximum = "\<lparr>vx = 1, vy = 1, vz = 1\<rparr>"]
  note t2 = intersectsBoxMinMax_slab_method
    [where almost_equal_minus_infinity = "\<lambda>v. False" and r = ray_z
       and minimum = "\<lparr>vx = 5, vy = -1, vz = -1\<rparr>" and maximum = "\<lparr>vx = 7, vy = 1, vz = 1\<rparr>"]
  have p1: "vx \<lparr>vx = -1, vy = -1, vz = -1\<rparr> \<le> vx \<lparr>vx = 1, vy = 1, vz = (1::real)\<rparr>
      \<and> vy \<lparr>vx = -1, vy = -1, vz = -1\<rparr> \<le> vy \<lparr>vx = 1, vy = 1, vz = (1::real)\<rparr>
      \<and> vz \<lparr>vx = -1, vy = -1, vz = -1\<rparr> \<le> vz \<lparr>vx = 1, vy = 1, vz = (1::real)\<rparr>"
    by simp
  have p2: "vx \<lparr>vx = 5, vy = -1, vz = -1\<rparr> \<le> vx \<lparr>vx = 7, vy = 1, vz = (1::real)\<rparr>
      \<and> vy \<lparr>vx = 5, vy = -1, vz = -1\<rparr> \<le> vy \<lparr>vx = 7, vy = 1, vz = (1::real)\<rparr>
      \<and> vz \<lparr>vx = 5, vy = -1, vz = -1\<rparr> \<le> vz \<lparr>vx = 7, vy = 1, vz = (1::real)\<rparr>"
    by simp
  from t1 have a: "intersectsBoxMinMax (\<lambda>v. False) ray_z
      \<lparr>vx = -1, vy = -1, vz = -1\<rparr> \<lparr>vx = 1, vy = 1, vz = 1\<rparr>" by blast
  from t1 h p1 a have b: "\<exists>t. 0 \<le> t \<and> t \<le> FLT_MAX
          \<and> box_hit ray_z \<lparr>vx = -1, vy = -1, vz = -1\<rparr> \<lparr>vx = 1, vy = 1, vz = 1\<rparr> t"
    by blast
  from t2 h p2 have c: "\<not> (\<exists>t. 0 \<le> t \<and> t \<le> FLT_MAX
          \<and> box_hit ray_z \<lparr>vx = 5, vy = -1, vz = -1\<rparr> \<lparr>vx = 7, vy = 1, vz = 1\<rparr> t)"
    by blast
  from h a b c show ?thesis by blast
qed

subsection \<open>The matrix kernel\<close>

text \<open>\<open>invert\<close> computes the inverse of every matrix with a non-zero determinant.\<close>

lemma adj_right: "multiply M (adjugate M) = smult (determinant M) Identity"
  unfolding multiply_def adjugate_def smult_def determinant_def Identity_def FromValues_def Let_def
  by (simp add: algebra_simps)

lemma adj_left: "multiply (adjugate M) M = smult (determinant M) Identity"
  unfolding multiply_def adjugate_def smult_def determinant_def Identity_def FromValues_def Let_def
  by (simp add: algebra_simps)

lemma invert_adjugate: "invert M = smult (1 / determinant M) (adjugate M)"
  unfolding invert_def adjugate_def smult_def determinant_def Let_def
  by simp

lemma multiply_smult:
  "multiply A (smult c B) = smult c (multiply A B)"
  "multiply (smult c A) B = smult c (multiply A B)"
  by (simp_all add: multiply_def smult_def algebra_simps)

lemma smult_smult: "smult c (smult d A) = smult (c * d) A"
  by (simp add: smult_def algebra_simps)

lemma smult_one: "smult 1 A = A"
  by (simp add: smult_def)

lemma invert_right: "determinant M \<noteq> 0 \<Longrightarrow> multiply M (invert M) = Identity"
  by (simp add: invert_adjugate multiply_smult adj_right smult_smult smult_one)

lemma invert_left: "determinant M \<noteq> 0 \<Longrightarrow> multiply (invert M) M = Identity"
  by (simp add: invert_adjugate multiply_smult adj_left smult_smult smult_one)

lemma multiply_Identity: "multiply M Identity = M" "multiply Identity M = M"
  by (simp_all add: multiply_def Identity_def FromValues_def)

lemma multiply_assoc: "multiply (multiply A B) C = multiply A (multiply B C)"
  by (simp add: multiply_def algebra_simps)

subsection \<open>Solid particle system\<close>

lemma posToShape_length:
  "posToShape ps = Inr shape \<Longrightarrow> length ps = 3 * length shape"
  by (induction ps arbitrary: shape rule: posToShape.induct) (auto split: sum.splits)

lemma posToShape_defined:
  "length ps mod 3 = 0 \<Longrightarrow> \<exists>shape. posToShape ps = Inr shape"
proof (induction ps rule: posToShape.induct)
  case 1
  then show ?case by simp
next
  case (2 a b c rest)
  then have "length rest mod 3 = 0" by (simp add: mod_Suc split: if_splits)
  with 2 show ?case by auto
qed simp_all

lemma meshBuilder_vertex_result:
  assumes "meshBuilder_vertex options rc rm mUV mCol mNor v si b = Inr b'"
  shows "\<exists>p q r. b_positions b' = b_positions b @ [p, q, r]"
    and "b_u b' = (if mUV \<noteq> [] then b_u b + 2 else b_u b)"
  using assms
  by (auto simp: meshBuilder_vertex_def Let_def split: prod.splits if_splits)

lemma meshBuilder_vertex_defined:
  assumes "mUV = [] \<or> b_u b + 1 < length mUV"
  shows "\<exists>b'. meshBuilder_vertex options rc rm mUV mCol mNor v si b = Inr b'"
  using assms
  by (auto simp: meshBuilder_vertex_def Let_def split: prod.splits)

lemma meshBuilder_loop_result:
  "meshBuilder_loop options rc rm mUV mCol mNor vs si b = Inr b' \<Longrightarrow>
     \<exists>blk. b_positions b' = b_positions b @ blk \<and> length blk = 3 * length vs"
proof (induction vs arbitrary: si b)
  case Nil
  then show ?case by simp
next
  case (Cons v vs)
  from Cons.prems obtain b1 where
    v: "meshBuilder_vertex options rc rm mUV mCol mNor v si b = Inr b1" and
    l: "meshBuilder_loop options rc rm mUV mCol mNor vs (Suc si) b1 = Inr b'"
    by (auto split: sum.splits)
  from meshBuilder_vertex_result(1) [OF v] obtain p q r where
    p: "b_positions b1 = b_positions b @ [p, q, r]" by blast
  from Cons.IH [OF l] obtain blk where
    "b_positions b' = b_positions b1 @ blk" "length blk = 3 * length vs" by blast
  with p have "b_positions b' = b_positions b @ ([p, q, r] @ blk)
      \<and> length ([p, q, r] @ blk) = 3 * length (v # vs)" by simp
  then show ?case by blast
qed

lemma meshBuilder_loop_defined:
  "mUV = [] \<or> b_u b + 2 * length vs \<le> length mUV \<Longrightarrow>
     \<exists>b'. meshBuilder_loop options rc rm mUV mCol mNor vs si b = Inr b'"
proof (induction vs arbitrary: si b)
  case Nil
  then show ?case by simp
next
  case (Cons v vs)
  then have "mUV = [] \<or> b_u b + 1 < length mUV" by auto
  from meshBuilder_vertex_defined [OF this] obtain b1 where
    v: "meshBuilder_vertex options rc rm mUV mCol mNor v si b = Inr b1" by blast
  from meshBuilder_vertex_result(2) [OF v] Cons.prems
  have "mUV = [] \<or> b_u b1 + 2 * length vs \<le> length mUV" by auto
  from Cons.IH [OF this] v show ?case by simp
qed

lemma meshBuilder_result:
  assumes "meshBuilder p shape mInd mUV mCol mNor idx i options s = Inr s'"
  shows "\<exists>blk. positions s' = positions s @ blk \<and> length blk = 3 * length shape"
    and "same_settings s s'"
proof -
  from assms obtain b where
    l: "meshBuilder_loop options (recomputeNormals s)
          (quaternionToRotationMatrix
            (case p_rotationQuaternion
                    (case positionFunction options of None \<Rightarrow> resetCopy
                     | Some f \<Rightarrow> f resetCopy idx i) of
               Some q \<Rightarrow> q
             | None \<Rightarrow> quaternionRotationYPR
                         (vy (p_rotation (case positionFunction options of None \<Rightarrow> resetCopy
                     | Some f \<Rightarrow> f resetCopy idx i)))
                         (vx (p_rotation (case positionFunction options of None \<Rightarrow> resetCopy
                     | Some f \<Rightarrow> f resetCopy idx i)))
                         (vz (p_rotation (case positionFunction options of None \<Rightarrow> resetCopy
                     | Some f \<Rightarrow> f resetCopy idx i)))))
          mUV mCol mNor shape 0
          \<lparr>b_copy = (case positionFunction options of None \<Rightarrow> resetCopy
                     | Some f \<Rightarrow> f resetCopy idx i),
           b_u = 0, b_c = 0, b_n = 0, b_positions = positions s,
           b_uvs = uvs s, b_colors = colors s\<rparr> = Inr b"
    and s': "positions s' = b_positions b" "same_settings s s'"
    by (auto simp: meshBuilder_def Let_def same_settings_def split: sum.splits if_splits)
  from meshBuilder_loop_result [OF l] s'
  show "\<exists>blk. positions s' = positions s @ blk \<and> length blk = 3 * length shape"
    by simp
  from s' show "same_settings s s'" by simp
qed

lemma meshBuilder_defined:
  assumes "length shape < 2 ^ 32" and "mUV = [] \<or> 2 * length shape \<le> length mUV"
  shows "\<exists>s'. meshBuilder p shape mInd mUV mCol mNor idx i options s = Inr s'"
proof -
  define c where "c = (case positionFunction options of None \<Rightarrow> resetCopy
                     | Some f \<Rightarrow> f resetCopy idx i)"
  define b0 where "b0 = \<lparr>b_copy = c, b_u = 0, b_c = 0, b_n = 0, b_positions = positions s,
           b_uvs = uvs s, b_colors = colors s\<rparr>"
  define rm where "rm = quaternionToRotationMatrix
          (case p_rotationQuaternion c of Some q \<Rightarrow> q
           | None \<Rightarrow> quaternionRotationYPR (vy (p_rotation c)) (vx (p_rotation c))
                       (vz (p_rotation c)))"
  from assms(2) have "mUV = [] \<or> b_u b0 + 2 * length shape \<le> length mUV"
    by (simp add: b0_def)
  from meshBuilder_loop_defined [OF this]
  obtain b where "meshBuilder_loop options (recomputeNormals s) rm mUV mCol mNor shape 0 b0 = Inr b"
    by blast
  with assms(1) show ?thesis
    by (simp add: meshBuilder_def Let_def c_def [symmetric] b0_def [symmetric] rm_def [symmetric])
qed

lemma same_settings_refl: "same_settings s s"
  by (simp add: same_settings_def)

lemma same_settings_trans: "same_settings s s1 \<Longrightarrow> same_settings s1 s2 \<Longrightarrow> same_settings s s2"
  by (simp add: same_settings_def)

lemma addShape_round:
  assumes "same_settings s s1"
  shows "same_settings s
           ((if updatable s1 then addParticle idx ip model sc i bb s1 else s1)
              \<lparr>sps_index := k\<rparr>)"
    and "positions ((if updatable s1 then addParticle idx ip model sc i bb s1 else s1)
              \<lparr>sps_index := k\<rparr>) = positions s1"
  using assms by (simp_all add: same_settings_def addParticle_def)

lemma addShape_loop_result:
  "addShape_loop iMesh shape model bb options k i idx s = Inr s' \<Longrightarrow>
     (\<exists>blocks. positions s' = positions s @ concat blocks \<and> length blocks = k
                \<and> (\<forall>b \<in> set blocks. length b = 3 * length shape))
     \<and> same_settings s s'"
proof (induction k arbitrary: i idx s)
  case 0
  then have "positions s' = positions s @ concat []" by simp
  with 0 show ?case by (auto simp: same_settings_refl intro: exI [of _ "[]"])
next
  case (Suc k)
  from Suc.prems obtain s1 where
    m: "meshBuilder (sps_index s) shape (meshInd iMesh) (meshUV iMesh) (meshCol iMesh)
             (meshNor iMesh) idx i options s = Inr s1"
    by (auto split: sum.splits)
  define s3 where "s3 = (if updatable s1
                     then addParticle idx (of_nat (length (positions s1))) model
                            (shapeCounter s1) i bb s1
                     else s1)\<lparr>sps_index := sps_index (if updatable s1
                     then addParticle idx (of_nat (length (positions s1))) model
                            (shapeCounter s1) i bb s1
                     else s1) + of_nat (length shape)\<rparr>"
  from Suc.prems m have l: "addShape_loop iMesh shape model bb options k (i + 1) (idx + 1) s3 = Inr s'"
    by (simp add: Let_def s3_def)
  from meshBuilder_result [OF m] obtain blk where
    blk: "positions s1 = positions s @ blk" "length blk = 3 * length shape"
    and ss1: "same_settings s s1" by blast
  from addShape_round [OF ss1] have ss3: "same_settings s s3" and p3: "positions s3 = positions s1"
    unfolding s3_def by blast+
  from Suc.IH [OF l] obtain blocks where
    bl: "positions s' = positions s3 @ concat blocks" "length blocks = k"
        "\<forall>b \<in> set blocks. length b = 3 * length shape"
    and ss': "same_settings s3 s'" by blast
  from bl blk p3 have "positions s' = positions s @ concat (blk # blocks)
      \<and> length (blk # blocks) = Suc k
      \<and> (\<forall>b \<in> set (blk # blocks). length b = 3 * length shape)" by simp
  with same_settings_trans [OF ss3 ss'] show ?case by blast
qed

lemma addShape_loop_defined:
  assumes "length shape < 2 ^ 32"
    and "meshUV iMesh = [] \<or> 2 * length shape \<le> length (meshUV iMesh)"
  shows "\<exists>s'. addShape_loop iMesh shape model bb options k i idx s = Inr s'"
proof (induction k arbitrary: i idx s)
  case 0
  then show ?case by simp
next
  case (Suc k)
  from meshBuilder_defined [OF assms] obtain s1 where
    "meshBuilder (sps_index s) shape (meshInd iMesh) (meshUV iMesh) (meshCol iMesh)
             (meshNor iMesh) idx i options s = Inr s1" by blast
  with Suc.IH show ?case by (simp add: Let_def)
qed

lemma concat_blocks_length:
  "\<forall>b \<in> set blocks. length b = n \<Longrightarrow> length (concat blocks) = length blocks * n"
  by (induction blocks) simp_all

lemma addShape_result:
  assumes "addShape iMesh nb options s = Inr (shapeId, s')"
  shows "nbParticles s' = nbParticles s + of_nat nb"
    and "\<exists>blocks. positions s' = positions s @ concat blocks \<and> length blocks = nb
                \<and> (\<forall>b \<in> set blocks. length b = shapeVertexCount iMesh * 3)"
    and "length (positions s') = length (positions s) + nb * (shapeVertexCount iMesh * 3)"
    and "nb < 2 ^ 32" and "length (meshPos iMesh) mod 3 = 0"
proof -
  from assms obtain shape where sh: "posToShape (meshPos iMesh) = Inr shape"
    by (auto simp: addShape_def Let_def split: sum.splits)
  from posToShape_length [OF sh] have n: "shapeVertexCount iMesh = length shape"
    and m3: "length (meshPos iMesh) mod 3 = 0"
    by (simp_all add: shapeVertexCount_def)
  from assms sh have nb: "nb < 2 ^ 32"
    by (auto simp: addShape_def Let_def split: sum.splits if_splits)
  from assms sh nb obtain s1 model bb where
    l: "addShape_loop iMesh shape model bb options nb 0 (nbParticles s) s = Inr s1"
    and s': "s' = s1\<lparr>nbParticles := nbParticles s1 + of_nat nb, shapeCounter := shapeCounter s1 + 1\<rparr>"
    by (auto simp: addShape_def Let_def split: sum.splits if_splits)
  from addShape_loop_result [OF l] obtain blocks where
    bl: "positions s1 = positions s @ concat blocks" "length blocks = nb"
        "\<forall>b \<in> set blocks. length b = 3 * length shape"
    and ss: "same_settings s s1" by blast
  from ss s' show "nbParticles s' = nbParticles s + of_nat nb"
    by (simp add: same_settings_def)
  from bl s' n show e: "\<exists>blocks. positions s' = positions s @ concat blocks \<and> length blocks = nb
                \<and> (\<forall>b \<in> set blocks. length b = shapeVertexCount iMesh * 3)"
    by (auto simp: mult.commute)
  then obtain bs where "positions s' = positions s @ concat bs" "length bs = nb"
     "\<forall>b \<in> set bs. length b = shapeVertexCount iMesh * 3" by blast
  with concat_blocks_length [of bs "shapeVertexCount iMesh * 3"]
  show "length (positions s') = length (positions s) + nb * (shapeVertexCount iMesh * 3)"
    by simp
  show "nb < 2 ^ 32" by (rule nb)
  show "length (meshPos iMesh) mod 3 = 0" by (rule m3)
qed

lemma addShape_defined:
  assumes "well_formed_call (iMesh, nb, options)"
  shows "\<exists>r. addShape iMesh nb options s = Inr r"
proof -
  from assms have m3: "length (meshPos iMesh) mod 3 = 0"
    and vc: "shapeVertexCount iMesh < 2 ^ 32"
    and uv: "meshUV iMesh = [] \<or> 2 * shapeVertexCount iMesh \<le> length (meshUV iMesh)"
    and nb: "nb < 2 ^ 32"
    by (simp_all add: well_formed_call_def)
  from posToShape_defined [OF m3] obtain shape where sh: "posToShape (meshPos iMesh) = Inr shape"
    by blast
  from posToShape_length [OF sh] have n: "shapeVertexCount iMesh = length shape"
    by (simp add: shapeVertexCount_def)
  from vc uv n have a: "length shape < 2 ^ 32"
    "meshUV iMesh = [] \<or> 2 * length shape \<le> length (meshUV iMesh)" by simp_all
  define model where "model = \<lparr>shapeID = shapeCounter s, ms_shape = shape,
       ms_shapeUV = uvsToShapeUV (meshUV iMesh),
       ms_positionFunction = positionFunction options,
       ms_vertexFunction = vertexFunction options\<rparr>"
  define bb where "bb = (if particlesIntersect s then mesh_boundingInfo iMesh else None)"
  from addShape_loop_defined [OF a] obtain s1 where
    "addShape_loop iMesh shape model bb options nb 0 (nbParticles s) s = Inr s1" by blast
  with sh nb show ?thesis
    by (simp add: addShape_def Let_def model_def [symmetric] bb_def [symmetric])
qed

lemma addShapes_result:
  "addShapes calls s = Inr s' \<Longrightarrow>
     nbParticles s' = nbParticles s + of_nat (total_count calls)
     \<and> (\<exists>blocks. positions s' = positions s @ concat blocks
            \<and> map length blocks = slice_sizes calls)"
proof (induction calls arbitrary: s)
  case Nil
  then have "positions s' = positions s @ concat [] \<and> map length ([] :: real list list) = slice_sizes []"
    by simp
  with Nil show ?case by (auto intro: exI [of _ "[]"])
next
  case (Cons call calls)
  obtain iMesh nb options where call: "call = (iMesh, nb, options)" by (cases call)
  from Cons.prems call obtain shapeId s1 where
    a: "addShape iMesh nb options s = Inr (shapeId, s1)" and
    r: "addShapes calls s1 = Inr s'"
    by (auto split: sum.splits)
  from addShape_result(1,2) [OF a] obtain bs where
    n1: "nbParticles s1 = nbParticles s + of_nat nb" and
    b1: "positions s1 = positions s @ concat bs" "length bs = nb"
        "\<forall>b \<in> set bs. length b = shapeVertexCount iMesh * 3" by blast
  from b1(2,3) have m1: "map length bs = replicate nb (shapeVertexCount iMesh * 3)"
    by (metis map_replicate_const map_eq_conv)
  from Cons.IH [OF r] obtain blocks where
    n2: "nbParticles s' = nbParticles s1 + of_nat (total_count calls)" and
    b2: "positions s' = positions s1 @ concat blocks" "map length blocks = slice_sizes calls"
    by blast
  from b1 b2 m1 call have "positions s' = positions s @ concat (bs @ blocks)
      \<and> map length (bs @ blocks) = slice_sizes (call # calls)" by simp
  moreover from n1 n2 call have "nbParticles s' = nbParticles s + of_nat (total_count (call # calls))"
    by simp
  ultimately show ?case by blast
qed

lemma addShapes_defined:
  "list_all well_formed_call calls \<Longrightarrow> \<exists>s'. addShapes calls s = Inr s'"
proof (induction calls arbitrary: s)
  case Nil
  then show ?case by simp
next
  case (Cons call calls)
  obtain iMesh nb options where call: "call = (iMesh, nb, options)" by (cases call)
  from Cons.prems call have "well_formed_call (iMesh, nb, options)" by simp
  from addShape_defined [OF this] obtain shapeId s1 where
    "addShape iMesh nb options s = Inr (shapeId, s1)" by fastforce
  moreover from Cons obtain s' where "addShapes calls s1 = Inr s'" by auto
  ultimately show ?case using call by simp
qed

lemma slice_sizes_sums:
  "sum_list (slice_sizes calls) = total_entries calls"
  "length (slice_sizes calls) = total_count calls"
  by (induction calls rule: slice_sizes.induct) (simp_all add: sum_list_replicate)

lemma length_concat_map_length: "length (concat blocks) = sum_list (map length blocks)"
  by (induction blocks) simp_all

lemma unat_add_of_nat_no_wrap:
  fixes w :: "32 word"
  assumes "unat w + n < 2 ^ 32"
  shows "unat (w + of_nat n) = unat w + n"
proof -
  from assms have "n < 2 ^ 32" by simp
  then have "unat (of_nat n :: 32 word) = n"
    by (simp add: unat_of_nat)
  with assms show ?thesis
    by (simp add: unat_word_ariths)
qed

lemma buildMesh_positions:
  "positions32 (snd (buildMesh cn s)) = positions s"
  "vd_positions (fst (buildMesh cn s)) = positions s"
  "positions (snd (buildMesh cn s)) = []"
  "nbParticles (snd (buildMesh cn s)) = nbParticles s"
  by (simp_all add: buildMesh_def Let_def)

text \<open>
  Claim C9, amended.  Every sequence of \<open>addShape\<close> calls with well-formed meshes and
  counts below \<open>2\<^sup>3\<^sup>2\<close> returns.  When a sequence returns, \<open>nbParticles\<close> has grown by
  the sum of the requested counts modulo \<open>2\<^sup>3\<^sup>2\<close> (it is a 32-bit counter), hence by the
  sum itself when that stays below \<open>2\<^sup>3\<^sup>2\<close>; the position array has grown by one
  contiguous slice of \<open>shapeVertexCount \<times> 3\<close> entries for every instance, in the order
  of the calls; and \<open>buildMesh\<close> copies the position array unchanged into the flat
  array \<open>_positions32\<close>.
\<close>

theorem addShapes_counts:
  "(list_all well_formed_call calls \<longrightarrow> (\<exists>s'. addShapes calls s = Inr s'))
   \<and> (\<forall>s'. addShapes calls s = Inr s' \<longrightarrow>
         nbParticles s' = nbParticles s + of_nat (total_count calls)
       \<and> (unat (nbParticles s) + total_count calls < 2 ^ 32 \<longrightarrow>
            unat (nbParticles s') = unat (nbParticles s) + total_count calls)
       \<and> (\<exists>blocks. positions s' = positions s @ concat blocks
              \<and> map length blocks = slice_sizes calls)
       \<and> length (positions s') = length (positions s) + total_entries calls
       \<and> positions32 (snd (buildMesh ComputeNormals s')) = positions s'
       \<and> nbParticles (snd (buildMesh ComputeNormals s')) = nbParticles s')"
proof (intro conjI allI impI)
  assume "list_all well_formed_call calls"
  then show "\<exists>s'. addShapes calls s = Inr s'" by (rule addShapes_defined)
next
  fix s' assume a: "addShapes calls s = Inr s'"
  from addShapes_result [OF a] show n: "nbParticles s' = nbParticles s + of_nat (total_count calls)"
    by blast
  from addShapes_result [OF a] show b: "\<exists>blocks. positions s' = positions s @ concat blocks
              \<and> map length blocks = slice_sizes calls" by blast
  then obtain blocks where "positions s' = positions s @ concat blocks"
    "map length blocks = slice_sizes calls" by blast
  then show "length (positions s') = length (positions s) + total_entries calls"
    by (simp add: length_concat_map_length slice_sizes_sums)
  show "positions32 (snd (buildMesh ComputeNormals s')) = positions s'"
    by (rule buildMesh_positions)
  show "nbParticles (snd (buildMesh ComputeNormals s')) = nbParticles s'"
    by (rule buildMesh_positions)
  assume "unat (nbParticles s) + total_count calls < 2 ^ 32"
  with n show "unat (nbParticles s') = unat (nbParticles s) + total_count calls"
    by (simp add: unat_add_of_nat_no_wrap)
qed

theorem addShapes_counts_witness:
  "\<exists>s'. addShapes [(quad_mesh, 1, no_options), (quad_mesh, 1, no_options)] sps0 = Inr s'
      \<and> unat (nbParticles s') = 2
      \<and> length (positions s') = 2 * 4 * 3
      \<and> length (positions32 (snd (buildMesh (\<lambda>ps is ns. ns) s'))) = 2 * 4 * 3"
proof -
  define calls where "calls = [(quad_mesh, 1::nat, no_options), (quad_mesh, 1, no_options)]"
  have wf: "list_all well_formed_call calls"
    by (simp add: calls_def well_formed_call_def quad_mesh_def shapeVertexCount_def)
  have tc: "total_count calls = 2" by (simp add: calls_def)
  have te: "total_entries calls = 24" by (simp add: calls_def quad_mesh_def shapeVertexCount_def)
  have z: "unat (nbParticles sps0) = 0" "length (positions sps0) = 0" by (simp_all add: sps0_def)
  note t = addShapes_counts [of calls sps0 "\<lambda>ps is ns. ns"]
  from t wf obtain s' where s': "addShapes calls sps0 = Inr s'" by blast
  from t s' have r: "(unat (nbParticles sps0) + total_count calls < 2 ^ 32 \<longrightarrow>
            unat (nbParticles s') = unat (nbParticles sps0) + total_count calls)
       \<and> length (positions s') = length (positions sps0) + total_entries calls
       \<and> positions32 (snd (buildMesh (\<lambda>ps is ns. ns) s')) = positions s'"
    by blast
  have "unat (nbParticles sps0) + total_count calls < 2 ^ 32" by (simp add: z tc)
  with r have "unat (nbParticles s') = 2" "length (positions s') = 24"
    "length (positions32 (snd (buildMesh (\<lambda>ps is ns. ns) s'))) = 24"
    by (simp_all add: z tc te)
  with s' show ?thesis unfolding calls_def by auto
qed

text \<open>
  Claim C9 as stated fails when the counter wraps: two calls that each ask for \<open>2\<^sup>3\<^sup>1\<close>
  instances of a mesh without vertices return, and leave \<open>nbParticles\<close> at \<open>0\<close>, while
  the sum of the requested counts is \<open>2\<^sup>3\<^sup>2\<close>.
\<close>

theorem nbParticles_wraps_counterexample:
  "nbParticles_after [(empty_mesh, 2 ^ 31, no_options), (empty_mesh, 2 ^ 31, no_options)] sps0
     = Some 0
   \<and> total_count [(empty_mesh, 2 ^ 31, no_options), (empty_mesh, 2 ^ 31, no_options)] = 2 ^ 32"
proof -
  let ?calls = "[(empty_mesh, 2 ^ 31, no_options), (empty_mesh, 2 ^ 31, no_options)]"
  have wf: "list_all well_formed_call ?calls"
    by (simp add: well_formed_call_def empty_mesh_def shapeVertexCount_def)
  have tc: "total_count ?calls = 2 ^ 32" by simp
  from addShapes_defined [OF wf] obtain s' where s': "addShapes ?calls sps0 = Inr s'" by blast
  from addShapes_result [OF s'] tc
  have "nbParticles s' = nbParticles sps0 + of_nat (2 ^ 32)" by simp
  then have "nbParticles s' = 0" by (simp add: sps0_def)
  with s' tc show ?thesis by (simp add: nbParticles_after_def)
qed

subsection \<open>Bone hierarchy\<close>

lemma invert_Identity: "invert Identity = Identity"
  by (simp add: invert_def Identity_def FromValues_def Let_def)

lemma root_bone_eq:
  "root_bone = Bone \<lparr>bone_name = ''root'', bone_matrix = Identity, bone_length = -1,
       restPose = Identity, baseMatrix = Identity, absoluteTransform = Identity,
       invertedAbsoluteTransform = Identity, scaleMatrix = Identity,
       scaleVector = \<lparr>vx = 1, vy = 1, vz = 1\<rparr>,
       negateScaleChildren = \<lparr>vx = 1, vy = 1, vz = 1\<rparr>, scalingDeterminant = 1,
       currentRenderId = 0, animations = []\<rparr> []"
proof -
  have d: "determinant Identity = 1"
    by (simp add: determinant_def Identity_def FromValues_def Let_def)
  show ?thesis
    by (simp add: root_bone_def new_Bone_def updateDifferenceMatrix_def Let_def invert_Identity d)
qed

lemma det_Identity: "determinant Identity = 1"
  by (simp add: determinant_def Identity_def FromValues_def Let_def)

lemma child_bone_eq:
  "child_bone = Bone \<lparr>bone_name = ''child'', bone_matrix = Translation 1 0 0, bone_length = -1,
       restPose = Translation 1 0 0, baseMatrix = Translation 1 0 0,
       absoluteTransform = Translation 1 0 0,
       invertedAbsoluteTransform = Translation (-1) 0 0, scaleMatrix = Identity,
       scaleVector = \<lparr>vx = 1, vy = 1, vz = 1\<rparr>,
       negateScaleChildren = \<lparr>vx = 1, vy = 1, vz = 1\<rparr>, scalingDeterminant = 1,
       currentRenderId = 0, animations = []\<rparr> []"
proof -
  have m: "multiply (Translation 1 0 0) Identity = Translation 1 0 0"
    by (simp add: multiply_Identity)
  have d: "determinant (Translation 1 0 0) = 1"
    by (simp add: determinant_def Translation_def FromValues_def Let_def)
  have i: "invert (Translation 1 0 0) = Translation (-1) 0 0"
    by (simp add: invert_def Translation_def FromValues_def Let_def)
  show ?thesis
    by (simp add: child_bone_def new_Bone_def updateDifferenceMatrix_def Let_def root_bone_eq m d i)
qed

lemma example_ops_return: "\<exists>sk1. apply_ops (\<lambda>axis amount. Identity)
     [Translate [0, 0] \<lparr>vx = 0, vy = 1, vz = 0\<rparr> LOCAL None,
      Rotate [0, 0] \<lparr>vx = 0, vy = 0, vz = 1\<rparr> 0 LOCAL None,
      Scale [0, 0] 2 1 1 True] skeleton2 = Inr sk1"
  by (simp add: skeleton2_def root_bone_eq child_bone_eq translate_def skeleton_at_def
      on_data_def translate_data_def skeleton_scale_def skeleton_rotate_def Let_def
      skeleton_markAsDirty_def rotate_def rotateWithMatrix_def scale_self_def)

lemma computeAbsoluteTransforms_consistent:
  "abs_consistent pose parent (computeAbsoluteTransforms pose parent b)"
proof (induction b arbitrary: parent)
  case (Bone d cs)
  then show ?case
    by (simp add: Let_def list_all_iff split: option.splits)
qed

lemma computeAbsoluteTransforms_inverted:
  "inverted_of (computeAbsoluteTransforms pose parent b) = inverted_of b"
proof (induction b arbitrary: parent)
  case (Bone d cs)
  then show ?case by (simp add: Let_def comp_def cong: map_cong)
qed

lemma updateDifferenceMatrix_from_inv:
  "inv_consistent (updateDifferenceMatrix_from rootMatrix parent b)"
proof (induction b arbitrary: rootMatrix parent)
  case (Bone d cs)
  then show ?case by (simp add: Let_def list_all_iff)
qed

lemma inv_consistent_exact:
  "inv_consistent b \<Longrightarrow> abs_regular b \<Longrightarrow> inv_exact b"
proof (induction b)
  case (Bone d cs)
  then show ?case by (simp add: list_all_iff invert_right invert_left)
qed

lemma skeleton_computeAbsoluteTransforms_consistent:
  "list_all (abs_consistent (poseMatrix sk) None) (roots (skeleton_computeAbsoluteTransforms sk))"
  by (simp add: skeleton_computeAbsoluteTransforms_def list_all_iff
      computeAbsoluteTransforms_consistent)

lemma skeleton_computeAbsoluteTransforms_inverted:
  "map inverted_of (roots (skeleton_computeAbsoluteTransforms sk)) = map inverted_of (roots sk)"
  by (simp add: skeleton_computeAbsoluteTransforms_def comp_def computeAbsoluteTransforms_inverted)

lemma poseMatrix_after_ops:
  "after_ops RA ops sk = Some sk' \<Longrightarrow>
     \<exists>sk1. apply_ops RA ops sk = Inr sk1 \<and> sk' = skeleton_computeAbsoluteTransforms sk1"
  by (auto simp: after_ops_def split: sum.splits)

lemma inverted_of_eq:
  "inverted_of b = Node (invertedAbsoluteTransform (data b)) (map inverted_of (children b))"
  by (cases b) simp

lemma at_path_inverted:
  assumes f: "\<And>parent b b'. f parent b = Inr b' \<Longrightarrow> inverted_of b' = inverted_of b"
  shows "at_path f p parent b = Inr b' \<Longrightarrow> inverted_of b' = inverted_of b"
proof (induction p arbitrary: parent b b')
  case Nil
  then show ?case using f by simp
next
  case (Cons i p)
  from Cons.prems have i: "i < length (children b)"
    by (simp split: if_splits)
  with Cons.prems obtain c where c: "at_path f p (Some (data b)) (children b ! i) = Inr c"
    and b': "b' = Bone (data b) ((children b)[i := c])"
    by (auto split: sum.splits)
  from Cons.IH [OF c] have "inverted_of c = inverted_of (children b ! i)" .
  then have "map inverted_of ((children b)[i := c]) = map inverted_of (children b)"
    using i by (simp add: map_update list_update_same_conv)
  then show ?case
    unfolding b' by (subst (2) inverted_of_eq) simp
qed

lemma skeleton_at_inverted:
  assumes f: "\<And>parent b b'. f parent b = Inr b' \<Longrightarrow> inverted_of b' = inverted_of b"
    and s: "skeleton_at f path sk = Inr sk'"
  shows "map inverted_of (roots sk') = map inverted_of (roots sk)"
proof (cases path)
  case Nil
  with s show ?thesis by (simp add: skeleton_at_def)
next
  case (Cons i p)
  with s have i: "i < length (roots sk)"
    by (simp add: skeleton_at_def split: if_splits)
  with s Cons obtain b where b: "at_path f p None (roots sk ! i) = Inr b"
    and sk': "sk' = sk\<lparr>roots := (roots sk)[i := b]\<rparr>"
    by (auto simp: skeleton_at_def split: sum.splits)
  from at_path_inverted [of f, OF f b] have "inverted_of b = inverted_of (roots sk ! i)" .
  then show ?thesis
    unfolding sk' using i by (simp add: map_update list_update_same_conv)
qed

lemma translate_data_inverted:
  "on_data (translate_data vec sp mesh) parent b = Inr b' \<Longrightarrow> inverted_of b' = inverted_of b"
  by (cases b)
     (auto simp: on_data_def translate_data_def markAsDirty_def Let_def
        split: sum.splits if_splits option.splits)

lemma rotate_inverted:
  "inverted_of (rotate RA pose axis amount sp mesh parent b) = inverted_of b"
proof -
  have "inverted_of (rotateWithMatrix pose rmat sp mesh parent b) = inverted_of b" for rmat
  proof -
    obtain d cs where b: "b = Bone d cs" by (cases b)
    define b0 where "b0 = Bone (d\<lparr>bone_matrix := bone_matrix (data (rotateWithMatrix pose rmat sp mesh parent b))\<rparr>) cs"
    have i0: "inverted_of b0 = inverted_of b"
      by (simp add: b0_def b)
    have "\<exists>lm. rotateWithMatrix pose rmat sp mesh parent b
        = (let b1 = computeAbsoluteTransforms pose parent (Bone (d\<lparr>bone_matrix := lm\<rparr>) cs)
           in Bone (markAsDirty (data b1)) (children b1))"
      unfolding rotateWithMatrix_def Let_def b by auto
    then obtain lm where r: "rotateWithMatrix pose rmat sp mesh parent b
        = (let b1 = computeAbsoluteTransforms pose parent (Bone (d\<lparr>bone_matrix := lm\<rparr>) cs)
           in Bone (markAsDirty (data b1)) (children b1))" by blast
    define b1 where "b1 = computeAbsoluteTransforms pose parent (Bone (d\<lparr>bone_matrix := lm\<rparr>) cs)"
    have "inverted_of b1 = inverted_of (Bone (d\<lparr>bone_matrix := lm\<rparr>) cs)"
      unfolding b1_def by (rule computeAbsoluteTransforms_inverted)
    also have "\<dots> = inverted_of b" by (simp add: b)
    finally have i1: "inverted_of b1 = inverted_of b" .
    have "inverted_of (Bone (markAsDirty (data b1)) (children b1)) = inverted_of b1"
      by (subst (2) inverted_of_eq) (simp add: markAsDirty_def)
    with i1 show ?thesis
      unfolding r Let_def b1_def [symmetric] by simp
  qed
  then show ?thesis by (simp add: rotate_def)
qed

lemma scale_child_inverted: "inverted_of (scale_child x y z si c) = inverted_of c"
  by (cases c) (simp add: scale_child_def Let_def)

lemma scale_self_inverted: "inverted_of (scale_self pose x y z parent b) = inverted_of b"
  by (cases b)
     (simp add: scale_self_def Let_def computeAbsoluteTransforms_inverted comp_def
        scale_child_inverted)

lemma scale_inverted:
  "inverted_of (scale pose x y z scaleChildren parent b) = inverted_of b"
proof (induction pose x y z scaleChildren parent b rule: scale.induct)
  case (1 pose x y z scaleChildren parent b)
  define b1 where "b1 = scale_self pose x y z parent b"
  have i1: "inverted_of b1 = inverted_of b"
    unfolding b1_def by (rule scale_self_inverted)
  have m: "inverted_of (Bone (markAsDirty (data b1)) cs)
      = Node (invertedAbsoluteTransform (data b1)) (map inverted_of cs)" for cs
    by (simp add: markAsDirty_def)
  show ?case
  proof (cases scaleChildren)
    case True
    have ih: "c \<in> set (children b1) \<Longrightarrow>
        inverted_of (scale pose x y z scaleChildren (Some (data b1)) c) = inverted_of c" for c
      using "1.IH" [OF b1_def True] by simp
    have e: "scale pose x y z scaleChildren parent b
        = Bone (markAsDirty (data b1))
            (map (scale pose x y z scaleChildren (Some (data b1))) (children b1))"
      using True by (subst scale.simps) (simp add: Let_def b1_def [symmetric])
    have "map inverted_of (map (scale pose x y z scaleChildren (Some (data b1))) (children b1))
        = map inverted_of (children b1)"
      using ih by (simp add: comp_def cong: map_cong)
    then have "inverted_of (scale pose x y z scaleChildren parent b) = inverted_of b1"
      unfolding e m by (subst inverted_of_eq [of b1]) simp
    with i1 show ?thesis by simp
  next
    case False
    have e: "scale pose x y z scaleChildren parent b = Bone (markAsDirty (data b1)) (children b1)"
      using False by (subst scale.simps) (simp add: Let_def b1_def [symmetric])
    have "inverted_of (scale pose x y z scaleChildren parent b) = inverted_of b1"
      unfolding e m by (subst inverted_of_eq [of b1]) simp
    with i1 show ?thesis by simp
  qed
qed

lemma apply_op_inverted:
  assumes "apply_op RA op sk = Inr sk'"
  shows "map inverted_of (roots sk') = map inverted_of (roots sk)"
proof (cases op)
  case (Translate path vec sp mesh)
  define sk0 where "sk0 = (if sp = LOCAL then sk else skeleton_computeAbsoluteTransforms sk)"
  have r0: "map inverted_of (roots sk0) = map inverted_of (roots sk)"
    by (simp add: sk0_def skeleton_computeAbsoluteTransforms_inverted)
  from assms Translate obtain sk2 where
    s: "skeleton_at (on_data (translate_data vec sp mesh)) path sk0 = Inr sk2"
    and sk': "sk' = skeleton_markAsDirty sk2"
    by (auto simp: translate_def Let_def sk0_def split: sum.splits)
  from skeleton_at_inverted [OF translate_data_inverted s]
  have "map inverted_of (roots sk2) = map inverted_of (roots sk0)" .
  with r0 show ?thesis by (simp add: sk' skeleton_markAsDirty_def)
next
  case (Rotate path axis amount sp mesh)
  from assms Rotate obtain sk1 where
    s: "skeleton_at (\<lambda>parent b. Inr (rotate RA (poseMatrix sk) axis amount sp mesh parent b))
          path sk = Inr sk1"
    and sk': "sk' = skeleton_markAsDirty sk1"
    by (auto simp: skeleton_rotate_def split: sum.splits)
  have "map inverted_of (roots sk1) = map inverted_of (roots sk)"
    by (rule skeleton_at_inverted [OF _ s]) (auto simp: rotate_inverted)
  then show ?thesis by (simp add: sk' skeleton_markAsDirty_def)
next
  case (Scale path x y z scaleChildren)
  from assms Scale obtain sk1 where
    s: "skeleton_at (\<lambda>parent b. Inr (scale (poseMatrix sk) x y z scaleChildren parent b))
          path sk = Inr sk1"
    and sk': "sk' = skeleton_markAsDirty sk1"
    by (auto simp: skeleton_scale_def split: sum.splits)
  have "map inverted_of (roots sk1) = map inverted_of (roots sk)"
    by (rule skeleton_at_inverted [OF _ s]) (auto simp: scale_inverted)
  then show ?thesis by (simp add: sk' skeleton_markAsDirty_def)
qed

lemma apply_ops_inverted:
  "apply_ops RA ops sk = Inr sk' \<Longrightarrow> map inverted_of (roots sk') = map inverted_of (roots sk)"
proof (induction ops arbitrary: sk)
  case Nil
  then show ?case by simp
next
  case (Cons op ops)
  then obtain sk1 where a: "apply_op RA op sk = Inr sk1" and b: "apply_ops RA ops sk1 = Inr sk'"
    by (auto split: sum.splits)
  from Cons.IH [OF b] apply_op_inverted [OF a] show ?case by simp
qed

lemma updateDifferenceMatrix_from_bone_at:
  "bone_at p q (updateDifferenceMatrix_from rootMatrix parent b) = Some (q', c) \<Longrightarrow>
     invertedAbsoluteTransform (data c) = invert (absoluteTransform (data c))"
proof (induction p arbitrary: q rootMatrix parent b)
  case Nil
  then show ?case by (cases b) (auto simp: Let_def)
next
  case (Cons i p)
  obtain d cs where b: "b = Bone d cs" by (cases b)
  from Cons.prems show ?case
    unfolding b
    by (auto simp: Let_def split: if_splits dest: Cons.IH)
qed

lemma bone_at_inverse_exact:
  assumes "bone_at p parent (updateDifferenceMatrix parent b) = Some (q, c)"
    and "determinant (absoluteTransform (data c)) \<noteq> 0"
  shows "multiply (absoluteTransform (data c)) (invertedAbsoluteTransform (data c)) = Identity
       \<and> multiply (invertedAbsoluteTransform (data c)) (absoluteTransform (data c)) = Identity"
  using updateDifferenceMatrix_from_bone_at [OF assms(1) [unfolded updateDifferenceMatrix_def]]
    assms(2)
  by (simp add: invert_right invert_left)


lemma det_Translation: "determinant (Translation x y z) = 1"
  by (simp add: determinant_def Translation_def FromValues_def Let_def)

lemma bone_tree3_child:
  "\<exists>q c. bone_at [0] None (updateDifferenceMatrix None bone_tree3) = Some (q, c)
     \<and> absoluteTransform (data c) = Translation 1 0 0"
  by (simp add: bone_tree3_def updateDifferenceMatrix_def root_bone_eq child_bone_eq Let_def
      multiply_Identity)

lemma bone_tree3_not_regular: "\<not> abs_regular (updateDifferenceMatrix None bone_tree3)"
proof -
  obtain d cs where f: "flat_bone = Bone d cs" by (cases flat_bone)
  have b: "baseMatrix d = FromValues 0 0 0 0  0 0 0 0  0 0 0 0  0 0 0 0"
  proof -
    have "baseMatrix (data flat_bone) = FromValues 0 0 0 0  0 0 0 0  0 0 0 0  0 0 0 0"
      by (simp add: flat_bone_def new_Bone_def updateDifferenceMatrix_def Let_def)
    with f show ?thesis by (metis bone.sel(1))
  qed
  have m: "multiply (FromValues 0 0 0 0  0 0 0 0  0 0 0 0  0 0 0 0) Identity
      = FromValues 0 0 0 0  0 0 0 0  0 0 0 0  0 0 0 0"
    by (simp add: multiply_Identity)
  have z: "determinant (FromValues 0 0 0 0  0 0 0 0  0 0 0 0  0 0 0 0) = 0"
    by (simp add: determinant_def FromValues_def Let_def)
  show ?thesis
    by (simp add: bone_tree3_def updateDifferenceMatrix_def root_bone_eq f b Let_def m z)
qed

text \<open>
  Claim C1, amended.  After any sequence of \<open>translate\<close>, \<open>rotate\<close> and \<open>scale\<close> calls
  followed by the forced recompute, the absolute transform of every bone with a parent is
  its local matrix times its parent's absolute transform (and that of a root bone is its
  local matrix, times the pose matrix if there is one); this holds after every call of
  \<open>computeAbsoluteTransforms\<close>.  The inverted absolute transforms are not recomputed:
  \<open>translate\<close>, \<open>rotate\<close>, \<open>scale\<close>, \<open>computeAbsoluteTransforms\<close> and the skeleton's
  recompute, and so every sequence of them, leave the inverted absolute transform of
  every bone as it was.  It is written by \<open>_updateDifferenceMatrix\<close> only: right after
  that call the inverted transform of every bone of the subtree is \<open>invert\<close> of its
  absolute transform, and so, bone by bone, its exact inverse where that transform has a
  non-zero determinant.
\<close>

theorem absolute_transforms_after_recompute:
  "(\<forall>sk'. after_ops RotationAxis ops sk = Some sk' \<longrightarrow>
        list_all (abs_consistent (poseMatrix sk') None) (roots sk')
        \<and> map inverted_of (roots sk') = map inverted_of (roots sk))
   \<and> (\<forall>sk1. apply_ops RotationAxis ops sk = Inr sk1 \<longrightarrow>
        map inverted_of (roots sk1) = map inverted_of (roots sk))
   \<and> abs_consistent pose parent (computeAbsoluteTransforms pose parent b)
   \<and> inverted_of (computeAbsoluteTransforms pose parent b) = inverted_of b
   \<and> map inverted_of (roots (skeleton_computeAbsoluteTransforms sk)) = map inverted_of (roots sk)
   \<and> (\<forall>b'. on_data (translate_data vec sp mesh) parent b = Inr b' \<longrightarrow>
        inverted_of b' = inverted_of b)
   \<and> inverted_of (rotate RotationAxis pose axis amount sp mesh parent b) = inverted_of b
   \<and> inverted_of (scale pose x y z scaleChildren parent b) = inverted_of b
   \<and> inv_consistent (updateDifferenceMatrix parent b)
   \<and> (\<forall>q c. bone_at path parent (updateDifferenceMatrix parent b) = Some (q, c) \<longrightarrow>
        invertedAbsoluteTransform (data c) = invert (absoluteTransform (data c))
        \<and> (determinant (absoluteTransform (data c)) \<noteq> 0 \<longrightarrow>
             multiply (absoluteTransform (data c)) (invertedAbsoluteTransform (data c)) = Identity
             \<and> multiply (invertedAbsoluteTransform (data c)) (absoluteTransform (data c))
                 = Identity))
   \<and> (abs_regular (updateDifferenceMatrix parent b) \<longrightarrow> inv_exact (updateDifferenceMatrix parent b))"
proof (intro conjI allI impI)
  fix sk' assume a: "after_ops RotationAxis ops sk = Some sk'"
  then obtain sk1 where s1: "apply_ops RotationAxis ops sk = Inr sk1"
    and sk': "sk' = skeleton_computeAbsoluteTransforms sk1"
    using poseMatrix_after_ops by blast
  have "poseMatrix (skeleton_computeAbsoluteTransforms sk1) = poseMatrix sk1"
    by (simp add: skeleton_computeAbsoluteTransforms_def)
  with sk' show "list_all (abs_consistent (poseMatrix sk') None) (roots sk')"
    using skeleton_computeAbsoluteTransforms_consistent [of sk1] by simp
  show "map inverted_of (roots sk') = map inverted_of (roots sk)"
    unfolding sk' skeleton_computeAbsoluteTransforms_inverted
    by (rule apply_ops_inverted [OF s1])
next
  fix sk1 assume "apply_ops RotationAxis ops sk = Inr sk1"
  then show "map inverted_of (roots sk1) = map inverted_of (roots sk)"
    by (rule apply_ops_inverted)
next
  show "abs_consistent pose parent (computeAbsoluteTransforms pose parent b)"
    by (rule computeAbsoluteTransforms_consistent)
  show "inverted_of (computeAbsoluteTransforms pose parent b) = inverted_of b"
    by (rule computeAbsoluteTransforms_inverted)
  show "map inverted_of (roots (skeleton_computeAbsoluteTransforms sk)) = map inverted_of (roots sk)"
    by (rule skeleton_computeAbsoluteTransforms_inverted)
  show "inverted_of (rotate RotationAxis pose axis amount sp mesh parent b) = inverted_of b"
    by (rule rotate_inverted)
  show "inverted_of (scale pose x y z scaleChildren parent b) = inverted_of b"
    by (rule scale_inverted)
  show i: "inv_consistent (updateDifferenceMatrix parent b)"
    by (simp add: updateDifferenceMatrix_def updateDifferenceMatrix_from_inv)
  {
    assume "abs_regular (updateDifferenceMatrix parent b)"
    with i show "inv_exact (updateDifferenceMatrix parent b)"
      by (rule inv_consistent_exact)
  }
next
  fix b' assume "on_data (translate_data vec sp mesh) parent b = Inr b'"
  then show "inverted_of b' = inverted_of b"
    by (rule translate_data_inverted)
next
  fix q c assume h: "bone_at path parent (updateDifferenceMatrix parent b) = Some (q, c)"
  show "invertedAbsoluteTransform (data c) = invert (absoluteTransform (data c))"
    using updateDifferenceMatrix_from_bone_at [OF h [unfolded updateDifferenceMatrix_def]] .
  {
    assume d: "determinant (absoluteTransform (data c)) \<noteq> 0"
    from bone_at_inverse_exact [OF h d]
    show "multiply (absoluteTransform (data c)) (invertedAbsoluteTransform (data c)) = Identity"
      and "multiply (invertedAbsoluteTransform (data c)) (absoluteTransform (data c)) = Identity"
      by simp_all
  }
qed

theorem absolute_transforms_after_recompute_witness:
  "\<exists>sk' sk1 b' q c.
      after_ops (\<lambda>axis amount. Identity)
           [Translate [0, 0] \<lparr>vx = 0, vy = 1, vz = 0\<rparr> LOCAL None,
            Rotate [0, 0] \<lparr>vx = 0, vy = 0, vz = 1\<rparr> 0 LOCAL None,
            Scale [0, 0] 2 1 1 True] skeleton2 = Some sk'
      \<and> list_all (abs_consistent (poseMatrix sk') None) (roots sk')
      \<and> map inverted_of (roots sk') = map inverted_of (roots skeleton2)
      \<and> apply_ops (\<lambda>axis amount. Identity)
           [Translate [0, 0] \<lparr>vx = 0, vy = 1, vz = 0\<rparr> LOCAL None,
            Rotate [0, 0] \<lparr>vx = 0, vy = 0, vz = 1\<rparr> 0 LOCAL None,
            Scale [0, 0] 2 1 1 True] skeleton2 = Inr sk1
      \<and> map inverted_of (roots sk1) = map inverted_of (roots skeleton2)
      \<and> on_data (translate_data \<lparr>vx = 0, vy = 1, vz = 0\<rparr> LOCAL None) None bone_tree3 = Inr b'
      \<and> inverted_of b' = inverted_of bone_tree3
      \<and> bone_at [0] None (updateDifferenceMatrix None bone_tree3) = Some (q, c)
      \<and> absoluteTransform (data c) = Translation 1 0 0
      \<and> determinant (absoluteTransform (data c)) \<noteq> 0
      \<and> multiply (absoluteTransform (data c)) (invertedAbsoluteTransform (data c)) = Identity
      \<and> \<not> abs_regular (updateDifferenceMatrix None bone_tree3)
      \<and> abs_regular (updateDifferenceMatrix None root_bone)
      \<and> inv_exact (updateDifferenceMatrix None root_bone)"
proof -
  define ops where "ops = [Translate [0, 0] \<lparr>vx = 0, vy = 1, vz = 0\<rparr> LOCAL None,
            Rotate [0, 0] \<lparr>vx = 0, vy = 0, vz = 1\<rparr> 0 LOCAL None,
            Scale [0, 0] 2 1 1 True]"
  from example_ops_return obtain sk1 where
    s1: "apply_ops (\<lambda>axis amount. Identity) ops skeleton2 = Inr sk1"
    unfolding ops_def by blast
  then have a: "after_ops (\<lambda>axis amount. Identity) ops skeleton2
      = Some (skeleton_computeAbsoluteTransforms sk1)"
    by (simp add: after_ops_def)
  have r: "abs_regular (updateDifferenceMatrix None root_bone)"
    by (simp add: updateDifferenceMatrix_def root_bone_eq Let_def det_Identity)
  obtain b' where tr: "on_data (translate_data \<lparr>vx = 0, vy = 1, vz = 0\<rparr> LOCAL None) None bone_tree3
      = Inr b'"
    by (simp add: on_data_def translate_data_def Let_def)
  from bone_tree3_child obtain q c where
    bc: "bone_at [0] None (updateDifferenceMatrix None bone_tree3) = Some (q, c)"
    and ac: "absoluteTransform (data c) = Translation 1 0 0" by blast
  have dc: "determinant (absoluteTransform (data c)) \<noteq> 0"
    by (simp add: ac det_Translation)
  note t = absolute_transforms_after_recompute
    [where RotationAxis = "\<lambda>axis amount. Identity" and ops = ops and sk = skeleton2
       and parent = None and b = bone_tree3 and vec = "\<lparr>vx = 0, vy = 1, vz = 0\<rparr>"
       and sp = LOCAL and mesh = None and path = "[0]"]
  note t0 = absolute_transforms_after_recompute
    [where parent = None and b = root_bone]
  from t a have c1: "list_all (abs_consistent (poseMatrix (skeleton_computeAbsoluteTransforms sk1)) None)
      (roots (skeleton_computeAbsoluteTransforms sk1))"
    and c2: "map inverted_of (roots (skeleton_computeAbsoluteTransforms sk1))
      = map inverted_of (roots skeleton2)" by blast+
  from t s1 have c3: "map inverted_of (roots sk1) = map inverted_of (roots skeleton2)" by blast
  from t tr have c4: "inverted_of b' = inverted_of bone_tree3" by blast
  from t bc dc have c5: "multiply (absoluteTransform (data c)) (invertedAbsoluteTransform (data c))
      = Identity" by blast
  from t0 r have c6: "inv_exact (updateDifferenceMatrix None root_bone)" by blast
  from a c1 c2 s1 c3 tr c4 bc ac dc c5 bone_tree3_not_regular r c6 show ?thesis
    unfolding ops_def by blast
qed

text \<open>
  Claim C1 as stated fails in its second half: for a single root bone in the identity
  pose, a local translation by \<open>(1, 0, 0)\<close> followed by the forced recompute leaves the
  inverted absolute transform at the identity, which is not the inverse of the new
  absolute transform.
\<close>

theorem inverted_not_recomputed_counterexample:
  "inverses_exact_after (\<lambda>axis amount. Identity)
     [Translate [0] \<lparr>vx = 1, vy = 0, vz = 0\<rparr> LOCAL None] skeleton1 = Some False"
proof -
  have "multiply (Identity\<lparr>m12 := 1 + m12 Identity, m13 := m13 Identity, m14 := m14 Identity\<rparr>) Identity
      \<noteq> Identity"
    by (simp add: multiply_def Identity_def FromValues_def)
  then show ?thesis
    by (simp add: inverses_exact_after_def after_ops_def translate_def skeleton_at_def
      on_data_def translate_data_def markAsDirty_def skeleton_markAsDirty_def skeleton1_def
      root_bone_eq skeleton_computeAbsoluteTransforms_def Let_def add.commute)
qed

text \<open>
  Claim C10.  In world space, \<open>translate\<close> and \<open>setPosition\<close> on a root bone (null parent)
  dereference the null parent, whatever the other arguments are; and these two
  functions end in an error exactly when they are called in world space on a bone
  without parent.
\<close>

theorem world_space_needs_parent:
  "translate_data vec WORLD mesh None d = Inl NullDereference
   \<and> setPosition_data pos WORLD mesh None d = Inl NullDereference
   \<and> ((\<exists>e. translate_data vec sp mesh parent d = Inl e) \<longleftrightarrow> (sp = WORLD \<and> parent = None))
   \<and> ((\<exists>e. setPosition_data pos sp mesh parent d = Inl e) \<longleftrightarrow> (sp = WORLD \<and> parent = None))
   \<and> translate vec WORLD mesh [i] sk \<noteq> Inr sk'
   \<and> setPosition pos WORLD mesh [i] sk \<noteq> Inr sk'"
proof -
  have t: "translate_data vec WORLD mesh None d = Inl NullDereference"
    by (simp add: translate_data_def)
  have s: "setPosition_data pos WORLD mesh None d = Inl NullDereference"
    by (simp add: setPosition_data_def)
  have te: "(\<exists>e. translate_data vec sp mesh parent d = Inl e) \<longleftrightarrow> (sp = WORLD \<and> parent = None)"
    by (cases sp; cases parent) (simp_all add: translate_data_def Let_def)
  have se: "(\<exists>e. setPosition_data pos sp mesh parent d = Inl e) \<longleftrightarrow> (sp = WORLD \<and> parent = None)"
    by (cases sp; cases parent) (simp_all add: setPosition_data_def Let_def)
  have tr: "translate vec WORLD mesh [i] sk \<noteq> Inr sk'"
    by (simp add: translate_def skeleton_at_def on_data_def translate_data_def Let_def
        split: sum.splits)
  have sr: "setPosition pos WORLD mesh [i] sk \<noteq> Inr sk'"
    by (simp add: setPosition_def skeleton_at_def on_data_def setPosition_data_def Let_def
        split: sum.splits)
  from t s te se tr sr show ?thesis by blast
qed

lemma invert_scale:
  assumes "x \<noteq> 0" "y \<noteq> 0" "z \<noteq> 0"
  shows "invert (FromValues x 0 0 0  0 y 0 0  0 0 z 0  0 0 0 1)
       = FromValues (1 / x) 0 0 0  0 (1 / y) 0 0  0 0 (1 / z) 0  0 0 0 1"
  using assms by (simp add: invert_def FromValues_def Let_def)

lemma scale_child_translation:
  assumes "x \<noteq> 0" "y \<noteq> 0" "z \<noteq> 0"
  shows "local_translation (scale_child x y z
            (invert (FromValues x 0 0 0  0 y 0 0  0 0 z 0  0 0 0 1)) c) = local_translation c"
  unfolding invert_scale [OF assms]
  using assms
  by (simp add: scale_child_def local_translation_def getTranslation_def
      multiply_def FromValues_def Let_def)

lemma computeAbsoluteTransforms_data:
  "bone_matrix (data (computeAbsoluteTransforms pose parent b)) = bone_matrix (data b)"
  "scaleVector (data (computeAbsoluteTransforms pose parent b)) = scaleVector (data b)"
  by (cases b; simp add: Let_def)+

lemma computeAbsoluteTransforms_children:
  "children (computeAbsoluteTransforms pose parent b)
     = map (computeAbsoluteTransforms pose
              (Some (data (computeAbsoluteTransforms pose parent b)))) (children b)"
  by (cases b) (simp add: Let_def)

lemma computeAbsoluteTransforms_scaleVectors:
  "scaleVectors_of (computeAbsoluteTransforms pose parent b) = scaleVectors_of b"
proof (induction b arbitrary: parent)
  case (Bone d cs)
  then show ?case by (simp add: Let_def comp_def cong: map_cong)
qed

lemma scale_child_scaleVectors: "scaleVectors_of (scale_child x y z si c) = scaleVectors_of c"
  by (cases c) (simp add: scale_child_def Let_def)

lemma scale_self_scaleVectors:
  "scaleVectors_of (scale_self pose x y z parent b)
     = Node (scaled_by x y z (scaleVector (data b))) (map scaleVectors_of (children b))"
  by (cases b)
     (simp add: scale_self_def Let_def computeAbsoluteTransforms_scaleVectors comp_def
        scale_child_scaleVectors scaled_by_def)

lemma scaleVectors_of_eq:
  "scaleVectors_of b = Node (scaleVector (data b)) (map scaleVectors_of (children b))"
  by (cases b) simp

lemma scale_True_scaleVectors:
  "scaleChildren \<Longrightarrow>
   scaleVectors_of (scale pose x y z scaleChildren parent b)
     = map_shape (scaled_by x y z) (scaleVectors_of b)"
proof (induction pose x y z scaleChildren parent b rule: scale.induct)
  case (1 pose x y z scaleChildren parent b)
  define b1 where "b1 = scale_self pose x y z parent b"
  have ih: "c \<in> set (children b1) \<Longrightarrow>
      scaleVectors_of (scale pose x y z scaleChildren (Some (data b1)) c)
        = map_shape (scaled_by x y z) (scaleVectors_of c)" for c
    using "1.IH" [OF b1_def "1.prems" _ "1.prems"] "1.prems" by simp
  have s: "scaleVectors_of b1
      = Node (scaled_by x y z (scaleVector (data b))) (map scaleVectors_of (children b))"
    unfolding b1_def by (rule scale_self_scaleVectors)
  with scaleVectors_of_eq [of b1]
  have top: "scaleVector (data b1) = scaled_by x y z (scaleVector (data b))"
    and kids: "map scaleVectors_of (children b1) = map scaleVectors_of (children b)"
    by simp_all
  have "scaleVectors_of (scale pose x y z scaleChildren parent b)
      = Node (scaleVector (data b1))
          (map (\<lambda>c. scaleVectors_of (scale pose x y z scaleChildren (Some (data b1)) c)) (children b1))"
    using "1.prems"
    by (subst scale.simps) (simp add: Let_def b1_def [symmetric] markAsDirty_def comp_def)
  also have "\<dots> = Node (scaleVector (data b1))
          (map (\<lambda>c. map_shape (scaled_by x y z) (scaleVectors_of c)) (children b1))"
    using ih by (simp cong: map_cong)
  also have "\<dots> = Node (scaleVector (data b1))
          (map (map_shape (scaled_by x y z)) (map scaleVectors_of (children b1)))"
    by (simp add: comp_def)
  also have "\<dots> = map_shape (scaled_by x y z) (scaleVectors_of b)"
    by (subst scaleVectors_of_eq [of b]) (simp add: top kids)
  finally show ?case .
qed

lemma scale_self_children:
  "children (scale_self pose x y z parent b)
     = map (computeAbsoluteTransforms pose (Some (data (scale_self pose x y z parent b))))
         (map (scale_child x y z (invert (FromValues x 0 0 0  0 y 0 0  0 0 z 0  0 0 0 1)))
            (children b))"
  unfolding scale_self_def Let_def
  by (subst computeAbsoluteTransforms_children) simp

lemma local_translation_computeAbsoluteTransforms:
  "local_translation (computeAbsoluteTransforms pose parent b) = local_translation b"
  by (simp add: local_translation_def computeAbsoluteTransforms_data)

lemma scale_False_children_translation:
  assumes "x \<noteq> 0" "y \<noteq> 0" "z \<noteq> 0"
  shows "map local_translation (children (scale pose x y z False parent b))
       = map local_translation (children b)"
proof -
  have "children (scale pose x y z False parent b) = children (scale_self pose x y z parent b)"
    by (subst scale.simps) (simp add: Let_def)
  then show ?thesis
    by (simp add: scale_self_children comp_def local_translation_computeAbsoluteTransforms
        scale_child_translation [OF assms])
qed

lemma abs_consistent_parent_cong:
  "absoluteTransform p = absoluteTransform p' \<Longrightarrow>
     abs_consistent pose (Some p) b = abs_consistent pose (Some p') b"
  by (cases b) simp

lemma abs_consistent_eq:
  "abs_consistent pose parent b \<longleftrightarrow>
     absoluteTransform (data b) =
        (case parent of
           Some p \<Rightarrow> multiply (bone_matrix (data b)) (absoluteTransform p)
         | None \<Rightarrow> (case pose of Some pm \<Rightarrow> multiply (bone_matrix (data b)) pm
                     | None \<Rightarrow> bone_matrix (data b)))
     \<and> list_all (abs_consistent pose (Some (data b))) (children b)"
  by (cases b) (auto split: option.splits)

lemma scale_self_consistent: "abs_consistent pose parent (scale_self pose x y z parent b)"
  unfolding scale_self_def Let_def by (rule computeAbsoluteTransforms_consistent)

lemma scale_consistent:
  "abs_consistent pose parent (scale pose x y z scaleChildren parent b)"
proof (induction pose x y z scaleChildren parent b rule: scale.induct)
  case (1 pose x y z scaleChildren parent b)
  define b1 where "b1 = scale_self pose x y z parent b"
  have c1: "abs_consistent pose parent b1"
    unfolding b1_def by (rule scale_self_consistent)
  have md: "absoluteTransform (markAsDirty (data b1)) = absoluteTransform (data b1)"
    "bone_matrix (markAsDirty (data b1)) = bone_matrix (data b1)"
    by (simp_all add: markAsDirty_def)
  show ?case
  proof (cases scaleChildren)
    case True
    have ih: "c \<in> set (children b1) \<Longrightarrow>
        abs_consistent pose (Some (data b1)) (scale pose x y z scaleChildren (Some (data b1)) c)" for c
      using "1.IH" [OF b1_def True] by simp
    have e: "scale pose x y z scaleChildren parent b
        = Bone (markAsDirty (data b1))
            (map (scale pose x y z scaleChildren (Some (data b1))) (children b1))"
      using True by (subst scale.simps) (simp add: Let_def b1_def [symmetric])
    have "list_all (abs_consistent pose (Some (markAsDirty (data b1))))
            (map (scale pose x y z scaleChildren (Some (data b1))) (children b1))"
      using ih abs_consistent_parent_cong [OF md(1)]
      by (simp add: list_all_iff)
    with c1 show ?thesis
      unfolding e using md
      by (auto simp: abs_consistent_eq [of pose parent b1] split: option.splits)
  next
    case False
    have e: "scale pose x y z scaleChildren parent b = Bone (markAsDirty (data b1)) (children b1)"
      using False by (subst scale.simps) (simp add: Let_def b1_def [symmetric])
    from c1 have "list_all (abs_consistent pose (Some (markAsDirty (data b1)))) (children b1)"
      using abs_consistent_parent_cong [OF md(1)]
      by (simp add: abs_consistent_eq [of pose parent b1] list_all_iff)
    with c1 show ?thesis
      unfolding e using md
      by (auto simp: abs_consistent_eq [of pose parent b1] split: option.splits)
  qed
qed

lemma scale_False_scaleVectors:
  "scaleVectors_of (scale pose x y z False parent b)
     = Node (scaled_by x y z (scaleVector (data b))) (map scaleVectors_of (children b))"
proof -
  have "scaleVectors_of (scale pose x y z False parent b)
      = scaleVectors_of (scale_self pose x y z parent b)"
    by (subst scale.simps, subst (2) scaleVectors_of_eq) (simp add: Let_def markAsDirty_def)
  then show ?thesis by (simp add: scale_self_scaleVectors)
qed

lemma scale_data:
  "data (scale pose x y z scaleChildren parent b)
     = markAsDirty (data (scale_self pose x y z parent b))"
  by (subst scale.simps) (simp add: Let_def)

lemma scale_self_matrix:
  "determinant (bone_matrix (data b)) \<noteq> 0 \<Longrightarrow>
     bone_matrix (data (scale_self pose x y z parent b))
       = multiply (Scaling x y z) (bone_matrix (data b))"
  by (simp add: scale_self_def Let_def computeAbsoluteTransforms_data invert_right
      multiply_Identity Scaling_def)

lemma abs_consistent_top:
  "abs_consistent pose parent b \<Longrightarrow>
     absoluteTransform (data b) = multiply (bone_matrix (data b)) (parent_transform pose parent)"
  by (cases b) (auto simp: parent_transform_def multiply_Identity split: option.splits)

lemma scale_self_absolute:
  "determinant (bone_matrix (data b)) \<noteq> 0 \<Longrightarrow>
     absoluteTransform (data (scale_self pose x y z parent b))
       = multiply (multiply (Scaling x y z) (bone_matrix (data b))) (parent_transform pose parent)"
  using abs_consistent_top [OF scale_self_consistent [of pose parent x y z b]]
  by (simp add: scale_self_matrix)

lemma scale_child_matrix:
  assumes "x \<noteq> 0" "y \<noteq> 0" "z \<noteq> 0"
  shows "bone_matrix (data (scale_child x y z
            (invert (FromValues x 0 0 0  0 y 0 0  0 0 z 0  0 0 0 1)) c))
       = FromValues (m0 (bone_matrix (data c)) / x) (m1 (bone_matrix (data c)) / y)
                    (m2 (bone_matrix (data c)) / z) (m3 (bone_matrix (data c)))
                    (m4 (bone_matrix (data c)) / x) (m5 (bone_matrix (data c)) / y)
                    (m6 (bone_matrix (data c)) / z) (m7 (bone_matrix (data c)))
                    (m8 (bone_matrix (data c)) / x) (m9 (bone_matrix (data c)) / y)
                    (m10 (bone_matrix (data c)) / z) (m11 (bone_matrix (data c)))
                    (m12 (bone_matrix (data c))) (m13 (bone_matrix (data c)))
                    (m14 (bone_matrix (data c))) (m15 (bone_matrix (data c)))"
  unfolding invert_scale [OF assms]
  using assms
  by (simp add: scale_child_def multiply_def FromValues_def Let_def)

lemma computeAbsoluteTransforms_absolute:
  "absoluteTransform (data (computeAbsoluteTransforms pose (Some p) c))
     = multiply (bone_matrix (data c)) (absoluteTransform p)"
  by (cases c) (simp add: Let_def)

lemma scale_False_children:
  "children (scale pose x y z False parent b)
     = map (computeAbsoluteTransforms pose (Some (data (scale_self pose x y z parent b))))
         (map (scale_child x y z (invert (FromValues x 0 0 0  0 y 0 0  0 0 z 0  0 0 0 1)))
            (children b))"
  by (subst scale.simps) (simp add: Let_def scale_self_children)

lemma scale_False_child_matrix:
  assumes "x \<noteq> 0" "y \<noteq> 0" "z \<noteq> 0" and i: "i < length (children b)"
  shows "bone_matrix (data (children (scale pose x y z False parent b) ! i))
       = FromValues (m0 (bone_matrix (data (children b ! i))) / x)
                    (m1 (bone_matrix (data (children b ! i))) / y)
                    (m2 (bone_matrix (data (children b ! i))) / z)
                    (m3 (bone_matrix (data (children b ! i))))
                    (m4 (bone_matrix (data (children b ! i))) / x)
                    (m5 (bone_matrix (data (children b ! i))) / y)
                    (m6 (bone_matrix (data (children b ! i))) / z)
                    (m7 (bone_matrix (data (children b ! i))))
                    (m8 (bone_matrix (data (children b ! i))) / x)
                    (m9 (bone_matrix (data (children b ! i))) / y)
                    (m10 (bone_matrix (data (children b ! i))) / z)
                    (m11 (bone_matrix (data (children b ! i))))
                    (m12 (bone_matrix (data (children b ! i))))
                    (m13 (bone_matrix (data (children b ! i))))
                    (m14 (bone_matrix (data (children b ! i))))
                    (m15 (bone_matrix (data (children b ! i))))"
  unfolding scale_False_children using i
  by (simp add: computeAbsoluteTransforms_data scale_child_matrix [OF assms(1-3)])

lemma getTranslation_multiply_row:
  "m12 A = m12 B \<Longrightarrow> m13 A = m13 B \<Longrightarrow> m14 A = m14 B \<Longrightarrow> m15 A = m15 B \<Longrightarrow>
     getTranslation (multiply A M) = getTranslation (multiply B M)"
  by (simp add: getTranslation_def multiply_def)

lemma scale_False_child_absolute:
  assumes "x \<noteq> 0" "y \<noteq> 0" "z \<noteq> 0" and i: "i < length (children b)"
    and d: "determinant (bone_matrix (data b)) \<noteq> 0"
  shows "absoluteTransform (data (children (scale pose x y z False parent b) ! i))
       = multiply (bone_matrix (data (children (scale pose x y z False parent b) ! i)))
           (multiply (multiply (Scaling x y z) (bone_matrix (data b)))
              (parent_transform pose parent))"
proof -
  let ?si = "invert (FromValues x 0 0 0  0 y 0 0  0 0 z 0  0 0 0 1)"
  let ?ds = "data (scale_self pose x y z parent b)"
  have c: "children (scale pose x y z False parent b) ! i
      = computeAbsoluteTransforms pose (Some ?ds) (scale_child x y z ?si (children b ! i))"
    unfolding scale_False_children using i by simp
  show ?thesis
    unfolding c
    by (simp add: computeAbsoluteTransforms_absolute computeAbsoluteTransforms_data
        scale_self_absolute [OF d])
qed

lemma scale_False_child_position:
  assumes "x \<noteq> 0" "y \<noteq> 0" "z \<noteq> 0" and i: "i < length (children b)"
    and d: "determinant (bone_matrix (data b)) \<noteq> 0"
  shows "getTranslation (absoluteTransform (data (children (scale pose x y z False parent b) ! i)))
       = getTranslation
           (multiply (setTranslation (scaled_by x y z (local_translation (children b ! i)))
                        (bone_matrix (data (children b ! i))))
              (multiply (bone_matrix (data b)) (parent_transform pose parent)))"
proof -
  let ?C = "bone_matrix (data (children b ! i))"
  let ?C' = "bone_matrix (data (children (scale pose x y z False parent b) ! i))"
  let ?L = "bone_matrix (data b)"
  let ?P = "parent_transform pose parent"
  have "getTranslation (absoluteTransform (data (children (scale pose x y z False parent b) ! i)))
      = getTranslation (multiply ?C' (multiply (multiply (Scaling x y z) ?L) ?P))"
    by (simp add: scale_False_child_absolute [OF assms])
  also have "\<dots> = getTranslation (multiply ?C (multiply (multiply (Scaling x y z) ?L) ?P))"
    by (rule getTranslation_multiply_row)
       (simp_all add: scale_False_child_matrix [OF assms(1-4)] FromValues_def)
  also have "\<dots> = getTranslation (multiply (multiply ?C (Scaling x y z)) (multiply ?L ?P))"
    by (simp add: multiply_assoc)
  also have "\<dots> = getTranslation
           (multiply (setTranslation (scaled_by x y z (local_translation (children b ! i))) ?C)
              (multiply ?L ?P))"
    by (rule getTranslation_multiply_row)
       (simp_all add: multiply_def Scaling_def FromValues_def setTranslation_def scaled_by_def
          local_translation_def getTranslation_def)
  finally show ?thesis .
qed

lemma scale_False_child_position_identity:
  assumes "x \<noteq> 0" "y \<noteq> 0" "z \<noteq> 0" and i: "i < length (children b)"
    and l: "bone_matrix (data b) = Identity"
  shows "getTranslation (absoluteTransform (data (children (scale None x y z False None b) ! i)))
       = scaled_by x y z (local_translation (children b ! i))"
proof -
  have d: "determinant (bone_matrix (data b)) \<noteq> 0"
    by (simp add: l det_Identity)
  have p: "parent_transform None None = Identity"
    by (simp add: parent_transform_def)
  show ?thesis
    unfolding scale_False_child_position [OF assms(1-4) d] l p multiply_Identity
    by (simp add: getTranslation_def setTranslation_def scaled_by_def)
qed

lemma scale_False_length:
  "length (children (scale pose x y z False parent b)) = length (children b)"
  by (simp add: scale_False_children)

lemma scale_matrix:
  "determinant (bone_matrix (data b)) \<noteq> 0 \<Longrightarrow>
     bone_matrix (data (scale pose x y z scaleChildren parent b))
       = multiply (Scaling x y z) (bone_matrix (data b))"
  by (simp add: scale_data markAsDirty_def scale_self_matrix)

lemma scale_absolute:
  "determinant (bone_matrix (data b)) \<noteq> 0 \<Longrightarrow>
     absoluteTransform (data (scale pose x y z scaleChildren parent b))
       = multiply (multiply (Scaling x y z) (bone_matrix (data b))) (parent_transform pose parent)"
  by (simp add: scale_data markAsDirty_def scale_self_absolute)


text \<open>
  Claim C3, amended.  \<open>scale(x, y, z, scaleChildren)\<close> on a bone whose local matrix has
  an inverse replaces that matrix by the scale matrix times it, and the bone's absolute
  transform by the new local matrix carried through the parent.  With non-zero factors
  and \<open>scaleChildren = false\<close>, the local matrix of every child is counter-scaled (its
  first three columns are divided by \<open>x\<close>, \<open>y\<close> and \<open>z\<close>) except for its translation, which
  is as it was; after the call the absolute transform of every bone of the subtree is
  its local matrix times its parent's new absolute transform, so that the world-space
  position of a child is the one that a child with the local translation multiplied by
  \<open>(x, y, z)\<close> had before the call: it moves with the parent's scale (under a root bone
  in the identity pose it is the local translation multiplied by \<open>(x, y, z)\<close>).  With
  \<open>scaleChildren = true\<close> the scale vector of the bone and of every descendant is
  multiplied by \<open>(x, y, z)\<close>; with \<open>false\<close> only the bone's own is.
\<close>

theorem scale_children:
  "(determinant (bone_matrix (data b)) \<noteq> 0 \<longrightarrow>
        bone_matrix (data (scale pose x y z scaleChildren parent b))
          = multiply (Scaling x y z) (bone_matrix (data b))
      \<and> absoluteTransform (data (scale pose x y z scaleChildren parent b))
          = multiply (multiply (Scaling x y z) (bone_matrix (data b)))
              (parent_transform pose parent))
   \<and> (x \<noteq> 0 \<and> y \<noteq> 0 \<and> z \<noteq> 0 \<longrightarrow>
        length (children (scale pose x y z False parent b)) = length (children b)
      \<and> map local_translation (children (scale pose x y z False parent b))
          = map local_translation (children b)
      \<and> abs_consistent pose parent (scale pose x y z scaleChildren parent b)
      \<and> (i < length (children b) \<longrightarrow>
            bone_matrix (data (children (scale pose x y z False parent b) ! i))
              = FromValues (m0 (bone_matrix (data (children b ! i))) / x)
                    (m1 (bone_matrix (data (children b ! i))) / y)
                    (m2 (bone_matrix (data (children b ! i))) / z)
                    (m3 (bone_matrix (data (children b ! i))))
                    (m4 (bone_matrix (data (children b ! i))) / x)
                    (m5 (bone_matrix (data (children b ! i))) / y)
                    (m6 (bone_matrix (data (children b ! i))) / z)
                    (m7 (bone_matrix (data (children b ! i))))
                    (m8 (bone_matrix (data (children b ! i))) / x)
                    (m9 (bone_matrix (data (children b ! i))) / y)
                    (m10 (bone_matrix (data (children b ! i))) / z)
                    (m11 (bone_matrix (data (children b ! i))))
                    (m12 (bone_matrix (data (children b ! i))))
                    (m13 (bone_matrix (data (children b ! i))))
                    (m14 (bone_matrix (data (children b ! i))))
                    (m15 (bone_matrix (data (children b ! i))))
          \<and> (determinant (bone_matrix (data b)) \<noteq> 0 \<longrightarrow>
                getTranslation
                    (absoluteTransform (data (children (scale pose x y z False parent b) ! i)))
                  = getTranslation
                      (multiply
                         (setTranslation (scaled_by x y z (local_translation (children b ! i)))
                            (bone_matrix (data (children b ! i))))
                         (multiply (bone_matrix (data b)) (parent_transform pose parent))))
          \<and> (bone_matrix (data b) = Identity \<longrightarrow>
                getTranslation
                    (absoluteTransform (data (children (scale None x y z False None b) ! i)))
                  = scaled_by x y z (local_translation (children b ! i)))))
   \<and> scaleVectors_of (scale pose x y z True parent b)
       = map_shape (scaled_by x y z) (scaleVectors_of b)
   \<and> scaleVectors_of (scale pose x y z False parent b)
       = Node (scaled_by x y z (scaleVector (data b))) (map scaleVectors_of (children b))"
proof (intro conjI impI)
  assume d: "determinant (bone_matrix (data b)) \<noteq> 0"
  show "bone_matrix (data (scale pose x y z scaleChildren parent b))
          = multiply (Scaling x y z) (bone_matrix (data b))"
    by (rule scale_matrix [OF d])
  show "absoluteTransform (data (scale pose x y z scaleChildren parent b))
          = multiply (multiply (Scaling x y z) (bone_matrix (data b)))
              (parent_transform pose parent)"
    by (rule scale_absolute [OF d])
next
  show "scaleVectors_of (scale pose x y z True parent b)
       = map_shape (scaled_by x y z) (scaleVectors_of b)"
    by (rule scale_True_scaleVectors) simp
  show "scaleVectors_of (scale pose x y z False parent b)
       = Node (scaled_by x y z (scaleVector (data b))) (map scaleVectors_of (children b))"
    by (rule scale_False_scaleVectors)
next
  assume "x \<noteq> 0 \<and> y \<noteq> 0 \<and> z \<noteq> 0"
  then have n: "x \<noteq> 0" "y \<noteq> 0" "z \<noteq> 0" by simp_all
  show "length (children (scale pose x y z False parent b)) = length (children b)"
    by (rule scale_False_length)
  show "map local_translation (children (scale pose x y z False parent b))
          = map local_translation (children b)"
    by (rule scale_False_children_translation [OF n])
  show "abs_consistent pose parent (scale pose x y z scaleChildren parent b)"
    by (rule scale_consistent)
  {
    assume i: "i < length (children b)"
    show "bone_matrix (data (children (scale pose x y z False parent b) ! i))
              = FromValues (m0 (bone_matrix (data (children b ! i))) / x)
                    (m1 (bone_matrix (data (children b ! i))) / y)
                    (m2 (bone_matrix (data (children b ! i))) / z)
                    (m3 (bone_matrix (data (children b ! i))))
                    (m4 (bone_matrix (data (children b ! i))) / x)
                    (m5 (bone_matrix (data (children b ! i))) / y)
                    (m6 (bone_matrix (data (children b ! i))) / z)
                    (m7 (bone_matrix (data (children b ! i))))
                    (m8 (bone_matrix (data (children b ! i))) / x)
                    (m9 (bone_matrix (data (children b ! i))) / y)
                    (m10 (bone_matrix (data (children b ! i))) / z)
                    (m11 (bone_matrix (data (children b ! i))))
                    (m12 (bone_matrix (data (children b ! i))))
                    (m13 (bone_matrix (data (children b ! i))))
                    (m14 (bone_matrix (data (children b ! i))))
                    (m15 (bone_matrix (data (children b ! i))))"
      by (rule scale_False_child_matrix [OF n i])
    {
      assume d: "determinant (bone_matrix (data b)) \<noteq> 0"
      show "getTranslation
                    (absoluteTransform (data (children (scale pose x y z False parent b) ! i)))
                  = getTranslation
                      (multiply
                         (setTranslation (scaled_by x y z (local_translation (children b ! i)))
                            (bone_matrix (data (children b ! i))))
                         (multiply (bone_matrix (data b)) (parent_transform pose parent)))"
        by (rule scale_False_child_position [OF n i d])
    }
    {
      assume l: "bone_matrix (data b) = Identity"
      show "getTranslation
                    (absoluteTransform (data (children (scale None x y z False None b) ! i)))
                  = scaled_by x y z (local_translation (children b ! i))"
        by (rule scale_False_child_position_identity [OF n i l])
    }
  }
qed

theorem scale_children_witness:
  "determinant (bone_matrix (data (Bone (data root_bone) [child_bone]))) \<noteq> 0
   \<and> (2::real) \<noteq> 0 \<and> (1::real) \<noteq> 0
   \<and> (0::nat) < length (children (Bone (data root_bone) [child_bone]))
   \<and> bone_matrix (data (Bone (data root_bone) [child_bone])) = Identity
   \<and> bone_matrix (data (scale None 2 1 1 False None (Bone (data root_bone) [child_bone])))
       = Scaling 2 1 1
   \<and> absoluteTransform (data (scale None 2 1 1 False None (Bone (data root_bone) [child_bone])))
       = Scaling 2 1 1
   \<and> bone_matrix (data (children (scale None 2 1 1 False None
                                    (Bone (data root_bone) [child_bone])) ! 0))
       = FromValues (1 / 2) 0 0 0  0 1 0 0  0 0 1 0  1 0 0 1
   \<and> getTranslation (absoluteTransform (data (children (scale None 2 1 1 False None
                                    (Bone (data root_bone) [child_bone])) ! 0)))
       = \<lparr>vx = 2, vy = 0, vz = 0\<rparr>
   \<and> map local_translation
         (children (scale None 2 1 1 False None (Bone (data root_bone) [child_bone])))
       = [\<lparr>vx = 1, vy = 0, vz = 0\<rparr>]
   \<and> abs_consistent None None (scale None 2 1 1 False None (Bone (data root_bone) [child_bone]))
   \<and> scaleVectors_of (scale None 2 1 1 True None (Bone (data root_bone) [child_bone]))
       = Node \<lparr>vx = 2, vy = 1, vz = 1\<rparr> [Node \<lparr>vx = 2, vy = 1, vz = 1\<rparr> []]"
proof -
  let ?b = "Bone (data root_bone) [child_bone]"
  have h: "(2::real) \<noteq> 0 \<and> (1::real) \<noteq> 0 \<and> (1::real) \<noteq> 0" by simp
  have l: "local_translation child_bone = \<lparr>vx = 1, vy = 0, vz = 0\<rparr>"
    by (simp add: local_translation_def child_bone_eq getTranslation_def Translation_def
        FromValues_def)
  have v: "scaleVectors_of ?b
      = Node \<lparr>vx = 1, vy = 1, vz = 1\<rparr> [Node \<lparr>vx = 1, vy = 1, vz = 1\<rparr> []]"
    by (simp add: root_bone_eq child_bone_eq)
  have m0: "bone_matrix (data root_bone) = Identity"
    by (simp add: root_bone_eq)
  then have m: "bone_matrix (data ?b) = Identity" by simp
  have d: "determinant (bone_matrix (data ?b)) \<noteq> 0"
    by (simp add: m0 det_Identity)
  have i: "(0::nat) < length (children ?b)" by simp
  have c: "bone_matrix (data child_bone) = Translation 1 0 0"
    by (simp add: child_bone_eq)
  have p: "parent_transform None None = Identity"
    by (simp add: parent_transform_def)
  note t = scale_children [where b = ?b and x = 2 and y = 1 and z = 1 and pose = None
      and parent = None and scaleChildren = False and i = 0]
  from t d have t1: "bone_matrix (data (scale None 2 1 1 False None ?b)) = Scaling 2 1 1"
    and t2: "absoluteTransform (data (scale None 2 1 1 False None ?b)) = Scaling 2 1 1"
    by (simp_all add: m0 p multiply_Identity)
  from t h i have t3: "bone_matrix (data (children (scale None 2 1 1 False None ?b) ! 0))
       = FromValues (1 / 2) 0 0 0  0 1 0 0  0 0 1 0  1 0 0 1"
    by (simp add: c Translation_def FromValues_def)
  from t h i m have t4: "getTranslation (absoluteTransform
         (data (children (scale None 2 1 1 False None ?b) ! 0))) = \<lparr>vx = 2, vy = 0, vz = 0\<rparr>"
    by (simp add: c l scaled_by_def)
  from t h have t5: "map local_translation (children (scale None 2 1 1 False None ?b))
       = [\<lparr>vx = 1, vy = 0, vz = 0\<rparr>]"
    by (simp add: l)
  from t h have t6: "abs_consistent None None (scale None 2 1 1 False None ?b)"
    by simp
  from t v have t7: "scaleVectors_of (scale None 2 1 1 True None ?b)
       = Node \<lparr>vx = 2, vy = 1, vz = 1\<rparr> [Node \<lparr>vx = 2, vy = 1, vz = 1\<rparr> []]"
    by (simp add: scaled_by_def)
  from d h i m t1 t2 t3 t4 t5 t6 t7 show ?thesis by simp
qed

text \<open>
  Claim C3 as stated fails in its first half: for a root bone in the identity pose with
  one child at \<open>(1, 0, 0)\<close>, \<open>scale(2, 1, 1, false)\<close> on the root moves the child's
  world-space position from \<open>(1, 0, 0)\<close> to \<open>(2, 0, 0)\<close>.
\<close>

theorem scale_moves_child_counterexample:
  "world_position [0, 0] skeleton2 = Some \<lparr>vx = 1, vy = 0, vz = 0\<rparr>
   \<and> world_position_after_scale 2 1 1 False [0] [0, 0] skeleton2 = Some \<lparr>vx = 2, vy = 0, vz = 0\<rparr>"
proof -
  have a: "world_position [0, 0] skeleton2 = Some \<lparr>vx = 1, vy = 0, vz = 0\<rparr>"
    by (simp add: world_position_def skeleton_bone_at_def skeleton2_def child_bone_eq
        getTranslation_def Translation_def FromValues_def)
  have i: "invert (FromValues 2 0 0 0  0 1 0 0  0 0 1 0  0 0 0 1)
      = FromValues (1 / 2) 0 0 0  0 1 0 0  0 0 1 0  0 0 0 1"
    using invert_scale [of 2 1 1] by simp
  have b: "world_position_after_scale 2 1 1 False [0] [0, 0] skeleton2
      = Some \<lparr>vx = 2, vy = 0, vz = 0\<rparr>"
    by (simp add: world_position_after_scale_def skeleton_scale_def skeleton_at_def
        skeleton2_def root_bone_eq child_bone_eq scale.simps scale_self_def scale_child_def
        world_position_def skeleton_bone_at_def skeleton_markAsDirty_def i invert_Identity
        multiply_Identity Let_def getTranslation_def)
       (simp add: multiply_def Translation_def FromValues_def Identity_def)
  from a b show ?thesis by simp
qed

subsection \<open>Copying an animation range\<close>

lemma copyAnimationRange_guard_cases:
  "copyAnimationRange_guard source = (if animations source = [] then Inl OutOfBounds else Inr False)"
  by (simp add: copyAnimationRange_guard_def vector_at_def)

text \<open>
  Claim C4 fails on the code.  With a null first track the guard does not fire and the
  null track is dereferenced; with an empty list the guard itself reads the first
  element of the empty list; and no call returns \<open>false\<close> at all: with a present track
  and no range of the given name, the call copies the keys of the range that \<open>getRange\<close>
  yields and returns \<open>true\<close>.
\<close>

theorem copyAnimationRange_never_false:
  "copyAnimationRange almost_equal missing (source\<lparr>animations := [None]\<rparr>) sourceParent
       rangeName frameOffset rescaleAsRequired ratio hasRatio parent d = Inl NullDereference
   \<and> copyAnimationRange almost_equal missing (source\<lparr>animations := []\<rparr>) sourceParent
       rangeName frameOffset rescaleAsRequired ratio hasRatio parent d = Inl OutOfBounds
   \<and> copyAnimationRange almost_equal missing source sourceParent
       rangeName frameOffset rescaleAsRequired ratio hasRatio parent d \<noteq> Inr (False, d')
   \<and> copyAnimationRange almost_equal missing
       (source\<lparr>animations := [Some (sa\<lparr>anim_ranges := (anim_ranges sa)(rangeName := None)\<rparr>)]\<rparr>)
       sourceParent rangeName frameOffset False ratio hasRatio parent
       (d\<lparr>animations := Some da # rest\<rparr>)
     = Inr (True, d\<lparr>animations := Some (createRange rangeName
              (range_from missing + frameOffset) (range_to missing + frameOffset)
              (da\<lparr>anim_keys := anim_keys da @
                  map (\<lambda>orig. \<lparr>frame = frame orig + frameOffset, matrixData = matrixData orig\<rparr>)
                    (filter (\<lambda>orig. frame orig \<ge> range_from missing \<and> frame orig \<le> range_to missing)
                       (anim_keys sa))\<rparr>)) # rest\<rparr>)"
proof -
  have 1: "copyAnimationRange almost_equal missing (source\<lparr>animations := [None]\<rparr>) sourceParent
       rangeName frameOffset rescaleAsRequired ratio hasRatio parent d = Inl NullDereference"
    by (simp add: copyAnimationRange_def copyAnimationRange_guard_cases vector_at_def)
  have 2: "copyAnimationRange almost_equal missing (source\<lparr>animations := []\<rparr>) sourceParent
       rangeName frameOffset rescaleAsRequired ratio hasRatio parent d = Inl OutOfBounds"
    by (simp add: copyAnimationRange_def copyAnimationRange_guard_cases)
  have 3: "copyAnimationRange almost_equal missing source sourceParent
       rangeName frameOffset rescaleAsRequired ratio hasRatio parent d \<noteq> Inr (False, d')"
    by (simp add: copyAnimationRange_def copyAnimationRange_guard_cases Let_def
        split: sum.splits option.splits)
  have 4: "copyAnimationRange almost_equal missing
       (source\<lparr>animations := [Some (sa\<lparr>anim_ranges := (anim_ranges sa)(rangeName := None)\<rparr>)]\<rparr>)
       sourceParent rangeName frameOffset False ratio hasRatio parent
       (d\<lparr>animations := Some da # rest\<rparr>)
     = Inr (True, d\<lparr>animations := Some (createRange rangeName
              (range_from missing + frameOffset) (range_to missing + frameOffset)
              (da\<lparr>anim_keys := anim_keys da @
                  map (\<lambda>orig. \<lparr>frame = frame orig + frameOffset, matrixData = matrixData orig\<rparr>)
                    (filter (\<lambda>orig. frame orig \<ge> range_from missing \<and> frame orig \<le> range_to missing)
                       (anim_keys sa))\<rparr>)) # rest\<rparr>)"
    by (simp add: copyAnimationRange_def copyAnimationRange_guard_cases vector_at_def Let_def
        getRange_def rescaled_key_matrix_def)
  from 1 2 3 4 show ?thesis by blast
qed

theorem copyAnimationRange_never_false_witness:
  "copyAnimationRange (\<lambda>a b. a = b) \<lparr>range_from = 0, range_to = 0\<rparr>
       ((data root_bone)\<lparr>animations := [None]\<rparr>) None ''walk'' 0 False
       \<lparr>vx = 1, vy = 1, vz = 1\<rparr> False None (data root_bone) = Inl NullDereference
   \<and> copyAnimationRange (\<lambda>a b. a = b) \<lparr>range_from = 0, range_to = 0\<rparr>
       ((data root_bone)\<lparr>animations := []\<rparr>) None ''walk'' 0 False
       \<lparr>vx = 1, vy = 1, vz = 1\<rparr> False None (data root_bone) = Inl OutOfBounds"
proof -
  note t = copyAnimationRange_never_false [where almost_equal = "\<lambda>a b. a = b"
      and missing = "\<lparr>range_from = 0, range_to = 0\<rparr>" and source = "data root_bone"
      and sourceParent = None and rangeName = "''walk''" and frameOffset = 0
      and rescaleAsRequired = False and ratio = "\<lparr>vx = 1, vy = 1, vz = 1\<rparr>"
      and hasRatio = False and parent = None and d = "data root_bone"]
  from t show ?thesis by blast
qed

subsection \<open>Setting and reading a world-space position\<close>

lemma matrix_entries:
  "A = B \<Longrightarrow> m0 A = m0 B \<and> m1 A = m1 B \<and> m2 A = m2 B \<and> m3 A = m3 B
     \<and> m4 A = m4 B \<and> m5 A = m5 B \<and> m6 A = m6 B \<and> m7 A = m7 B
     \<and> m8 A = m8 B \<and> m9 A = m9 B \<and> m10 A = m10 B \<and> m11 A = m11 B
     \<and> m12 A = m12 B \<and> m13 A = m13 B \<and> m14 A = m14 B \<and> m15 A = m15 B"
  by simp

lemma inverse_of_affine:
  assumes "affine M" and "multiply N M = Identity"
  shows "affine N"
  using matrix_entries [OF assms(2)] assms(1)
  by (simp add: affine_def multiply_def Identity_def FromValues_def)

lemma roundtrip_core:
  assumes a: "affine M" and i: "multiply N M = Identity" and l: "m15 L = 1"
  shows "getTranslation (multiply
            (L\<lparr>m12 := vx (TransformCoordinates pos N), m13 := vy (TransformCoordinates pos N),
               m14 := vz (TransformCoordinates pos N)\<rparr>) M) = pos"
proof -
  from inverse_of_affine [OF a i] have n: "m3 N = 0" "m7 N = 0" "m11 N = 0" "m15 N = 1"
    by (simp_all add: affine_def)
  from matrix_entries [OF i] n have e:
    "m0 N * m0 M + m1 N * m4 M + m2 N * m8 M = 1"
    "m0 N * m1 M + m1 N * m5 M + m2 N * m9 M = 0"
    "m0 N * m2 M + m1 N * m6 M + m2 N * m10 M = 0"
    "m4 N * m0 M + m5 N * m4 M + m6 N * m8 M = 0"
    "m4 N * m1 M + m5 N * m5 M + m6 N * m9 M = 1"
    "m4 N * m2 M + m5 N * m6 M + m6 N * m10 M = 0"
    "m8 N * m0 M + m9 N * m4 M + m10 N * m8 M = 0"
    "m8 N * m1 M + m9 N * m5 M + m10 N * m9 M = 0"
    "m8 N * m2 M + m9 N * m6 M + m10 N * m10 M = 1"
    "m12 N * m0 M + m13 N * m4 M + m14 N * m8 M + m12 M = 0"
    "m12 N * m1 M + m13 N * m5 M + m14 N * m9 M + m13 M = 0"
    "m12 N * m2 M + m13 N * m6 M + m14 N * m10 M + m14 M = 0"
    by (simp_all add: multiply_def Identity_def FromValues_def)
  have x: "(vx pos * m0 N + vy pos * m4 N + vz pos * m8 N + m12 N) * m0 M
         + (vx pos * m1 N + vy pos * m5 N + vz pos * m9 N + m13 N) * m4 M
         + (vx pos * m2 N + vy pos * m6 N + vz pos * m10 N + m14 N) * m8 M + m12 M
       = vx pos * (m0 N * m0 M + m1 N * m4 M + m2 N * m8 M)
         + vy pos * (m4 N * m0 M + m5 N * m4 M + m6 N * m8 M)
         + vz pos * (m8 N * m0 M + m9 N * m4 M + m10 N * m8 M)
         + (m12 N * m0 M + m13 N * m4 M + m14 N * m8 M + m12 M)"
    by (simp add: algebra_simps)
  have y: "(vx pos * m0 N + vy pos * m4 N + vz pos * m8 N + m12 N) * m1 M
         + (vx pos * m1 N + vy pos * m5 N + vz pos * m9 N + m13 N) * m5 M
         + (vx pos * m2 N + vy pos * m6 N + vz pos * m10 N + m14 N) * m9 M + m13 M
       = vx pos * (m0 N * m1 M + m1 N * m5 M + m2 N * m9 M)
         + vy pos * (m4 N * m1 M + m5 N * m5 M + m6 N * m9 M)
         + vz pos * (m8 N * m1 M + m9 N * m5 M + m10 N * m9 M)
         + (m12 N * m1 M + m13 N * m5 M + m14 N * m9 M + m13 M)"
    by (simp add: algebra_simps)
  have z: "(vx pos * m0 N + vy pos * m4 N + vz pos * m8 N + m12 N) * m2 M
         + (vx pos * m1 N + vy pos * m5 N + vz pos * m9 N + m13 N) * m6 M
         + (vx pos * m2 N + vy pos * m6 N + vz pos * m10 N + m14 N) * m10 M + m14 M
       = vx pos * (m0 N * m2 M + m1 N * m6 M + m2 N * m10 M)
         + vy pos * (m4 N * m2 M + m5 N * m6 M + m6 N * m10 M)
         + vz pos * (m8 N * m2 M + m9 N * m6 M + m10 N * m10 M)
         + (m12 N * m2 M + m13 N * m6 M + m14 N * m10 M + m14 M)"
    by (simp add: algebra_simps)
  show ?thesis
    unfolding getTranslation_def TransformCoordinates_def multiply_def Let_def
    by (simp add: n l x y z e)
qed

lemma computeAbsoluteTransforms_top:
  "data (computeAbsoluteTransforms pose q (Bone (data (computeAbsoluteTransforms pose q b)) cs))
     = data (computeAbsoluteTransforms pose q b)"
  by (cases b) (simp add: Let_def split: option.splits)

lemma computeAbsoluteTransforms_top_data:
  "data (computeAbsoluteTransforms pose (Some p) b)
     = (data b)\<lparr>absoluteTransform := multiply (bone_matrix (data b)) (absoluteTransform p)\<rparr>"
  by (cases b) (simp add: Let_def)

lemma getPosition_world:
  "getPosition_data WORLD mesh (d\<lparr>absoluteTransform := multiply L (absoluteTransform p)\<rparr>)
     = getTranslation (multiply L (parent_world mesh p))"
  by (cases mesh) (simp_all add: getPosition_data_def parent_world_def getTranslation_def
      multiply_assoc Let_def)

lemma roundtrip_base:
  assumes "affine (parent_world mesh p)"
    and "multiply (invert (parent_world mesh p)) (parent_world mesh p) = Identity"
    and "m15 (bone_matrix (data bq)) = 1"
  shows "\<exists>b2. on_data (setPosition_data pos WORLD mesh) (Some p) bq = Inr b2
           \<and> getPosition_data WORLD mesh (data (computeAbsoluteTransforms pose (Some p) b2)) = pos"
proof -
  define N where "N = invert (parent_world mesh p)"
  define L where "L = (bone_matrix (data bq))\<lparr>m12 := vx (TransformCoordinates pos N),
       m13 := vy (TransformCoordinates pos N), m14 := vz (TransformCoordinates pos N)\<rparr>"
  define b2 where "b2 = Bone (markAsDirty ((data bq)\<lparr>bone_matrix := L\<rparr>)) (children bq)"
  have s: "on_data (setPosition_data pos WORLD mesh) (Some p) bq = Inr b2"
    by (simp add: on_data_def setPosition_data_def Let_def b2_def L_def N_def parent_world_def)
  have "bone_matrix (data b2) = L" by (simp add: b2_def markAsDirty_def)
  then have "getPosition_data WORLD mesh (data (computeAbsoluteTransforms pose (Some p) b2))
      = getTranslation (multiply L (parent_world mesh p))"
    by (simp add: computeAbsoluteTransforms_top_data getPosition_world)
  also have "\<dots> = pos"
    unfolding L_def using roundtrip_core [OF assms(1) _ assms(3)] assms(2) N_def by simp
  finally show ?thesis using s by blast
qed

lemma roundtrip_tree:
  assumes "bone_at p q (computeAbsoluteTransforms pose q b) = Some (Some par, t)"
    and "m15 (bone_matrix (data t)) = 1"
    and "affine (parent_world mesh par)"
    and "multiply (invert (parent_world mesh par)) (parent_world mesh par) = Identity"
  shows "\<exists>b2 par' c. at_path (on_data (setPosition_data pos WORLD mesh)) p q
                        (computeAbsoluteTransforms pose q b) = Inr b2
           \<and> bone_at p q (computeAbsoluteTransforms pose q b2) = Some (par', c)
           \<and> getPosition_data WORLD mesh (data c) = pos"
  using assms(1)
proof (induction p arbitrary: q b)
  case Nil
  then have q: "q = Some par" and t: "t = computeAbsoluteTransforms pose q b" by auto
  from roundtrip_base [OF assms(3,4), of t pos pose] assms(2) obtain b2 where
    "on_data (setPosition_data pos WORLD mesh) (Some par) t = Inr b2"
    "getPosition_data WORLD mesh (data (computeAbsoluteTransforms pose (Some par) b2)) = pos"
    by blast
  with q t show ?case by simp
next
  case (Cons i p)
  define bq where "bq = computeAbsoluteTransforms pose q b"
  from Cons.prems have i: "i < length (children bq)"
    and bt: "bone_at p (Some (data bq)) (children bq ! i) = Some (Some par, t)"
    by (simp_all add: bq_def split: if_splits)
  from i have ib: "i < length (children b)"
    unfolding bq_def by (subst (asm) computeAbsoluteTransforms_children) simp
  have ci: "children bq ! i = computeAbsoluteTransforms pose (Some (data bq)) (children b ! i)"
    unfolding bq_def using ib by (subst computeAbsoluteTransforms_children) simp
  from Cons.IH [of "Some (data bq)" "children b ! i"] bt ci obtain c2 par' c where
    a: "at_path (on_data (setPosition_data pos WORLD mesh)) p (Some (data bq)) (children bq ! i) = Inr c2"
    and g: "bone_at p (Some (data bq)) (computeAbsoluteTransforms pose (Some (data bq)) c2) = Some (par', c)"
      "getPosition_data WORLD mesh (data c) = pos"
    by auto
  define b2 where "b2 = Bone (data bq) ((children bq)[i := c2])"
  from a i have r: "at_path (on_data (setPosition_data pos WORLD mesh)) (i # p) q bq = Inr b2"
    by (simp add: b2_def)
  have d2: "data (computeAbsoluteTransforms pose q b2) = data bq"
    unfolding b2_def bq_def by (rule computeAbsoluteTransforms_top)
  have "children (computeAbsoluteTransforms pose q b2)
      = map (computeAbsoluteTransforms pose (Some (data bq))) ((children bq)[i := c2])"
    by (subst computeAbsoluteTransforms_children) (simp add: d2, simp add: b2_def)
  with i have k: "i < length (children (computeAbsoluteTransforms pose q b2))"
    "children (computeAbsoluteTransforms pose q b2) ! i
       = computeAbsoluteTransforms pose (Some (data bq)) c2"
    by simp_all
  from k g d2 have "bone_at (i # p) q (computeAbsoluteTransforms pose q b2) = Some (par', c)"
    by simp
  with r g(2) show ?case unfolding bq_def by blast
qed

lemma setPosition_getPosition_roundtrip:
  assumes "skeleton_bone_at path (skeleton_computeAbsoluteTransforms sk) = Some (Some par, t)"
    and "m15 (bone_matrix (data t)) = 1"
    and "affine (parent_world mesh par)"
    and "determinant (parent_world mesh par) \<noteq> 0"
  shows "\<exists>sk2 sk3. setPosition pos WORLD mesh path sk = Inr sk2
           \<and> getPosition WORLD mesh path sk2 = Inr (pos, sk3)"
proof -
  define sk1 where "sk1 = skeleton_computeAbsoluteTransforms sk"
  from assms(1) obtain i p where path: "path = i # p"
    by (cases path) (simp_all add: skeleton_bone_at_def)
  from assms(1) path have i: "i < length (roots sk1)"
    and bt: "bone_at p None (roots sk1 ! i) = Some (Some par, t)"
    by (simp_all add: skeleton_bone_at_def sk1_def split: if_splits)
  from i have ri: "roots sk1 ! i = computeAbsoluteTransforms (poseMatrix sk) None (roots sk ! i)"
    by (simp add: sk1_def skeleton_computeAbsoluteTransforms_def)
  from invert_left [OF assms(4)]
  have inv: "multiply (invert (parent_world mesh par)) (parent_world mesh par) = Identity" .
  from roundtrip_tree [of p None "poseMatrix sk" "roots sk ! i" par t mesh pos]
    bt ri assms(2,3) inv
  obtain b2 par' c where
    a: "at_path (on_data (setPosition_data pos WORLD mesh)) p None (roots sk1 ! i) = Inr b2"
    and g: "bone_at p None (computeAbsoluteTransforms (poseMatrix sk) None b2) = Some (par', c)"
      "getPosition_data WORLD mesh (data c) = pos"
    by auto
  define sk2 where "sk2 = skeleton_markAsDirty (sk1\<lparr>roots := (roots sk1)[i := b2]\<rparr>)"
  from a i have s: "setPosition pos WORLD mesh path sk = Inr sk2"
    by (simp add: setPosition_def skeleton_at_def path sk1_def [symmetric] sk2_def Let_def)
  define sk3 where "sk3 = skeleton_computeAbsoluteTransforms sk2"
  have p2: "poseMatrix sk2 = poseMatrix sk"
    by (simp add: sk2_def sk1_def skeleton_markAsDirty_def skeleton_computeAbsoluteTransforms_def)
  from i have r3: "i < length (roots sk3)"
    "roots sk3 ! i = computeAbsoluteTransforms (poseMatrix sk) None b2"
    by (simp_all add: sk3_def sk2_def skeleton_markAsDirty_def
        skeleton_computeAbsoluteTransforms_def sk1_def)
  with g have "skeleton_bone_at path sk3 = Some (par', c)"
    by (simp add: skeleton_bone_at_def path)
  with g(2) have "getPosition WORLD mesh path sk2 = Inr (pos, sk3)"
    by (simp add: getPosition_def sk3_def [symmetric] Let_def)
  with s show ?thesis by blast
qed

text \<open>
  Claim C2, on the code.  For a root bone \<open>setPosition(p, WORLD)\<close> never returns: it
  dereferences the null parent, with or without a mesh, so there is no position to read
  back.  For a bone with a parent the round trip holds: when the parent's absolute
  transform (times the mesh's world matrix, if a mesh is given) is affine with a non-zero
  determinant and the bone's local matrix has \<open>m[15] = 1\<close>, \<open>setPosition(p, WORLD)\<close>
  returns and \<open>getPosition(WORLD)\<close> then returns \<open>p\<close>.
\<close>

theorem setPosition_getPosition_world:
  "setPosition pos WORLD mesh [i] sk \<noteq> Inr sk'
   \<and> (i < length (roots sk) \<longrightarrow> setPosition pos WORLD mesh [i] sk = Inl NullDereference)
   \<and> (skeleton_bone_at path (skeleton_computeAbsoluteTransforms sk) = Some (Some par, t)
        \<and> m15 (bone_matrix (data t)) = 1
        \<and> affine (parent_world mesh par)
        \<and> determinant (parent_world mesh par) \<noteq> 0 \<longrightarrow>
      (\<exists>sk2 sk3. setPosition pos WORLD mesh path sk = Inr sk2
           \<and> getPosition WORLD mesh path sk2 = Inr (pos, sk3)))"
proof (intro conjI impI)
  show "setPosition pos WORLD mesh [i] sk \<noteq> Inr sk'"
    by (simp add: setPosition_def skeleton_at_def on_data_def setPosition_data_def Let_def
        split: sum.splits)
  show "setPosition pos WORLD mesh [i] sk = Inl NullDereference" if "i < length (roots sk)"
    using that
    by (simp add: setPosition_def skeleton_at_def on_data_def setPosition_data_def Let_def
        skeleton_computeAbsoluteTransforms_def)
  show "\<exists>sk2 sk3. setPosition pos WORLD mesh path sk = Inr sk2
           \<and> getPosition WORLD mesh path sk2 = Inr (pos, sk3)"
    if "skeleton_bone_at path (skeleton_computeAbsoluteTransforms sk) = Some (Some par, t)
        \<and> m15 (bone_matrix (data t)) = 1
        \<and> affine (parent_world mesh par)
        \<and> determinant (parent_world mesh par) \<noteq> 0"
    using that setPosition_getPosition_roundtrip by blast
qed

lemma skeleton2_recomputed: "skeleton_computeAbsoluteTransforms skeleton2 = skeleton2"
  by (simp add: skeleton_computeAbsoluteTransforms_def skeleton2_def root_bone_eq child_bone_eq
      multiply_Identity Let_def)

theorem setPosition_getPosition_world_witness:
  "setPosition \<lparr>vx = 1, vy = 2, vz = 3\<rparr> WORLD None [0] skeleton2 = Inl NullDereference
   \<and> (\<exists>sk2 sk3. setPosition \<lparr>vx = 1, vy = 2, vz = 3\<rparr> WORLD None [0, 0] skeleton2 = Inr sk2
         \<and> getPosition WORLD None [0, 0] sk2 = Inr (\<lparr>vx = 1, vy = 2, vz = 3\<rparr>, sk3))"
proof -
  note t = setPosition_getPosition_world [where pos = "\<lparr>vx = 1, vy = 2, vz = 3\<rparr>"
      and mesh = None and sk = skeleton2 and i = 0 and path = "[0, 0]"
      and par = "data root_bone" and t = child_bone]
  have l: "(0::nat) < length (roots skeleton2)" by (simp add: skeleton2_def)
  have b: "skeleton_bone_at [0, 0] (skeleton_computeAbsoluteTransforms skeleton2)
      = Some (Some (data root_bone), child_bone)"
    by (simp add: skeleton2_recomputed) (simp add: skeleton_bone_at_def skeleton2_def)
  have m: "m15 (bone_matrix (data child_bone)) = 1"
    by (simp add: child_bone_eq Translation_def FromValues_def)
  have a: "affine (parent_world None (data root_bone))"
    by (simp add: affine_def parent_world_def root_bone_eq Identity_def FromValues_def)
  have d: "determinant (parent_world None (data root_bone)) \<noteq> 0"
    by (simp add: parent_world_def root_bone_eq det_Identity)
  from t l have "setPosition \<lparr>vx = 1, vy = 2, vz = 3\<rparr> WORLD None [0] skeleton2 = Inl NullDereference"
    by blast
  moreover from t b m a d
  have "\<exists>sk2 sk3. setPosition \<lparr>vx = 1, vy = 2, vz = 3\<rparr> WORLD None [0, 0] skeleton2 = Inr sk2
         \<and> getPosition WORLD None [0, 0] sk2 = Inr (\<lparr>vx = 1, vy = 2, vz = 3\<rparr>, sk3)"
    by blast
  ultimately show ?thesis by blast
qed

end
